theory Spec2Isabelle
  imports Main "HOL-Library.Word"
begin

unbundle bit_operations_syntax

section \<open>Bytecode words\<close>

text \<open>
  The compiler (\<^verbatim>\<open>src/duk_js_compiler.c\<close>) works on C \<^verbatim>\<open>int\<close> values and on 32-bit
  instruction words (\<^verbatim>\<open>duk_instr\<close>). C ints are modelled as \<^typ>\<open>int\<close>; the bit
  operations of \<^typ>\<open>int\<close> are those of two's complement, so they agree with C on
  every value that fits 32 bits. Instruction words are \<^typ>\<open>32 word\<close>.
\<close>

type_synonym duk_instr = "32 word"

text \<open>
  Modelled from the spec: the encoding and decoding macros of \<^verbatim>\<open>duk_js_bytecode.h\<close>,
  which is not under \<^verbatim>\<open>src/\<close>. The spec gives the layout: a 32-bit word is
  \<^verbatim>\<open>OP(6) A(8) B(9) C(9)\<close>, \<^verbatim>\<open>OP(6) A(8) BC(18)\<close> or \<^verbatim>\<open>OP(6) ABC(26)\<close>, the opcode in
  the lowest bits.
\<close>

definition DUK_DEC_OP :: "duk_instr \<Rightarrow> int" where
  "DUK_DEC_OP x = uint (take_bit 6 x)"

definition DUK_DEC_A :: "duk_instr \<Rightarrow> int" where
  "DUK_DEC_A x = uint (take_bit 8 (drop_bit 6 x))"

definition DUK_DEC_B :: "duk_instr \<Rightarrow> int" where
  "DUK_DEC_B x = uint (take_bit 9 (drop_bit 14 x))"

definition DUK_DEC_C :: "duk_instr \<Rightarrow> int" where
  "DUK_DEC_C x = uint (take_bit 9 (drop_bit 23 x))"

definition DUK_DEC_BC :: "duk_instr \<Rightarrow> int" where
  "DUK_DEC_BC x = uint (take_bit 18 (drop_bit 14 x))"

definition DUK_DEC_ABC :: "duk_instr \<Rightarrow> int" where
  "DUK_DEC_ABC x = uint (take_bit 26 (drop_bit 6 x))"

definition DUK_ENC_OP_ABC :: "int \<Rightarrow> int \<Rightarrow> duk_instr" where
  "DUK_ENC_OP_ABC op abc = word_of_int (push_bit 6 abc OR op)"

definition DUK_ENC_OP_A_BC :: "int \<Rightarrow> int \<Rightarrow> int \<Rightarrow> duk_instr" where
  "DUK_ENC_OP_A_BC op a bc = word_of_int (push_bit 14 bc OR push_bit 6 a OR op)"

definition DUK_ENC_OP_A_B_C :: "int \<Rightarrow> int \<Rightarrow> int \<Rightarrow> int \<Rightarrow> duk_instr" where
  "DUK_ENC_OP_A_B_C op a b c =
     word_of_int (push_bit 23 c OR push_bit 14 b OR push_bit 6 a OR op)"

text \<open>
  Modelled from the spec: the field limits of \<^verbatim>\<open>duk_js_bytecode.h\<close> (not under
  \<^verbatim>\<open>src/\<close>), from the field widths: A is 8 bits, B and C are 9 bits, BC is 18 bits
  and ABC is 26 bits.
\<close>

definition DUK_BC_A_MAX :: int where "DUK_BC_A_MAX = 0xff"
definition DUK_BC_B_MAX :: int where "DUK_BC_B_MAX = 0x1ff"
definition DUK_BC_C_MAX :: int where "DUK_BC_C_MAX = 0x1ff"
definition DUK_BC_BC_MAX :: int where "DUK_BC_BC_MAX = 0x3ffff"
definition DUK_BC_ABC_MAX :: int where "DUK_BC_ABC_MAX = 0x3ffffff"

text \<open>
  The opcode numbers, the operand biases, the flag bits and the compiler limits come
  from headers that are not under \<^verbatim>\<open>src/\<close> (\<^verbatim>\<open>duk_js_bytecode.h\<close>,
  \<^verbatim>\<open>duk_js_compiler.h\<close>) and the spec does not give their values. The model takes them
  as a parameter: one record with a field for each macro the modelled functions use
  (also from \<^verbatim>\<open>duk_hobject.h\<close> and \<^verbatim>\<open>duk_js.h\<close>).
  \<^verbatim>\<open>DUK_USE_FUNC_NONSTD_CALLER_PROPERTY\<close> is the build option tested by
  \<^verbatim>\<open>duk__parse_return_stmt\<close>. The last field is the value system's string coercion
  of a number (\<^verbatim>\<open>duk_to_string\<close>), used for a getter or setter named by a number.
\<close>

record duk_hdr =
  DUK_OP_LDREG :: int
  DUK_OP_STREG :: int
  DUK_OP_LDCONST :: int
  DUK_OP_LDINT :: int
  DUK_OP_LDINTX :: int
  DUK_OP_MPUTOBJ :: int
  DUK_OP_MPUTARR :: int
  DUK_OP_NEW :: int
  DUK_OP_CSREG :: int
  DUK_OP_CSVAR :: int
  DUK_OP_CSPROP :: int
  DUK_OP_JUMP :: int
  DUK_OP_RETURN :: int
  DUK_OP_CALL :: int
  DUK_OP_CALLI :: int
  DUK_OP_BREAK :: int
  DUK_OP_CONTINUE :: int
  DUK_OP_EXTRA :: int
  DUK_EXTRAOP_INITGET :: int
  DUK_EXTRAOP_INITSET :: int
  DUK_BC_JUMP_BIAS :: int
  DUK_BC_LDINT_BIAS :: int
  DUK_BC_LDINTX_SHIFT :: nat
  DUK_BC_RETURN_FLAG_FAST :: int
  DUK_BC_RETURN_FLAG_HAVE_RETVAL :: int
  DUK_BC_CALL_FLAG_TAILCALL :: int
  DUK_OP_CLOSURE :: int
  DUK_OP_DECLVAR :: int
  DUK_EXTRAOP_LDUNDEF :: int
  DUK_BC_DECLVAR_FLAG_UNDEF_VALUE :: int
  DUK_BC_DECLVAR_FLAG_FUNC_DECL :: int
  DUK_PROPDESC_FLAG_WRITABLE :: int
  DUK_PROPDESC_FLAG_ENUMERABLE :: int
  DUK_PROPDESC_FLAG_CONFIGURABLE :: int
  DUK_DECL_TYPE_VAR :: int
  DUK_DECL_TYPE_FUNC :: int
  DUK_LABEL_FLAG_ALLOW_BREAK :: int
  DUK_LABEL_FLAG_ALLOW_CONTINUE :: int
  DUK_JS_COMPILE_FLAG_EVAL :: int
  DUK_JS_COMPILE_FLAG_STRICT :: int
  DUK_JS_COMPILE_FLAG_FUNCEXPR :: int
  DUK_COMPILER_RECURSION_LIMIT :: int
  DUK_COMPILER_PEEPHOLE_MAXITER :: nat
  DUK_USE_FUNC_NONSTD_CALLER_PROPERTY :: bool
  duk_number_to_string :: "64 word \<Rightarrow> string"

text \<open>An entry of the code buffer: the instruction word and its source line.\<close>

record duk_compiler_instr =
  ins :: duk_instr
  line :: int

section \<open>The peephole optimizer\<close>

text \<open>
  \<^verbatim>\<open>duk__peephole_optimize_bytecode\<close>. The body of the inner \<^verbatim>\<open>for (i = 0; i < n; i++)\<close>
  loop, at index \<open>i\<close>: the new buffer and whether \<^verbatim>\<open>count_opt\<close> was incremented.
  The C code reads \<^verbatim>\<open>bc[target_pc1]\<close> behind two assertions only
  (\<^verbatim>\<open>target_pc1 >= 0\<close>, \<^verbatim>\<open>target_pc1 < n\<close>); a read outside the buffer is undefined
  behaviour and is the value \<open>None\<close> here.
\<close>

definition duk__peephole_body ::
  "duk_hdr \<Rightarrow> nat \<Rightarrow> nat \<Rightarrow> duk_compiler_instr list \<Rightarrow> (duk_compiler_instr list \<times> bool) option"
where
  "duk__peephole_body k n i bc =
     (let ins0 = ins (bc ! i) in
      if DUK_DEC_OP ins0 \<noteq> DUK_OP_JUMP k then Some (bc, False)
      else
        let target_pc1 = int i + 1 + DUK_DEC_ABC ins0 - DUK_BC_JUMP_BIAS k in
        if target_pc1 < 0 \<or> int n \<le> target_pc1 then None
        else
          let ins1 = ins (bc ! nat target_pc1) in
          if DUK_DEC_OP ins1 \<noteq> DUK_OP_JUMP k then Some (bc, False)
          else
            let target_pc2 = target_pc1 + 1 + DUK_DEC_ABC ins1 - DUK_BC_JUMP_BIAS k in
            Some (bc[i := (bc ! i)\<lparr>ins := DUK_ENC_OP_ABC (DUK_OP_JUMP k)
                             (target_pc2 - (int i + 1) + DUK_BC_JUMP_BIAS k)\<rparr>],
                  True))"

text \<open>The inner loop, from index \<open>i\<close> to \<open>n\<close>, threading the buffer and \<^verbatim>\<open>count_opt\<close>.\<close>

function duk__peephole_pass ::
  "duk_hdr \<Rightarrow> nat \<Rightarrow> nat \<Rightarrow> duk_compiler_instr list \<Rightarrow> int
     \<Rightarrow> (duk_compiler_instr list \<times> int) option"
where
  "duk__peephole_pass k n i bc count_opt =
     (if i < n then
        (case duk__peephole_body k n i bc of
           None \<Rightarrow> None
         | Some (bc', opt) \<Rightarrow>
             duk__peephole_pass k n (i + 1) bc' (if opt then count_opt + 1 else count_opt))
      else Some (bc, count_opt))"
  by pat_completeness auto
termination
  by (relation "measure (\<lambda>(k, n, i, bc, count_opt). n - i)") auto

declare duk__peephole_pass.simps [simp del]

text \<open>
  The outer \<^verbatim>\<open>for (iter = 0; iter < DUK_COMPILER_PEEPHOLE_MAXITER; iter++)\<close> loop, with
  its \<^verbatim>\<open>break\<close> when a pass leaves \<^verbatim>\<open>count_opt\<close> at 0. It returns the value of
  \<^verbatim>\<open>iter\<close> at the loop's exit together with the buffer.
\<close>

function duk__peephole_loop ::
  "duk_hdr \<Rightarrow> nat \<Rightarrow> nat \<Rightarrow> duk_compiler_instr list \<Rightarrow> (nat \<times> duk_compiler_instr list) option"
where
  "duk__peephole_loop k n iter bc =
     (if iter < DUK_COMPILER_PEEPHOLE_MAXITER k then
        (case duk__peephole_pass k n 0 bc 0 of
           None \<Rightarrow> None
         | Some (bc', count_opt) \<Rightarrow>
             if count_opt = 0 then Some (iter, bc')
             else duk__peephole_loop k n (iter + 1) bc')
      else Some (iter, bc))"
  by pat_completeness auto
termination
  by (relation "measure (\<lambda>(k, n, iter, bc). DUK_COMPILER_PEEPHOLE_MAXITER k - iter)") auto

declare duk__peephole_loop.simps [simp del]

definition duk__peephole_optimize_bytecode ::
  "duk_hdr \<Rightarrow> duk_compiler_instr list \<Rightarrow> duk_compiler_instr list option"
where
  "duk__peephole_optimize_bytecode k bc =
     map_option snd (duk__peephole_loop k (length bc) 0 bc)"

section \<open>Values, errors and results\<close>

text \<open>
  The error codes of the public API (\<^verbatim>\<open>website/api/defines.html\<close>). The compiler itself
  throws \<^verbatim>\<open>DUK_ERR_INTERNAL_ERROR\<close>, \<^verbatim>\<open>DUK_ERR_RANGE_ERROR\<close> and \<^verbatim>\<open>DUK_ERR_SYNTAX_ERROR\<close>.
\<close>

datatype duk_errcode =
    DUK_ERR_UNIMPLEMENTED_ERROR
  | DUK_ERR_UNSUPPORTED_ERROR
  | DUK_ERR_INTERNAL_ERROR
  | DUK_ERR_ALLOC_ERROR
  | DUK_ERR_ASSERTION_ERROR
  | DUK_ERR_API_ERROR
  | DUK_ERR_UNCAUGHT_ERROR
  | DUK_ERR_ERROR
  | DUK_ERR_EVAL_ERROR
  | DUK_ERR_RANGE_ERROR
  | DUK_ERR_REFERENCE_ERROR
  | DUK_ERR_SYNTAX_ERROR
  | DUK_ERR_TYPE_ERROR
  | DUK_ERR_URI_ERROR

text \<open>
  Modelled from the spec: the tagged values of the value system (\<^verbatim>\<open>duk_tval\<close>, not under
  \<^verbatim>\<open>src/\<close>): undefined, null, boolean, number and string, and references to heap
  objects and buffers. A number is an IEEE-754 double, kept as its 64-bit pattern;
  strings are interned, so two string values are the same value when their bytes are.
\<close>

datatype duk_tval =
    DUK_TVAL_UNDEFINED
  | DUK_TVAL_NULL
  | DUK_TVAL_BOOLEAN bool
  | DUK_TVAL_NUMBER "64 word"
  | DUK_TVAL_STRING string
  | DUK_TVAL_OBJECT nat
  | DUK_TVAL_BUFFER nat

text \<open>
  A thrown value. \<^verbatim>\<open>duk_error\<close> (\<^verbatim>\<open>website/api/duk_error.txt\<close>) throws an error object
  whose class follows the error code and whose \<^verbatim>\<open>message\<close> property is the given
  string; the error handlers \<^verbatim>\<open>Duktape.errcreate\<close> and \<^verbatim>\<open>Duktape.errthrow\<close> may
  replace an error by any value, so a thrown value may also be another object (given
  here by its \<^verbatim>\<open>message\<close> property read as a string, if it has one) or no object at
  all.
\<close>

datatype duk_thrown =
    Error_object duk_errcode string
  | Plain_object "string option"
  | Plain_value duk_tval

text \<open>
  The outcome of a C function that works on a state \<open>'s\<close>: it returns a value and the
  new state, or throws (a \<^verbatim>\<open>longjmp\<close> out of the function, which leaves the state as it
  was at the throw), or its behaviour is undefined (an access outside a buffer).
\<close>

datatype ('a, 's) res =
    Ok 'a 's
  | Throw duk_thrown 's
  | Undefined_behaviour

definition and_then :: "('a, 's) res \<Rightarrow> ('a \<Rightarrow> 's \<Rightarrow> ('b, 's) res) \<Rightarrow> ('b, 's) res" where
  "and_then r f =
     (case r of
        Ok x s \<Rightarrow> f x s
      | Throw e s \<Rightarrow> Throw e s
      | Undefined_behaviour \<Rightarrow> Undefined_behaviour)"

text \<open>
  \<^verbatim>\<open>DUK_ERROR(thr, code, msg)\<close>: create an error object and throw it. (The macro is not
  under \<^verbatim>\<open>src/\<close>; this is its documented behaviour with no error handler installed.)
\<close>

definition DUK_ERROR :: "'s \<Rightarrow> duk_errcode \<Rightarrow> string \<Rightarrow> ('a, 's) res" where
  "DUK_ERROR s code msg = Throw (Error_object code msg) s"

text \<open>The decimal digits of an integer, as \<^verbatim>\<open>%d\<close> prints it.\<close>

fun fmt_nat :: "nat \<Rightarrow> string" where
  "fmt_nat n =
     (if n < 10 then [char_of (48 + n)]
      else fmt_nat (n div 10) @ [char_of (48 + n mod 10)])"

declare fmt_nat.simps [simp del]

definition fmt_d :: "int \<Rightarrow> string" where
  "fmt_d i = (if i < 0 then CHR ''-'' # fmt_nat (nat (- i)) else fmt_nat (nat i))"

section \<open>Tokens and the token table\<close>

text \<open>
  The fields of \<^verbatim>\<open>duk_token\<close> that the compiler reads (the structure is declared in
  \<^verbatim>\<open>duk_lexer.h\<close>, not under \<^verbatim>\<open>src/\<close>; the field \<^verbatim>\<open>t\<close> is \<open>tok_t\<close> here, and so on).
\<close>

record duk_token =
  tok_t :: int
  tok_t_nores :: int
  tok_str1 :: string
  tok_num :: "64 word"
  tok_num_escapes :: int
  tok_lineterm :: bool
  tok_allow_auto_semi :: bool
  tok_start_offset :: int
  tok_start_line :: int

definition DUK__BP_INVALID :: int where "DUK__BP_INVALID = 0"
definition DUK__BP_EOF :: int where "DUK__BP_EOF = 2"
definition DUK__BP_CLOSING :: int where "DUK__BP_CLOSING = 4"
definition DUK__BP_FOR_EXPR :: int where "DUK__BP_FOR_EXPR = DUK__BP_CLOSING"
definition DUK__BP_COMMA :: int where "DUK__BP_COMMA = 6"
definition DUK__BP_ASSIGNMENT :: int where "DUK__BP_ASSIGNMENT = 8"
definition DUK__BP_CONDITIONAL :: int where "DUK__BP_CONDITIONAL = 10"
definition DUK__BP_LOR :: int where "DUK__BP_LOR = 12"
definition DUK__BP_LAND :: int where "DUK__BP_LAND = 14"
definition DUK__BP_BOR :: int where "DUK__BP_BOR = 16"
definition DUK__BP_BXOR :: int where "DUK__BP_BXOR = 18"
definition DUK__BP_BAND :: int where "DUK__BP_BAND = 20"
definition DUK__BP_EQUALITY :: int where "DUK__BP_EQUALITY = 22"
definition DUK__BP_RELATIONAL :: int where "DUK__BP_RELATIONAL = 24"
definition DUK__BP_SHIFT :: int where "DUK__BP_SHIFT = 26"
definition DUK__BP_ADDITIVE :: int where "DUK__BP_ADDITIVE = 28"
definition DUK__BP_MULTIPLICATIVE :: int where "DUK__BP_MULTIPLICATIVE = 30"
definition DUK__BP_POSTFIX :: int where "DUK__BP_POSTFIX = 32"
definition DUK__BP_CALL :: int where "DUK__BP_CALL = 34"
definition DUK__BP_MEMBER :: int where "DUK__BP_MEMBER = 36"

definition DUK__TOKEN_LBP_BP_MASK :: int where "DUK__TOKEN_LBP_BP_MASK = 0x1f"
definition DUK__TOKEN_LBP_FLAG_NO_REGEXP :: int where "DUK__TOKEN_LBP_FLAG_NO_REGEXP = push_bit 5 1"
definition DUK__TOKEN_LBP_FLAG_TERMINATES :: int where "DUK__TOKEN_LBP_FLAG_TERMINATES = push_bit 6 1"

definition DUK__TOKEN_LBP_GET_BP :: "int \<Rightarrow> int" where
  "DUK__TOKEN_LBP_GET_BP x = (x AND DUK__TOKEN_LBP_BP_MASK) * 2"

definition DUK__MK_LBP :: "int \<Rightarrow> int" where
  "DUK__MK_LBP bp = drop_bit 1 bp"

definition DUK__MK_LBP_FLAGS :: "int \<Rightarrow> int \<Rightarrow> int" where
  "DUK__MK_LBP_FLAGS bp flags = drop_bit 1 bp OR flags"

definition duk__token_lbp :: "int list" where
  "duk__token_lbp =
     [
      DUK__MK_LBP DUK__BP_EOF,  \<comment> \<open>DUK_TOK_EOF\<close>
      DUK__MK_LBP DUK__BP_INVALID,  \<comment> \<open>DUK_TOK_LINETERM\<close>
      DUK__MK_LBP DUK__BP_INVALID,  \<comment> \<open>DUK_TOK_COMMENT\<close>
      DUK__MK_LBP_FLAGS DUK__BP_INVALID DUK__TOKEN_LBP_FLAG_NO_REGEXP,  \<comment> \<open>DUK_TOK_IDENTIFIER\<close>
      DUK__MK_LBP DUK__BP_INVALID,  \<comment> \<open>DUK_TOK_BREAK\<close>
      DUK__MK_LBP DUK__BP_INVALID,  \<comment> \<open>DUK_TOK_CASE\<close>
      DUK__MK_LBP DUK__BP_INVALID,  \<comment> \<open>DUK_TOK_CATCH\<close>
      DUK__MK_LBP DUK__BP_INVALID,  \<comment> \<open>DUK_TOK_CONTINUE\<close>
      DUK__MK_LBP DUK__BP_INVALID,  \<comment> \<open>DUK_TOK_DEBUGGER\<close>
      DUK__MK_LBP DUK__BP_INVALID,  \<comment> \<open>DUK_TOK_DEFAULT\<close>
      DUK__MK_LBP DUK__BP_INVALID,  \<comment> \<open>DUK_TOK_DELETE\<close>
      DUK__MK_LBP DUK__BP_INVALID,  \<comment> \<open>DUK_TOK_DO\<close>
      DUK__MK_LBP DUK__BP_INVALID,  \<comment> \<open>DUK_TOK_ELSE\<close>
      DUK__MK_LBP DUK__BP_INVALID,  \<comment> \<open>DUK_TOK_FINALLY\<close>
      DUK__MK_LBP DUK__BP_INVALID,  \<comment> \<open>DUK_TOK_FOR\<close>
      DUK__MK_LBP DUK__BP_INVALID,  \<comment> \<open>DUK_TOK_FUNCTION\<close>
      DUK__MK_LBP DUK__BP_INVALID,  \<comment> \<open>DUK_TOK_IF\<close>
      DUK__MK_LBP DUK__BP_RELATIONAL,  \<comment> \<open>DUK_TOK_IN\<close>
      DUK__MK_LBP DUK__BP_RELATIONAL,  \<comment> \<open>DUK_TOK_INSTANCEOF\<close>
      DUK__MK_LBP DUK__BP_INVALID,  \<comment> \<open>DUK_TOK_NEW\<close>
      DUK__MK_LBP DUK__BP_INVALID,  \<comment> \<open>DUK_TOK_RETURN\<close>
      DUK__MK_LBP DUK__BP_INVALID,  \<comment> \<open>DUK_TOK_SWITCH\<close>
      DUK__MK_LBP_FLAGS DUK__BP_INVALID DUK__TOKEN_LBP_FLAG_NO_REGEXP,  \<comment> \<open>DUK_TOK_THIS\<close>
      DUK__MK_LBP DUK__BP_INVALID,  \<comment> \<open>DUK_TOK_THROW\<close>
      DUK__MK_LBP DUK__BP_INVALID,  \<comment> \<open>DUK_TOK_TRY\<close>
      DUK__MK_LBP DUK__BP_INVALID,  \<comment> \<open>DUK_TOK_TYPEOF\<close>
      DUK__MK_LBP DUK__BP_INVALID,  \<comment> \<open>DUK_TOK_VAR\<close>
      DUK__MK_LBP DUK__BP_INVALID,  \<comment> \<open>DUK_TOK_VOID\<close>
      DUK__MK_LBP DUK__BP_INVALID,  \<comment> \<open>DUK_TOK_WHILE\<close>
      DUK__MK_LBP DUK__BP_INVALID,  \<comment> \<open>DUK_TOK_WITH\<close>
      DUK__MK_LBP DUK__BP_INVALID,  \<comment> \<open>DUK_TOK_CLASS\<close>
      DUK__MK_LBP DUK__BP_INVALID,  \<comment> \<open>DUK_TOK_CONST\<close>
      DUK__MK_LBP DUK__BP_INVALID,  \<comment> \<open>DUK_TOK_ENUM\<close>
      DUK__MK_LBP DUK__BP_INVALID,  \<comment> \<open>DUK_TOK_EXPORT\<close>
      DUK__MK_LBP DUK__BP_INVALID,  \<comment> \<open>DUK_TOK_EXTENDS\<close>
      DUK__MK_LBP DUK__BP_INVALID,  \<comment> \<open>DUK_TOK_IMPORT\<close>
      DUK__MK_LBP DUK__BP_INVALID,  \<comment> \<open>DUK_TOK_SUPER\<close>
      DUK__MK_LBP_FLAGS DUK__BP_INVALID DUK__TOKEN_LBP_FLAG_NO_REGEXP,  \<comment> \<open>DUK_TOK_NULL\<close>
      DUK__MK_LBP_FLAGS DUK__BP_INVALID DUK__TOKEN_LBP_FLAG_NO_REGEXP,  \<comment> \<open>DUK_TOK_TRUE\<close>
      DUK__MK_LBP_FLAGS DUK__BP_INVALID DUK__TOKEN_LBP_FLAG_NO_REGEXP,  \<comment> \<open>DUK_TOK_FALSE\<close>
      DUK__MK_LBP DUK__BP_INVALID,  \<comment> \<open>DUK_TOK_GET\<close>
      DUK__MK_LBP DUK__BP_INVALID,  \<comment> \<open>DUK_TOK_SET\<close>
      DUK__MK_LBP DUK__BP_INVALID,  \<comment> \<open>DUK_TOK_IMPLEMENTS\<close>
      DUK__MK_LBP DUK__BP_INVALID,  \<comment> \<open>DUK_TOK_INTERFACE\<close>
      DUK__MK_LBP DUK__BP_INVALID,  \<comment> \<open>DUK_TOK_LET\<close>
      DUK__MK_LBP DUK__BP_INVALID,  \<comment> \<open>DUK_TOK_PACKAGE\<close>
      DUK__MK_LBP DUK__BP_INVALID,  \<comment> \<open>DUK_TOK_PRIVATE\<close>
      DUK__MK_LBP DUK__BP_INVALID,  \<comment> \<open>DUK_TOK_PROTECTED\<close>
      DUK__MK_LBP DUK__BP_INVALID,  \<comment> \<open>DUK_TOK_PUBLIC\<close>
      DUK__MK_LBP DUK__BP_INVALID,  \<comment> \<open>DUK_TOK_STATIC\<close>
      DUK__MK_LBP DUK__BP_INVALID,  \<comment> \<open>DUK_TOK_YIELD\<close>
      DUK__MK_LBP DUK__BP_INVALID,  \<comment> \<open>DUK_TOK_LCURLY\<close>
      DUK__MK_LBP_FLAGS DUK__BP_INVALID DUK__TOKEN_LBP_FLAG_NO_REGEXP,  \<comment> \<open>DUK_TOK_RCURLY\<close>
      DUK__MK_LBP DUK__BP_MEMBER,  \<comment> \<open>DUK_TOK_LBRACKET\<close>
      DUK__MK_LBP_FLAGS DUK__BP_CLOSING DUK__TOKEN_LBP_FLAG_NO_REGEXP,  \<comment> \<open>DUK_TOK_RBRACKET\<close>
      DUK__MK_LBP DUK__BP_CALL,  \<comment> \<open>DUK_TOK_LPAREN\<close>
      DUK__MK_LBP_FLAGS DUK__BP_CLOSING DUK__TOKEN_LBP_FLAG_NO_REGEXP,  \<comment> \<open>DUK_TOK_RPAREN\<close>
      DUK__MK_LBP DUK__BP_MEMBER,  \<comment> \<open>DUK_TOK_PERIOD\<close>
      DUK__MK_LBP DUK__BP_INVALID,  \<comment> \<open>DUK_TOK_SEMICOLON\<close>
      DUK__MK_LBP DUK__BP_COMMA,  \<comment> \<open>DUK_TOK_COMMA\<close>
      DUK__MK_LBP DUK__BP_RELATIONAL,  \<comment> \<open>DUK_TOK_LT\<close>
      DUK__MK_LBP DUK__BP_RELATIONAL,  \<comment> \<open>DUK_TOK_GT\<close>
      DUK__MK_LBP DUK__BP_RELATIONAL,  \<comment> \<open>DUK_TOK_LE\<close>
      DUK__MK_LBP DUK__BP_RELATIONAL,  \<comment> \<open>DUK_TOK_GE\<close>
      DUK__MK_LBP DUK__BP_EQUALITY,  \<comment> \<open>DUK_TOK_EQ\<close>
      DUK__MK_LBP DUK__BP_EQUALITY,  \<comment> \<open>DUK_TOK_NEQ\<close>
      DUK__MK_LBP DUK__BP_EQUALITY,  \<comment> \<open>DUK_TOK_SEQ\<close>
      DUK__MK_LBP DUK__BP_EQUALITY,  \<comment> \<open>DUK_TOK_SNEQ\<close>
      DUK__MK_LBP DUK__BP_ADDITIVE,  \<comment> \<open>DUK_TOK_ADD\<close>
      DUK__MK_LBP DUK__BP_ADDITIVE,  \<comment> \<open>DUK_TOK_SUB\<close>
      DUK__MK_LBP DUK__BP_MULTIPLICATIVE,  \<comment> \<open>DUK_TOK_MUL\<close>
      DUK__MK_LBP DUK__BP_MULTIPLICATIVE,  \<comment> \<open>DUK_TOK_DIV\<close>
      DUK__MK_LBP DUK__BP_MULTIPLICATIVE,  \<comment> \<open>DUK_TOK_MOD\<close>
      DUK__MK_LBP DUK__BP_POSTFIX,  \<comment> \<open>DUK_TOK_INCREMENT\<close>
      DUK__MK_LBP DUK__BP_POSTFIX,  \<comment> \<open>DUK_TOK_DECREMENT\<close>
      DUK__MK_LBP DUK__BP_SHIFT,  \<comment> \<open>DUK_TOK_ALSHIFT\<close>
      DUK__MK_LBP DUK__BP_SHIFT,  \<comment> \<open>DUK_TOK_ARSHIFT\<close>
      DUK__MK_LBP DUK__BP_SHIFT,  \<comment> \<open>DUK_TOK_RSHIFT\<close>
      DUK__MK_LBP DUK__BP_BAND,  \<comment> \<open>DUK_TOK_BAND\<close>
      DUK__MK_LBP DUK__BP_BOR,  \<comment> \<open>DUK_TOK_BOR\<close>
      DUK__MK_LBP DUK__BP_BXOR,  \<comment> \<open>DUK_TOK_BXOR\<close>
      DUK__MK_LBP DUK__BP_INVALID,  \<comment> \<open>DUK_TOK_LNOT\<close>
      DUK__MK_LBP DUK__BP_INVALID,  \<comment> \<open>DUK_TOK_BNOT\<close>
      DUK__MK_LBP DUK__BP_LAND,  \<comment> \<open>DUK_TOK_LAND\<close>
      DUK__MK_LBP DUK__BP_LOR,  \<comment> \<open>DUK_TOK_LOR\<close>
      DUK__MK_LBP DUK__BP_CONDITIONAL,  \<comment> \<open>DUK_TOK_QUESTION\<close>
      DUK__MK_LBP DUK__BP_INVALID,  \<comment> \<open>DUK_TOK_COLON\<close>
      DUK__MK_LBP DUK__BP_ASSIGNMENT,  \<comment> \<open>DUK_TOK_EQUALSIGN\<close>
      DUK__MK_LBP DUK__BP_ASSIGNMENT,  \<comment> \<open>DUK_TOK_ADD_EQ\<close>
      DUK__MK_LBP DUK__BP_ASSIGNMENT,  \<comment> \<open>DUK_TOK_SUB_EQ\<close>
      DUK__MK_LBP DUK__BP_ASSIGNMENT,  \<comment> \<open>DUK_TOK_MUL_EQ\<close>
      DUK__MK_LBP DUK__BP_ASSIGNMENT,  \<comment> \<open>DUK_TOK_DIV_EQ\<close>
      DUK__MK_LBP DUK__BP_ASSIGNMENT,  \<comment> \<open>DUK_TOK_MOD_EQ\<close>
      DUK__MK_LBP DUK__BP_ASSIGNMENT,  \<comment> \<open>DUK_TOK_ALSHIFT_EQ\<close>
      DUK__MK_LBP DUK__BP_ASSIGNMENT,  \<comment> \<open>DUK_TOK_ARSHIFT_EQ\<close>
      DUK__MK_LBP DUK__BP_ASSIGNMENT,  \<comment> \<open>DUK_TOK_RSHIFT_EQ\<close>
      DUK__MK_LBP DUK__BP_ASSIGNMENT,  \<comment> \<open>DUK_TOK_BAND_EQ\<close>
      DUK__MK_LBP DUK__BP_ASSIGNMENT,  \<comment> \<open>DUK_TOK_BOR_EQ\<close>
      DUK__MK_LBP DUK__BP_ASSIGNMENT,  \<comment> \<open>DUK_TOK_BXOR_EQ\<close>
      DUK__MK_LBP_FLAGS DUK__BP_INVALID DUK__TOKEN_LBP_FLAG_NO_REGEXP,  \<comment> \<open>DUK_TOK_NUMBER\<close>
      DUK__MK_LBP_FLAGS DUK__BP_INVALID DUK__TOKEN_LBP_FLAG_NO_REGEXP,  \<comment> \<open>DUK_TOK_STRING\<close>
      DUK__MK_LBP_FLAGS DUK__BP_INVALID DUK__TOKEN_LBP_FLAG_NO_REGEXP  \<comment> \<open>DUK_TOK_REGEXP\<close>
     ]"

text \<open>
  The token numbers \<^verbatim>\<open>DUK_TOK_XXX\<close> are defined in \<^verbatim>\<open>duk_lexer.h\<close> (not under
  \<^verbatim>\<open>src/\<close>). The source says that the table above is ordered by them and asserts
  that its size is \<^verbatim>\<open>DUK_TOK_MAXVAL + 1\<close>, so a token's number is its row in the table.
\<close>

definition DUK_TOK_EOF :: int where "DUK_TOK_EOF = 0"
definition DUK_TOK_IDENTIFIER :: int where "DUK_TOK_IDENTIFIER = 3"
definition DUK_TOK_BREAK :: int where "DUK_TOK_BREAK = 4"
definition DUK_TOK_CONTINUE :: int where "DUK_TOK_CONTINUE = 7"
definition DUK_TOK_FUNCTION :: int where "DUK_TOK_FUNCTION = 15"
definition DUK_TOK_IN :: int where "DUK_TOK_IN = 17"
definition DUK_TOK_RETURN :: int where "DUK_TOK_RETURN = 20"
definition DUK_TOK_LCURLY :: int where "DUK_TOK_LCURLY = 51"
definition DUK_TOK_RCURLY :: int where "DUK_TOK_RCURLY = 52"
definition DUK_TOK_LPAREN :: int where "DUK_TOK_LPAREN = 55"
definition DUK_TOK_RPAREN :: int where "DUK_TOK_RPAREN = 56"
definition DUK_TOK_SEMICOLON :: int where "DUK_TOK_SEMICOLON = 58"
definition DUK_TOK_COMMA :: int where "DUK_TOK_COMMA = 59"
definition DUK_TOK_INCREMENT :: int where "DUK_TOK_INCREMENT = 73"
definition DUK_TOK_DECREMENT :: int where "DUK_TOK_DECREMENT = 74"
definition DUK_TOK_COLON :: int where "DUK_TOK_COLON = 86"
definition DUK_TOK_NUMBER :: int where "DUK_TOK_NUMBER = 99"
definition DUK_TOK_STRING :: int where "DUK_TOK_STRING = 100"
definition DUK_TOK_MINVAL :: int where "DUK_TOK_MINVAL = 0"
definition DUK_TOK_MAXVAL :: int where "DUK_TOK_MAXVAL = 101"

section \<open>The compiler state\<close>

text \<open>
  Modelled from the spec: a function template (\<^verbatim>\<open>duk_hcompiledfunction\<close>, not under
  \<^verbatim>\<open>src/\<close>), with the parts that \<^verbatim>\<open>duk__convert_to_func_template\<close> fills from the
  compiler's function state: bytecode, constants, inner templates, \<^verbatim>\<open>nregs\<close>,
  \<^verbatim>\<open>nargs\<close>, the formals, the name and the strict flag.
\<close>

datatype duk_hcompiledfunction =
  Compiledfunction
    (tpl_bytecode: "duk_instr list")
    (tpl_consts: "duk_tval list")
    (tpl_funcs: "duk_hcompiledfunction list")
    (tpl_nregs: int)
    (tpl_nargs: int)
    (tpl_formals: "string list")
    (tpl_name: "string option")
    (tpl_strict: bool)

text \<open>
  \<^verbatim>\<open>duk_labelinfo\<close> (declared in \<^verbatim>\<open>duk_js_compiler.h\<close>, not under \<^verbatim>\<open>src/\<close>), with the
  fields that \<^verbatim>\<open>duk__add_label\<close> fills; the field \<^verbatim>\<open>flags\<close> is \<open>li_flags\<close> here, and
  so on.
\<close>

record duk_labelinfo =
  li_flags :: int
  li_label_id :: int
  li_h_label :: string
  li_catch_depth :: int
  li_pc_label :: int

text \<open>
  A value of the variable map: a register number or \<^verbatim>\<open>null\<close> (the slow path).
\<close>

datatype duk_varmap_value = Varmap_reg int | Varmap_null

text \<open>
  \<^verbatim>\<open>duk_compiler_func\<close> (declared in \<^verbatim>\<open>duk_js_compiler.h\<close>): the fields the modelled
  functions use. The buffers and arrays that the C code keeps on the value stack
  (\<^verbatim>\<open>h_code\<close>, \<^verbatim>\<open>h_consts\<close>, \<^verbatim>\<open>h_funcs\<close>, \<^verbatim>\<open>h_decls\<close>, \<^verbatim>\<open>h_labelinfos\<close>,
  \<^verbatim>\<open>h_argnames\<close>, \<^verbatim>\<open>h_varmap\<close>) are lists and a map. \<^verbatim>\<open>h_funcs\<close> holds three
  entries for each inner function (template, lexer offset and line of its closing
  brace), kept as a triple; \<^verbatim>\<open>h_decls\<close> holds two for each declaration (name, type),
  kept as a pair.
\<close>

record duk_compiler_func =
  h_name :: "string option"
  h_code :: "duk_compiler_instr list"
  h_consts :: "duk_tval list"
  h_funcs :: "(duk_hcompiledfunction \<times> int \<times> int) list"
  h_decls :: "(string \<times> int) list"
  h_labelinfos :: "duk_labelinfo list"
  h_argnames :: "string list"
  h_varmap :: "string \<rightharpoonup> duk_varmap_value"
  is_function :: bool
  is_eval :: bool
  is_global :: bool
  is_setget :: bool
  is_decl :: bool
  is_strict :: bool
  is_arguments_shadowed :: bool
  in_directive_prologue :: bool
  in_scanning :: bool
  may_direct_eval :: bool
  id_access_arguments :: bool
  id_access_slow :: bool
  needs_shuffle :: bool
  reject_regexp_in_adv :: bool
  allow_in :: bool
  temp_first :: int
  temp_next :: int
  temp_max :: int
  shuffle1 :: int
  shuffle2 :: int
  shuffle3 :: int
  stmt_next :: int
  label_next :: int
  fnum_next :: int
  catch_depth :: int
  reg_stmt_value :: int

text \<open>\<^verbatim>\<open>DUK_MEMZERO(func, sizeof(*func))\<close> with fresh, empty buffers: \<^verbatim>\<open>duk__init_func_valstack_slots\<close>.\<close>

definition duk__init_func_valstack_slots :: duk_compiler_func where
  "duk__init_func_valstack_slots =
     \<lparr>h_name = None, h_code = [], h_consts = [], h_funcs = [], h_decls = [],
      h_labelinfos = [], h_argnames = [], h_varmap = Map.empty,
      is_function = False, is_eval = False, is_global = False, is_setget = False,
      is_decl = False, is_strict = False, is_arguments_shadowed = False,
      in_directive_prologue = False, in_scanning = False, may_direct_eval = False,
      id_access_arguments = False, id_access_slow = False, needs_shuffle = False,
      reject_regexp_in_adv = False, allow_in = False,
      temp_first = 0, temp_next = 0, temp_max = 0, shuffle1 = 0, shuffle2 = 0,
      shuffle3 = 0, stmt_next = 0, label_next = 0, fnum_next = 0, catch_depth = 0,
      reg_stmt_value = 0\<rparr>"

record duk_lexer_point =
  lp_offset :: int
  lp_line :: int

text \<open>
  \<^verbatim>\<open>duk_compiler_ctx\<close>. The lexer context \<^verbatim>\<open>lex\<close> belongs to the lexer, which is not
  under \<^verbatim>\<open>src/\<close>: its state is a type parameter.
\<close>

record 'lex duk_compiler_ctx =
  curr_func :: duk_compiler_func
  curr_token :: duk_token
  prev_token :: duk_token
  lex :: 'lex
  h_filename :: "string option"
  recursion_depth :: int
  recursion_limit :: int

text \<open>
  The lexer, taken as a parameter: \<^verbatim>\<open>duk_lexer_parse_js_input_element(lex, tok, strict,
  regexp)\<close> works on the lexer context and on the token it fills, and may throw;
  \<^verbatim>\<open>DUK_LEXER_GETPOINT\<close> and \<^verbatim>\<open>DUK_LEXER_SETPOINT\<close> read and set the lexer's position.
\<close>

record 'lex duk_lexer =
  duk_lexer_parse_js_input_element ::
    "bool \<Rightarrow> bool \<Rightarrow> 'lex \<times> duk_token \<Rightarrow> (unit, 'lex \<times> duk_token) res"
  DUK_LEXER_GETPOINT :: "'lex \<Rightarrow> duk_lexer_point"
  DUK_LEXER_SETPOINT :: "'lex \<Rightarrow> duk_lexer_point \<Rightarrow> 'lex"

section \<open>Misc helpers\<close>

definition duk__recursion_increase :: "'lex duk_compiler_ctx \<Rightarrow> (unit, 'lex duk_compiler_ctx) res" where
  "duk__recursion_increase comp_ctx =
     (if recursion_depth comp_ctx \<ge> recursion_limit comp_ctx
      then DUK_ERROR comp_ctx DUK_ERR_RANGE_ERROR ''compiler recursion limit''
      else Ok () (comp_ctx\<lparr>recursion_depth := recursion_depth comp_ctx + 1\<rparr>))"

definition duk__recursion_decrease :: "'lex duk_compiler_ctx \<Rightarrow> 'lex duk_compiler_ctx" where
  "duk__recursion_decrease comp_ctx = comp_ctx\<lparr>recursion_depth := recursion_depth comp_ctx - 1\<rparr>"

text \<open>
  Modelled from the spec: the string flags read by \<^verbatim>\<open>DUK_HSTRING_HAS_EVAL_OR_ARGUMENTS\<close>,
  \<^verbatim>\<open>DUK_HSTRING_HAS_STRICT_RESERVED_WORD\<close> and \<^verbatim>\<open>DUK_HSTRING_HAS_RESERVED_WORD\<close> (set
  where the built-in strings are created, not under \<^verbatim>\<open>src/\<close>). The first marks the
  names \<^verbatim>\<open>eval\<close> and \<^verbatim>\<open>arguments\<close>; the second marks the words that are reserved in
  strict mode only (the rows \<^verbatim>\<open>DUK_TOK_IMPLEMENTS\<close> to \<^verbatim>\<open>DUK_TOK_YIELD\<close> of the token
  table); the third marks every reserved word (the rows \<^verbatim>\<open>DUK_TOK_BREAK\<close> to
  \<^verbatim>\<open>DUK_TOK_YIELD\<close>, without the contextual \<^verbatim>\<open>get\<close> and \<^verbatim>\<open>set\<close>).
\<close>

definition DUK_HSTRING_HAS_EVAL_OR_ARGUMENTS :: "string \<Rightarrow> bool" where
  "DUK_HSTRING_HAS_EVAL_OR_ARGUMENTS h = (h = ''eval'' \<or> h = ''arguments'')"

definition strict_reserved_words :: "string list" where
  "strict_reserved_words =
     [''implements'', ''interface'', ''let'', ''package'', ''private'', ''protected'',
      ''public'', ''static'', ''yield'']"

definition nonstrict_reserved_words :: "string list" where
  "nonstrict_reserved_words =
     [''break'', ''case'', ''catch'', ''continue'', ''debugger'', ''default'', ''delete'',
      ''do'', ''else'', ''finally'', ''for'', ''function'', ''if'', ''in'', ''instanceof'',
      ''new'', ''return'', ''switch'', ''this'', ''throw'', ''try'', ''typeof'', ''var'',
      ''void'', ''while'', ''with'', ''class'', ''const'', ''enum'', ''export'', ''extends'',
      ''import'', ''super'', ''null'', ''true'', ''false'']"

definition DUK_HSTRING_HAS_STRICT_RESERVED_WORD :: "string \<Rightarrow> bool" where
  "DUK_HSTRING_HAS_STRICT_RESERVED_WORD h = (h \<in> set strict_reserved_words)"

definition DUK_HSTRING_HAS_RESERVED_WORD :: "string \<Rightarrow> bool" where
  "DUK_HSTRING_HAS_RESERVED_WORD h =
     (h \<in> set nonstrict_reserved_words \<or> h \<in> set strict_reserved_words)"

definition duk__hstring_is_eval_or_arguments :: "'lex duk_compiler_ctx \<Rightarrow> string \<Rightarrow> bool" where
  "duk__hstring_is_eval_or_arguments comp_ctx h = DUK_HSTRING_HAS_EVAL_OR_ARGUMENTS h"

section \<open>Token eating\<close>

text \<open>
  \<^verbatim>\<open>duk__advance_helper\<close>. The read of \<^verbatim>\<open>duk__token_lbp[curr_token.t]\<close> stands behind an
  assertion only; outside the table it is undefined behaviour.
\<close>

definition duk__advance_helper ::
  "'lex duk_lexer \<Rightarrow> int \<Rightarrow> 'lex duk_compiler_ctx \<Rightarrow> (unit, 'lex duk_compiler_ctx) res"
where
  "duk__advance_helper lx expect comp_ctx =
     (let t = tok_t (curr_token comp_ctx) in
      if t < 0 \<or> t > DUK_TOK_MAXVAL then Undefined_behaviour
      else
        let regexp0 = ((duk__token_lbp ! nat t) AND DUK__TOKEN_LBP_FLAG_NO_REGEXP = 0);
            rej = reject_regexp_in_adv (curr_func comp_ctx);
            comp_ctx1 =
              (if rej
               then comp_ctx\<lparr>curr_func := (curr_func comp_ctx)\<lparr>reject_regexp_in_adv := False\<rparr>\<rparr>
               else comp_ctx);
            regexp = (regexp0 \<and> \<not> rej)
        in
        if expect \<ge> 0 \<and> t \<noteq> expect
        then DUK_ERROR comp_ctx1 DUK_ERR_SYNTAX_ERROR
               (''parse error (expected token '' @ fmt_d expect @ '', got '' @ fmt_d t @ '')'')
        else
          let comp_ctx2 = comp_ctx1\<lparr>prev_token := curr_token comp_ctx1\<rparr> in
          (case duk_lexer_parse_js_input_element lx (is_strict (curr_func comp_ctx2)) regexp
                  (lex comp_ctx2, curr_token comp_ctx2) of
             Ok u (l, tok) \<Rightarrow> Ok () (comp_ctx2\<lparr>lex := l, curr_token := tok\<rparr>)
           | Throw e (l, tok) \<Rightarrow> Throw e (comp_ctx2\<lparr>lex := l, curr_token := tok\<rparr>)
           | Undefined_behaviour \<Rightarrow> Undefined_behaviour))"

definition duk__advance_expect ::
  "'lex duk_lexer \<Rightarrow> int \<Rightarrow> 'lex duk_compiler_ctx \<Rightarrow> (unit, 'lex duk_compiler_ctx) res"
where
  "duk__advance_expect lx expect comp_ctx = duk__advance_helper lx expect comp_ctx"

definition duk__advance ::
  "'lex duk_lexer \<Rightarrow> 'lex duk_compiler_ctx \<Rightarrow> (unit, 'lex duk_compiler_ctx) res"
where
  "duk__advance lx comp_ctx = duk__advance_helper lx (- 1) comp_ctx"


section \<open>Code emission\<close>

text \<open>
  Modelled from the spec: \<^verbatim>\<open>DUK__CONST_MARKER\<close> is \<^verbatim>\<open>DUK_JS_CONST_MARKER\<close> of
  \<^verbatim>\<open>duk_js_bytecode.h\<close> (not under \<^verbatim>\<open>src/\<close>). The source says of it: if the highest
  bit of a register number is set, it refers to a constant instead. As a 32-bit C int,
  the value with only the highest bit set is \<open>- 2 ^ 31\<close>.
\<close>

definition DUK__CONST_MARKER :: int where
  "DUK__CONST_MARKER = - (2 ^ 31)"

definition DUK__GETCONST_MAX_CONSTS_CHECK :: int where
  "DUK__GETCONST_MAX_CONSTS_CHECK = 256"

definition DUK__MAX_CONSTS :: int where "DUK__MAX_CONSTS = DUK_BC_BC_MAX + 1"
definition DUK__MAX_TEMPS :: int where "DUK__MAX_TEMPS = DUK_BC_BC_MAX + 1"

definition DUK__EMIT_FLAG_NO_SHUFFLE_A :: int where "DUK__EMIT_FLAG_NO_SHUFFLE_A = push_bit 8 1"
definition DUK__EMIT_FLAG_NO_SHUFFLE_B :: int where "DUK__EMIT_FLAG_NO_SHUFFLE_B = push_bit 9 1"
definition DUK__EMIT_FLAG_NO_SHUFFLE_C :: int where "DUK__EMIT_FLAG_NO_SHUFFLE_C = push_bit 10 1"
definition DUK__EMIT_FLAG_A_IS_SOURCE :: int where "DUK__EMIT_FLAG_A_IS_SOURCE = push_bit 11 1"
definition DUK__EMIT_FLAG_B_IS_TARGET :: int where "DUK__EMIT_FLAG_B_IS_TARGET = push_bit 12 1"
definition DUK__EMIT_FLAG_C_IS_TARGET :: int where "DUK__EMIT_FLAG_C_IS_TARGET = push_bit 13 1"

definition duk__get_current_pc :: "'lex duk_compiler_ctx \<Rightarrow> int" where
  "duk__get_current_pc comp_ctx = int (length (h_code (curr_func comp_ctx)))"

text \<open>
  \<^verbatim>\<open>duk__get_instr_ptr\<close>: the entry at \<open>pc\<close>. The bounds are asserted only; outside the
  buffer there is no entry (\<open>None\<close>) and a use of the pointer is undefined behaviour.
\<close>

definition duk__get_instr_ptr :: "'lex duk_compiler_ctx \<Rightarrow> int \<Rightarrow> duk_compiler_instr option" where
  "duk__get_instr_ptr comp_ctx pc =
     (if 0 \<le> pc \<and> pc < int (length (h_code (curr_func comp_ctx)))
      then Some (h_code (curr_func comp_ctx) ! nat pc) else None)"

text \<open>
  \<^verbatim>\<open>duk__emit\<close>: append one instruction, with the line of the current token. (The
  append can fail only when memory runs out, which the model leaves out.)
\<close>

definition duk__emit :: "duk_instr \<Rightarrow> 'lex duk_compiler_ctx \<Rightarrow> 'lex duk_compiler_ctx" where
  "duk__emit i comp_ctx =
     comp_ctx\<lparr>curr_func := (curr_func comp_ctx)
       \<lparr>h_code := h_code (curr_func comp_ctx) @
          [\<lparr>ins = i, line = tok_start_line (curr_token comp_ctx)\<rparr>]\<rparr>\<rparr>"

definition set_needs_shuffle :: "'lex duk_compiler_ctx \<Rightarrow> 'lex duk_compiler_ctx" where
  "set_needs_shuffle comp_ctx =
     comp_ctx\<lparr>curr_func := (curr_func comp_ctx)\<lparr>needs_shuffle := True\<rparr>\<rparr>"

definition error_outofregs :: "'lex duk_compiler_ctx \<Rightarrow> ('a, 'lex duk_compiler_ctx) res" where
  "error_outofregs comp_ctx = DUK_ERROR comp_ctx DUK_ERR_RANGE_ERROR ''out of regs''"

definition duk__emit_a_bc ::
  "duk_hdr \<Rightarrow> int \<Rightarrow> int \<Rightarrow> int \<Rightarrow> 'lex duk_compiler_ctx \<Rightarrow> (unit, 'lex duk_compiler_ctx) res"
where
  "duk__emit_a_bc k op_flags a bc0 comp_ctx =
     (let bc = bc0 AND NOT DUK__CONST_MARKER in
      if \<not> bc \<le> DUK_BC_BC_MAX then error_outofregs comp_ctx
      else if a \<le> DUK_BC_A_MAX then
        Ok () (duk__emit (DUK_ENC_OP_A_BC (op_flags AND 0xff) a bc) comp_ctx)
      else if op_flags AND DUK__EMIT_FLAG_NO_SHUFFLE_A \<noteq> 0 then error_outofregs comp_ctx
      else if a \<le> DUK_BC_BC_MAX then
        (let comp_ctx1 = set_needs_shuffle comp_ctx;
             tmp = shuffle1 (curr_func comp_ctx1);
             i = DUK_ENC_OP_A_BC (op_flags AND 0xff) tmp bc
         in
         if op_flags AND DUK__EMIT_FLAG_A_IS_SOURCE \<noteq> 0
         then Ok () (duk__emit i (duk__emit (DUK_ENC_OP_A_BC (DUK_OP_LDREG k) tmp a) comp_ctx1))
         else Ok () (duk__emit (DUK_ENC_OP_A_BC (DUK_OP_STREG k) tmp a) (duk__emit i comp_ctx1)))
      else error_outofregs comp_ctx)"

definition duk__emit_abc ::
  "int \<Rightarrow> int \<Rightarrow> 'lex duk_compiler_ctx \<Rightarrow> (unit, 'lex duk_compiler_ctx) res"
where
  "duk__emit_abc op abc comp_ctx = Ok () (duk__emit (DUK_ENC_OP_ABC op abc) comp_ctx)"

definition duk__emit_loadint ::
  "duk_hdr \<Rightarrow> int \<Rightarrow> int \<Rightarrow> 'lex duk_compiler_ctx \<Rightarrow> (unit, 'lex duk_compiler_ctx) res"
where
  "duk__emit_loadint k reg val comp_ctx =
     (if val \<ge> 0 - DUK_BC_LDINT_BIAS k \<and> val \<le> DUK_BC_BC_MAX - DUK_BC_LDINT_BIAS k
      then duk__emit_a_bc k (DUK_OP_LDINT k) reg (val + DUK_BC_LDINT_BIAS k) comp_ctx
      else
        (let hi = drop_bit (DUK_BC_LDINTX_SHIFT k) val;
             lo = val AND (push_bit (DUK_BC_LDINTX_SHIFT k) 1 - 1)
         in and_then (duk__emit_a_bc k (DUK_OP_LDINT k) reg (hi + DUK_BC_LDINT_BIAS k) comp_ctx)
              (\<lambda>_. duk__emit_a_bc k (DUK_OP_LDINTX k) reg lo)))"

text \<open>
  \<^verbatim>\<open>duk__emit_a_b_c\<close>. Its local variables are a record; the three slots are handled
  in turn, as in the C function, and each may emit shuffling code, change the
  locals, or fail.
\<close>

record duk__emit_locals =
  e_op_flags :: int
  e_ins :: duk_instr
  e_a :: int
  e_b :: int
  e_c :: int
  e_a_out :: int
  e_b_out :: int
  e_c_out :: int

definition duk__emit_a_b_c_slot_a ::
  "duk_hdr \<Rightarrow> duk__emit_locals \<Rightarrow> 'lex duk_compiler_ctx
     \<Rightarrow> (duk__emit_locals, 'lex duk_compiler_ctx) res"
where
  "duk__emit_a_b_c_slot_a k v comp_ctx =
     (if e_a v \<le> DUK_BC_A_MAX then Ok v comp_ctx
      else if e_op_flags v AND DUK__EMIT_FLAG_NO_SHUFFLE_A \<noteq> 0 then error_outofregs comp_ctx
      else if e_a v \<le> DUK_BC_BC_MAX then
        (let comp_ctx1 = set_needs_shuffle comp_ctx;
             tmp = shuffle1 (curr_func comp_ctx1)
         in
         if e_op_flags v AND DUK__EMIT_FLAG_A_IS_SOURCE \<noteq> 0
         then Ok (v\<lparr>e_a := tmp\<rparr>)
                 (duk__emit (DUK_ENC_OP_A_BC (DUK_OP_LDREG k) tmp (e_a v)) comp_ctx1)
         else
           (let op = e_op_flags v AND 0xff in
            if op = DUK_OP_CSVAR k \<or> op = DUK_OP_CSREG k \<or> op = DUK_OP_CSPROP k
            then and_then (duk__emit_loadint k tmp (e_a v) comp_ctx1)
                   (\<lambda>_. Ok (v\<lparr>e_op_flags := e_op_flags v + 1, e_a := tmp\<rparr>))
            else Ok (v\<lparr>e_a_out := e_a v, e_a := tmp\<rparr>) comp_ctx1))
      else error_outofregs comp_ctx)"

definition duk__emit_a_b_c_slot_b ::
  "duk_hdr \<Rightarrow> duk__emit_locals \<Rightarrow> 'lex duk_compiler_ctx
     \<Rightarrow> (duk__emit_locals, 'lex duk_compiler_ctx) res"
where
  "duk__emit_a_b_c_slot_b k v comp_ctx =
     (if e_b v AND DUK__CONST_MARKER \<noteq> 0 then
        (let b = e_b v AND NOT DUK__CONST_MARKER in
         if b \<le> 0xff
         then Ok (v\<lparr>e_b := b, e_ins := e_ins v OR DUK_ENC_OP_A_B_C 0 0 0x100 0\<rparr>) comp_ctx
         else if b \<le> DUK_BC_BC_MAX then
           (let comp_ctx1 = set_needs_shuffle comp_ctx;
                tmp = shuffle2 (curr_func comp_ctx1)
            in Ok (v\<lparr>e_b := tmp\<rparr>)
                  (duk__emit (DUK_ENC_OP_A_BC (DUK_OP_LDCONST k) tmp b) comp_ctx1))
         else error_outofregs comp_ctx)
      else if e_b v \<le> 0xff then Ok v comp_ctx
      else if e_op_flags v AND DUK__EMIT_FLAG_NO_SHUFFLE_B \<noteq> 0 then
        (if e_b v > DUK_BC_B_MAX then error_outofregs comp_ctx else Ok v comp_ctx)
      else if e_b v \<le> DUK_BC_BC_MAX then
        (let comp_ctx1 = set_needs_shuffle comp_ctx;
             tmp = shuffle2 (curr_func comp_ctx1)
         in
         if e_op_flags v AND DUK__EMIT_FLAG_B_IS_TARGET \<noteq> 0
         then Ok (v\<lparr>e_b_out := e_b v, e_b := tmp\<rparr>) comp_ctx1
         else
           (let op = e_op_flags v AND 0xff in
            if op = DUK_OP_CALL k \<or> op = DUK_OP_NEW k \<or>
               op = DUK_OP_MPUTOBJ k \<or> op = DUK_OP_MPUTARR k
            then and_then (duk__emit_loadint k tmp (e_b v) comp_ctx1)
                   (\<lambda>_. Ok (v\<lparr>e_op_flags := e_op_flags v + 1, e_b := tmp\<rparr>))
            else Ok (v\<lparr>e_b := tmp\<rparr>)
                    (duk__emit (DUK_ENC_OP_A_BC (DUK_OP_LDREG k) tmp (e_b v)) comp_ctx1)))
      else error_outofregs comp_ctx)"

definition duk__emit_a_b_c_slot_c ::
  "duk_hdr \<Rightarrow> duk__emit_locals \<Rightarrow> 'lex duk_compiler_ctx
     \<Rightarrow> (duk__emit_locals, 'lex duk_compiler_ctx) res"
where
  "duk__emit_a_b_c_slot_c k v comp_ctx =
     (if e_c v AND DUK__CONST_MARKER \<noteq> 0 then
        (let c = e_c v AND NOT DUK__CONST_MARKER in
         if c \<le> 0xff
         then Ok (v\<lparr>e_c := c, e_ins := e_ins v OR DUK_ENC_OP_A_B_C 0 0 0 0x100\<rparr>) comp_ctx
         else if c \<le> DUK_BC_BC_MAX then
           (let comp_ctx1 = set_needs_shuffle comp_ctx;
                tmp = shuffle3 (curr_func comp_ctx1)
            in Ok (v\<lparr>e_c := tmp\<rparr>)
                  (duk__emit (DUK_ENC_OP_A_BC (DUK_OP_LDCONST k) tmp c) comp_ctx1))
         else error_outofregs comp_ctx)
      else if e_c v \<le> 0xff then Ok v comp_ctx
      else if e_op_flags v AND DUK__EMIT_FLAG_NO_SHUFFLE_C \<noteq> 0 then
        (if e_c v > DUK_BC_C_MAX then error_outofregs comp_ctx else Ok v comp_ctx)
      else if e_c v \<le> DUK_BC_BC_MAX then
        (let comp_ctx1 = set_needs_shuffle comp_ctx;
             tmp = shuffle3 (curr_func comp_ctx1)
         in
         if e_op_flags v AND DUK__EMIT_FLAG_C_IS_TARGET \<noteq> 0
         then Ok (v\<lparr>e_c_out := e_c v, e_c := tmp\<rparr>) comp_ctx1
         else
           (let op = e_op_flags v AND 0xff in
            if op = DUK_OP_EXTRA k \<and>
               (e_a v = DUK_EXTRAOP_INITGET k \<or> e_a v = DUK_EXTRAOP_INITSET k)
            then and_then (duk__emit_loadint k tmp (e_c v) comp_ctx1)
                   (\<lambda>_. Ok (v\<lparr>e_a := e_a v + 1, e_c := tmp\<rparr>))
            else Ok (v\<lparr>e_c := tmp\<rparr>)
                    (duk__emit (DUK_ENC_OP_A_BC (DUK_OP_LDREG k) tmp (e_c v)) comp_ctx1)))
      else error_outofregs comp_ctx)"

text \<open>The main operation and the output shuffle that may follow it.\<close>

definition duk__emit_a_b_c_main ::
  "duk_hdr \<Rightarrow> duk__emit_locals \<Rightarrow> 'lex duk_compiler_ctx \<Rightarrow> 'lex duk_compiler_ctx"
where
  "duk__emit_a_b_c_main k v comp_ctx =
     (let i = e_ins v OR DUK_ENC_OP_A_B_C (e_op_flags v AND 0xff) (e_a v) (e_b v) (e_c v);
          comp_ctx1 = duk__emit i comp_ctx
      in
      if e_a_out v \<noteq> 0
      then duk__emit (DUK_ENC_OP_A_BC (DUK_OP_STREG k) (e_a v) (e_a_out v)) comp_ctx1
      else if e_b_out v \<noteq> 0
      then duk__emit (DUK_ENC_OP_A_BC (DUK_OP_STREG k) (e_b v) (e_b_out v)) comp_ctx1
      else if e_c_out v \<noteq> 0
      then duk__emit (DUK_ENC_OP_A_BC (DUK_OP_STREG k) (e_c v) (e_c_out v)) comp_ctx1
      else comp_ctx1)"

definition duk__emit_a_b_c ::
  "duk_hdr \<Rightarrow> int \<Rightarrow> int \<Rightarrow> int \<Rightarrow> int \<Rightarrow> 'lex duk_compiler_ctx
     \<Rightarrow> (unit, 'lex duk_compiler_ctx) res"
where
  "duk__emit_a_b_c k op_flags a b c comp_ctx =
     and_then (duk__emit_a_b_c_slot_a k
                 \<lparr>e_op_flags = op_flags, e_ins = 0, e_a = a, e_b = b, e_c = c,
                  e_a_out = 0, e_b_out = 0, e_c_out = 0\<rparr> comp_ctx)
       (\<lambda>v1 comp_ctx1. and_then (duk__emit_a_b_c_slot_b k v1 comp_ctx1)
       (\<lambda>v2 comp_ctx2. and_then (duk__emit_a_b_c_slot_c k v2 comp_ctx2)
       (\<lambda>v3 comp_ctx3. Ok () (duk__emit_a_b_c_main k v3 comp_ctx3))))"

definition duk__emit_a_b ::
  "duk_hdr \<Rightarrow> int \<Rightarrow> int \<Rightarrow> int \<Rightarrow> 'lex duk_compiler_ctx \<Rightarrow> (unit, 'lex duk_compiler_ctx) res"
where
  "duk__emit_a_b k op_flags a b comp_ctx = duk__emit_a_b_c k op_flags a b 0 comp_ctx"

definition duk__emit_extraop_bc ::
  "duk_hdr \<Rightarrow> int \<Rightarrow> int \<Rightarrow> 'lex duk_compiler_ctx \<Rightarrow> (unit, 'lex duk_compiler_ctx) res"
where
  "duk__emit_extraop_bc k extraop bc comp_ctx =
     duk__emit_a_bc k (DUK_OP_EXTRA k) extraop bc comp_ctx"

definition duk__emit_jump ::
  "duk_hdr \<Rightarrow> int \<Rightarrow> 'lex duk_compiler_ctx \<Rightarrow> (unit, 'lex duk_compiler_ctx) res"
where
  "duk__emit_jump k target_pc comp_ctx =
     (let curr_pc = int (length (h_code (curr_func comp_ctx)));
          offset = target_pc - curr_pc - 1
      in duk__emit_abc (DUK_OP_JUMP k) (offset + DUK_BC_JUMP_BIAS k) comp_ctx)"

text \<open>
  \<^verbatim>\<open>duk__patch_jump\<close>: overwrite the entry at \<open>jump_pc\<close> with a \<^verbatim>\<open>JUMP\<close> to
  \<open>target_pc\<close>; a negative \<open>jump_pc\<close> is a no-op.
\<close>

definition duk__patch_jump ::
  "duk_hdr \<Rightarrow> int \<Rightarrow> int \<Rightarrow> 'lex duk_compiler_ctx \<Rightarrow> (unit, 'lex duk_compiler_ctx) res"
where
  "duk__patch_jump k jump_pc target_pc comp_ctx =
     (if jump_pc < 0 then Ok () comp_ctx
      else
        (case duk__get_instr_ptr comp_ctx jump_pc of
           None \<Rightarrow> Undefined_behaviour
         | Some instr \<Rightarrow>
             (let offset = target_pc - jump_pc - 1 in
              Ok () (comp_ctx\<lparr>curr_func := (curr_func comp_ctx)
                \<lparr>h_code := (h_code (curr_func comp_ctx))
                   [nat jump_pc := instr\<lparr>ins := DUK_ENC_OP_ABC (DUK_OP_JUMP k)
                                                 (offset + DUK_BC_JUMP_BIAS k)\<rparr>]\<rparr>\<rparr>))))"

section \<open>Temporaries and constants\<close>

definition duk__alloctemps ::
  "int \<Rightarrow> 'lex duk_compiler_ctx \<Rightarrow> (int, 'lex duk_compiler_ctx) res"
where
  "duk__alloctemps num comp_ctx =
     (let res = temp_next (curr_func comp_ctx);
          comp_ctx1 = comp_ctx\<lparr>curr_func := (curr_func comp_ctx)
                        \<lparr>temp_next := temp_next (curr_func comp_ctx) + num\<rparr>\<rparr>
      in
      if temp_next (curr_func comp_ctx1) > DUK__MAX_TEMPS
      then DUK_ERROR comp_ctx1 DUK_ERR_INTERNAL_ERROR ''out of temps''
      else if temp_next (curr_func comp_ctx1) > temp_max (curr_func comp_ctx1)
      then Ok res (comp_ctx1\<lparr>curr_func := (curr_func comp_ctx1)
                     \<lparr>temp_max := temp_next (curr_func comp_ctx1)\<rparr>\<rparr>)
      else Ok res comp_ctx1)"

definition duk__alloctemp :: "'lex duk_compiler_ctx \<Rightarrow> (int, 'lex duk_compiler_ctx) res" where
  "duk__alloctemp comp_ctx = duk__alloctemps 1 comp_ctx"

definition duk__settemp_checkmax :: "int \<Rightarrow> 'lex duk_compiler_ctx \<Rightarrow> 'lex duk_compiler_ctx" where
  "duk__settemp_checkmax tn comp_ctx =
     (let f = (curr_func comp_ctx)\<lparr>temp_next := tn\<rparr> in
      if tn > temp_max f then comp_ctx\<lparr>curr_func := f\<lparr>temp_max := tn\<rparr>\<rparr>
      else comp_ctx\<lparr>curr_func := f\<rparr>)"

definition DUK__SETTEMP :: "int \<Rightarrow> 'lex duk_compiler_ctx \<Rightarrow> 'lex duk_compiler_ctx" where
  "DUK__SETTEMP x comp_ctx = comp_ctx\<lparr>curr_func := (curr_func comp_ctx)\<lparr>temp_next := x\<rparr>\<rparr>"

text \<open>
  Modelled from the spec: \<^verbatim>\<open>duk_js_samevalue\<close> (not under \<^verbatim>\<open>src/\<close>) is the SameValue
  of ES5: it tells \<open>+0\<close> from \<open>-0\<close> and takes NaN as equal to NaN. On the 64-bit
  patterns of doubles: two numbers are the same value when both are NaN or their
  patterns are equal (\<open>+0\<close> and \<open>-0\<close> differ in the sign bit). A NaN has all eleven
  exponent bits set and a fraction that is not zero.
\<close>

definition duk_double_is_nan :: "64 word \<Rightarrow> bool" where
  "duk_double_is_nan d = (take_bit 11 (drop_bit 52 d) = 0x7ff \<and> take_bit 52 d \<noteq> 0)"

fun duk_js_samevalue :: "duk_tval \<Rightarrow> duk_tval \<Rightarrow> bool" where
  "duk_js_samevalue (DUK_TVAL_NUMBER x) (DUK_TVAL_NUMBER y) =
     ((duk_double_is_nan x \<and> duk_double_is_nan y) \<or> x = y)"
| "duk_js_samevalue tv1 tv2 = (tv1 = tv2)"

text \<open>
  \<^verbatim>\<open>duk__getconst\<close>, for the value \<open>tv1\<close> at the top of the value stack. The scan loop
  \<^verbatim>\<open>for (i = 0; i < n_check; i++)\<close> gives the first index whose entry is the same value.
\<close>

function duk__getconst_scan :: "duk_tval \<Rightarrow> duk_tval list \<Rightarrow> nat \<Rightarrow> nat \<Rightarrow> nat option" where
  "duk__getconst_scan tv1 cs i n_check =
     (if i < n_check then
        (if duk_js_samevalue tv1 (cs ! i) then Some i
         else duk__getconst_scan tv1 cs (i + 1) n_check)
      else None)"
  by pat_completeness auto
termination
  by (relation "measure (\<lambda>(tv1, cs, i, n_check). n_check - i)") auto

declare duk__getconst_scan.simps [simp del]

definition duk__getconst ::
  "duk_tval \<Rightarrow> 'lex duk_compiler_ctx \<Rightarrow> (int, 'lex duk_compiler_ctx) res"
where
  "duk__getconst tv1 comp_ctx =
     (let f = curr_func comp_ctx;
          n = int (length (h_consts f));
          n_check = (if n > DUK__GETCONST_MAX_CONSTS_CHECK
                     then DUK__GETCONST_MAX_CONSTS_CHECK else n)
      in
      case duk__getconst_scan tv1 (h_consts f) 0 (nat n_check) of
        Some i \<Rightarrow> Ok (int i OR DUK__CONST_MARKER) comp_ctx
      | None \<Rightarrow>
          if n \<ge> DUK__MAX_CONSTS
          then DUK_ERROR comp_ctx DUK_ERR_INTERNAL_ERROR ''out of consts''
          else Ok (n OR DUK__CONST_MARKER)
                  (comp_ctx\<lparr>curr_func := f\<lparr>h_consts := h_consts f @ [tv1]\<rparr>\<rparr>))"


section \<open>Labels, break and continue\<close>

text \<open>
  \<^verbatim>\<open>duk__lookup_active_label\<close>. The loop \<^verbatim>\<open>while (li > li_start) { li--; ... }\<close> walks the
  label stack from the newest entry down; \<open>li\<close> is the index of the entry after the
  one looked at next. It ends with the index of the match, with no match, or with
  the syntax error for a \<^verbatim>\<open>continue\<close> that names a statement which is not an iteration.
\<close>

datatype duk__label_match = Label_match nat | Label_no_match | Label_invalid_continue

fun duk__lookup_active_label_loop ::
  "duk_hdr \<Rightarrow> string \<Rightarrow> bool \<Rightarrow> duk_labelinfo list \<Rightarrow> nat \<Rightarrow> duk__label_match"
where
  "duk__lookup_active_label_loop k h_label is_break labels 0 = Label_no_match"
| "duk__lookup_active_label_loop k h_label is_break labels (Suc li) =
     (if li_h_label (labels ! li) \<noteq> h_label
      then duk__lookup_active_label_loop k h_label is_break labels li
      else if is_break then Label_match li
      else if li_flags (labels ! li) AND DUK_LABEL_FLAG_ALLOW_CONTINUE k \<noteq> 0 then Label_match li
      else if h_label \<noteq> '''' then Label_invalid_continue
      else duk__lookup_active_label_loop k h_label is_break labels li)"

text \<open>The four output values of \<^verbatim>\<open>duk__lookup_active_label\<close>.\<close>

record duk__label_lookup =
  out_label_id :: int
  out_label_catch_depth :: int
  out_label_pc :: int
  out_is_closest :: bool

definition duk__lookup_active_label ::
  "duk_hdr \<Rightarrow> string \<Rightarrow> bool \<Rightarrow> 'lex duk_compiler_ctx
     \<Rightarrow> (duk__label_lookup, 'lex duk_compiler_ctx) res"
where
  "duk__lookup_active_label k h_label is_break comp_ctx =
     (let labels = h_labelinfos (curr_func comp_ctx) in
      case duk__lookup_active_label_loop k h_label is_break labels (length labels) of
        Label_invalid_continue \<Rightarrow>
          DUK_ERROR comp_ctx DUK_ERR_SYNTAX_ERROR
            ''continue label matches an invalid statement type''
      | Label_no_match \<Rightarrow> DUK_ERROR comp_ctx DUK_ERR_SYNTAX_ERROR ''cannot resolve label''
      | Label_match li \<Rightarrow>
          Ok \<lparr>out_label_id = li_label_id (labels ! li),
              out_label_catch_depth = li_catch_depth (labels ! li),
              out_label_pc = li_pc_label (labels ! li),
              out_is_closest = (li = length labels - 1)\<rparr> comp_ctx)"

definition duk__parse_break_or_continue_stmt ::
  "duk_hdr \<Rightarrow> 'lex duk_lexer \<Rightarrow> 'lex duk_compiler_ctx \<Rightarrow> (unit, 'lex duk_compiler_ctx) res"
where
  "duk__parse_break_or_continue_stmt k lx comp_ctx =
     (let is_break = (tok_t (curr_token comp_ctx) = DUK_TOK_BREAK) in
      and_then (duk__advance lx comp_ctx)
        (\<lambda>_ comp_ctx1.
          and_then
            (if tok_t (curr_token comp_ctx1) = DUK_TOK_SEMICOLON \<or>
                tok_lineterm (curr_token comp_ctx1) \<or>
                tok_allow_auto_semi (curr_token comp_ctx1)
             then duk__lookup_active_label k '''' is_break comp_ctx1
             else if tok_t (curr_token comp_ctx1) = DUK_TOK_IDENTIFIER
             then and_then
                    (duk__lookup_active_label k (tok_str1 (curr_token comp_ctx1)) is_break comp_ctx1)
                    (\<lambda>l comp_ctx2. and_then (duk__advance lx comp_ctx2) (\<lambda>_. Ok l))
             else DUK_ERROR comp_ctx1 DUK_ERR_SYNTAX_ERROR ''invalid break/continue label'')
            (\<lambda>l comp_ctx3.
              if out_label_catch_depth l = catch_depth (curr_func comp_ctx3) \<and> out_is_closest l
              then duk__emit_jump k (out_label_pc l + (if is_break then 1 else 2)) comp_ctx3
              else duk__emit_abc (if is_break then DUK_OP_BREAK k else DUK_OP_CONTINUE k)
                     (out_label_id l) comp_ctx3)))"

section \<open>The return statement\<close>

text \<open>
  \<^verbatim>\<open>duk__parse_return_stmt\<close>. The expression parser \<^verbatim>\<open>duk__exprtop_toregconst\<close> is a
  parameter: it works on the compiler state and gives the register or constant of
  the value.
\<close>

definition duk__parse_return_stmt ::
  "duk_hdr \<Rightarrow> 'lex duk_lexer \<Rightarrow>
   (int \<Rightarrow> 'lex duk_compiler_ctx \<Rightarrow> (int, 'lex duk_compiler_ctx) res) \<Rightarrow>
   'lex duk_compiler_ctx \<Rightarrow> (unit, 'lex duk_compiler_ctx) res"
where
  "duk__parse_return_stmt k lx duk__exprtop_toregconst comp_ctx =
     and_then (duk__advance lx comp_ctx)
       (\<lambda>_ comp_ctx1.
         if \<not> is_function (curr_func comp_ctx1)
         then DUK_ERROR comp_ctx1 DUK_ERR_SYNTAX_ERROR ''invalid return''
         else
           (let emit_return = (\<lambda>ret_flags0 reg_val comp_ctx'.
                  duk__emit_a_b k (DUK_OP_RETURN k)
                    (if catch_depth (curr_func comp_ctx') = 0
                     then ret_flags0 OR DUK_BC_RETURN_FLAG_FAST k else ret_flags0)
                    reg_val comp_ctx')
            in
            if tok_t (curr_token comp_ctx1) = DUK_TOK_SEMICOLON \<or>
               tok_lineterm (curr_token comp_ctx1) \<or>
               tok_allow_auto_semi (curr_token comp_ctx1)
            then emit_return 0 0 comp_ctx1
            else
              (let pc_before_expr = duk__get_current_pc comp_ctx1 in
               and_then (duk__exprtop_toregconst DUK__BP_FOR_EXPR comp_ctx1)
                 (\<lambda>reg_val comp_ctx2.
                   (let pc_after_expr = duk__get_current_pc comp_ctx2 in
                    if \<not> DUK_USE_FUNC_NONSTD_CALLER_PROPERTY k \<and>
                       catch_depth (curr_func comp_ctx2) = 0 \<and>
                       pc_after_expr > pc_before_expr
                    then
                      (case duk__get_instr_ptr comp_ctx2 (pc_after_expr - 1) of
                         None \<Rightarrow> Undefined_behaviour
                       | Some instr \<Rightarrow>
                           (let op = DUK_DEC_OP (ins instr) in
                            if op = DUK_OP_CALL k \<or> op = DUK_OP_CALLI k
                            then Ok () (comp_ctx2\<lparr>curr_func := (curr_func comp_ctx2)
                                   \<lparr>h_code := (h_code (curr_func comp_ctx2))
                                      [nat (pc_after_expr - 1) :=
                                         instr\<lparr>ins := ins instr OR
                                           DUK_ENC_OP_A_B_C 0 (DUK_BC_CALL_FLAG_TAILCALL k) 0 0\<rparr>]\<rparr>\<rparr>)
                            else emit_return (DUK_BC_RETURN_FLAG_HAVE_RETVAL k) reg_val comp_ctx2))
                    else emit_return (DUK_BC_RETURN_FLAG_HAVE_RETVAL k) reg_val comp_ctx2)))))"

section \<open>Expression parsing\<close>

definition DUK__EXPR_RBP_MASK :: int where "DUK__EXPR_RBP_MASK = 0xff"
definition DUK__EXPR_FLAG_REJECT_IN :: int where "DUK__EXPR_FLAG_REJECT_IN = push_bit 8 1"
definition DUK__EXPR_FLAG_ALLOW_EMPTY :: int where "DUK__EXPR_FLAG_ALLOW_EMPTY = push_bit 9 1"

text \<open>
  \<^verbatim>\<open>duk__expr_lbp\<close>. The token is asserted to be a row of the table; the read of the
  table outside it is undefined behaviour (\<open>None\<close>).
\<close>

definition duk__expr_lbp :: "'lex duk_compiler_ctx \<Rightarrow> int option" where
  "duk__expr_lbp comp_ctx =
     (let tok = tok_t (curr_token comp_ctx) in
      if tok = DUK_TOK_IN \<and> \<not> allow_in (curr_func comp_ctx) then Some 0
      else if (tok = DUK_TOK_DECREMENT \<or> tok = DUK_TOK_INCREMENT) \<and>
              tok_lineterm (curr_token comp_ctx) then Some 0
      else if tok < DUK_TOK_MINVAL \<or> tok > DUK_TOK_MAXVAL then None
      else Some (DUK__TOKEN_LBP_GET_BP (duk__token_lbp ! nat tok)))"

text \<open>
  \<^verbatim>\<open>duk__expr\<close>. The handlers \<^verbatim>\<open>duk__expr_nud\<close> and \<^verbatim>\<open>duk__expr_led\<close> are parameters
  that work on the compiler state and on intermediate values of a type \<open>'iv\<close>
  (\<^verbatim>\<open>duk_ivalue\<close>); \<open>iv_undefined\<close> is the plain value \<^verbatim>\<open>undefined\<close> of an empty
  expression. The loop \<^verbatim>\<open>while (rbp < duk__expr_lbp(comp_ctx))\<close> runs as long as the
  handlers and the lexer make it run, so not ending is the value \<open>None\<close>.
\<close>

partial_function (option) duk__expr_loop ::
  "'lex duk_lexer \<Rightarrow> ('iv \<Rightarrow> 'lex duk_compiler_ctx \<Rightarrow> ('iv, 'lex duk_compiler_ctx) res) \<Rightarrow>
   int \<Rightarrow> 'iv \<Rightarrow> 'lex duk_compiler_ctx \<Rightarrow> ('iv, 'lex duk_compiler_ctx) res option"
where
  "duk__expr_loop lx duk__expr_led rbp left comp_ctx =
     (case duk__expr_lbp comp_ctx of
        None \<Rightarrow> Some Undefined_behaviour
      | Some lbp \<Rightarrow>
          if rbp < lbp then
            (case duk__advance lx comp_ctx of
               Undefined_behaviour \<Rightarrow> Some Undefined_behaviour
             | Throw e s \<Rightarrow> Some (Throw e s)
             | Ok u comp_ctx1 \<Rightarrow>
                 (case duk__expr_led left comp_ctx1 of
                    Undefined_behaviour \<Rightarrow> Some Undefined_behaviour
                  | Throw e s \<Rightarrow> Some (Throw e s)
                  | Ok tmp comp_ctx2 \<Rightarrow> duk__expr_loop lx duk__expr_led rbp tmp comp_ctx2))
          else Some (Ok left comp_ctx))"

declare duk__expr_loop.simps [code]

definition duk__expr ::
  "'lex duk_lexer \<Rightarrow> ('lex duk_compiler_ctx \<Rightarrow> ('iv, 'lex duk_compiler_ctx) res) \<Rightarrow>
   ('iv \<Rightarrow> 'lex duk_compiler_ctx \<Rightarrow> ('iv, 'lex duk_compiler_ctx) res) \<Rightarrow> 'iv \<Rightarrow>
   int \<Rightarrow> 'lex duk_compiler_ctx \<Rightarrow> ('iv, 'lex duk_compiler_ctx) res option"
where
  "duk__expr lx duk__expr_nud duk__expr_led iv_undefined rbp_flags comp_ctx =
     (case duk__recursion_increase comp_ctx of
        Undefined_behaviour \<Rightarrow> Some Undefined_behaviour
      | Throw e s \<Rightarrow> Some (Throw e s)
      | Ok u comp_ctx1 \<Rightarrow>
          (let rbp = rbp_flags AND DUK__EXPR_RBP_MASK in
           if tok_t (curr_token comp_ctx1) = DUK_TOK_SEMICOLON \<or>
              tok_t (curr_token comp_ctx1) = DUK_TOK_RPAREN
           then
             (if rbp_flags AND DUK__EXPR_FLAG_ALLOW_EMPTY = 0
              then Some (DUK_ERROR comp_ctx1 DUK_ERR_SYNTAX_ERROR ''empty expression not allowed'')
              else Some (Ok iv_undefined (duk__recursion_decrease comp_ctx1)))
           else
             (case and_then (duk__advance lx comp_ctx1) (\<lambda>_. duk__expr_nud) of
                Undefined_behaviour \<Rightarrow> Some Undefined_behaviour
              | Throw e s \<Rightarrow> Some (Throw e s)
              | Ok left comp_ctx2 \<Rightarrow>
                  map_option (\<lambda>r. and_then r (\<lambda>res comp_ctx3. Ok res (duk__recursion_decrease comp_ctx3)))
                    (duk__expr_loop lx duk__expr_led rbp left comp_ctx2))))"


section \<open>Function bodies\<close>

text \<open>
  A second layer for functions with loops that the lexer and the parameters drive:
  \<open>None\<close> is a computation that does not return.
\<close>

definition and_then_o ::
  "('a, 's) res option \<Rightarrow> ('a \<Rightarrow> 's \<Rightarrow> ('b, 's) res option) \<Rightarrow> ('b, 's) res option"
where
  "and_then_o r f =
     (case r of
        None \<Rightarrow> None
      | Some (Ok x s) \<Rightarrow> f x s
      | Some (Throw e s) \<Rightarrow> Some (Throw e s)
      | Some Undefined_behaviour \<Rightarrow> Some Undefined_behaviour)"

definition duk__reset_func_for_pass2 :: "'lex duk_compiler_ctx \<Rightarrow> 'lex duk_compiler_ctx" where
  "duk__reset_func_for_pass2 comp_ctx =
     comp_ctx\<lparr>curr_func := (curr_func comp_ctx)
       \<lparr>h_code := [], h_consts := [], fnum_next := 0, h_labelinfos := []\<rparr>\<rparr>"

definition error_argname :: "'lex duk_compiler_ctx \<Rightarrow> ('a, 'lex duk_compiler_ctx) res" where
  "error_argname comp_ctx = DUK_ERROR comp_ctx DUK_ERR_SYNTAX_ERROR ''invalid arg name''"

definition varmap_put ::
  "string \<Rightarrow> duk_varmap_value \<Rightarrow> 'lex duk_compiler_ctx \<Rightarrow> 'lex duk_compiler_ctx"
where
  "varmap_put name v comp_ctx =
     comp_ctx\<lparr>curr_func := (curr_func comp_ctx)
       \<lparr>h_varmap := (h_varmap (curr_func comp_ctx))(name \<mapsto> v)\<rparr>\<rparr>"

text \<open>
  \<^verbatim>\<open>duk__init_varmap_and_prologue_for_pass2\<close>, first loop: the formal arguments,
  \<^verbatim>\<open>for (i = 0; i < num_args; i++)\<close>.
\<close>

function duk__prologue_formals ::
  "nat \<Rightarrow> nat \<Rightarrow> 'lex duk_compiler_ctx \<Rightarrow> (unit, 'lex duk_compiler_ctx) res"
where
  "duk__prologue_formals i num_args comp_ctx =
     (if i < num_args then
        (let h_name = h_argnames (curr_func comp_ctx) ! i in
         if is_strict (curr_func comp_ctx) \<and>
            duk__hstring_is_eval_or_arguments comp_ctx h_name
         then error_argname comp_ctx
         else if is_strict (curr_func comp_ctx) \<and>
                 h_varmap (curr_func comp_ctx) h_name \<noteq> None
         then error_argname comp_ctx
         else if is_strict (curr_func comp_ctx) \<and> DUK_HSTRING_HAS_STRICT_RESERVED_WORD h_name
         then error_argname comp_ctx
         else duk__prologue_formals (i + 1) num_args
                (varmap_put h_name (Varmap_reg (int i)) comp_ctx))
      else Ok () comp_ctx)"
  by pat_completeness auto
termination
  by (relation "measure (\<lambda>(i, num_args, comp_ctx). num_args - i)") auto

declare duk__prologue_formals.simps [simp del]

text \<open>
  One function declaration of the second loop (\<^verbatim>\<open>for (i = 0; i < num_decls; i += 2)\<close>):
  the entry \<open>(name, decl_type + (fnum << 8))\<close> of \<^verbatim>\<open>h_decls\<close>.
\<close>

definition duk__prologue_func_decl ::
  "duk_hdr \<Rightarrow> string \<times> int \<Rightarrow> 'lex duk_compiler_ctx \<Rightarrow> (unit, 'lex duk_compiler_ctx) res"
where
  "duk__prologue_func_decl k d comp_ctx =
     (let fnum = drop_bit 8 (snd d);
          decl_type = snd d AND 0xff;
          name = fst d
      in
      if decl_type \<noteq> DUK_DECL_TYPE_FUNC k then Ok () comp_ctx
      else if is_function (curr_func comp_ctx) then
        (case h_varmap (curr_func comp_ctx) name of
           Some v \<Rightarrow>
             (let reg_bind = (case v of Varmap_reg r \<Rightarrow> r | Varmap_null \<Rightarrow> 0) in
              and_then (duk__emit_a_bc k (DUK_OP_CLOSURE k) reg_bind fnum comp_ctx)
                (\<lambda>_ comp_ctx1. Ok () (varmap_put name (Varmap_reg reg_bind) comp_ctx1)))
         | None \<Rightarrow>
             and_then (duk__alloctemp comp_ctx)
               (\<lambda>reg_bind comp_ctx1.
                 and_then (duk__emit_a_bc k (DUK_OP_CLOSURE k) reg_bind fnum comp_ctx1)
                   (\<lambda>_ comp_ctx2. Ok () (varmap_put name (Varmap_reg reg_bind) comp_ctx2))))
      else
        and_then (duk__alloctemp comp_ctx)
          (\<lambda>reg_temp comp_ctx1.
            and_then (duk__getconst (DUK_TVAL_STRING name) comp_ctx1)
              (\<lambda>reg_name comp_ctx2.
                and_then (duk__emit_a_bc k (DUK_OP_CLOSURE k) reg_temp fnum comp_ctx2)
                  (\<lambda>_ comp_ctx3.
                    (let declvar_flags0 = DUK_PROPDESC_FLAG_WRITABLE k OR
                           DUK_PROPDESC_FLAG_ENUMERABLE k OR DUK_BC_DECLVAR_FLAG_FUNC_DECL k;
                         declvar_flags =
                           (if is_eval (curr_func comp_ctx3)
                            then declvar_flags0 OR DUK_PROPDESC_FLAG_CONFIGURABLE k
                            else declvar_flags0)
                     in and_then
                          (duk__emit_a_b_c k (DUK_OP_DECLVAR k) declvar_flags reg_name reg_temp
                             comp_ctx3)
                          (\<lambda>_ comp_ctx4.
                            Ok () (varmap_put name Varmap_null (DUK__SETTEMP reg_temp comp_ctx4)))))))
     )"

text \<open>One variable declaration of the third loop.\<close>

definition duk__prologue_var_decl ::
  "duk_hdr \<Rightarrow> string \<times> int \<Rightarrow> 'lex duk_compiler_ctx \<Rightarrow> (unit, 'lex duk_compiler_ctx) res"
where
  "duk__prologue_var_decl k d comp_ctx =
     (let decl_type = snd d AND 0xff;
          h_name = fst d
      in
      if decl_type \<noteq> DUK_DECL_TYPE_VAR k then Ok () comp_ctx
      else if h_varmap (curr_func comp_ctx) h_name \<noteq> None then Ok () comp_ctx
      else if h_name = ''arguments'' \<and> \<not> is_arguments_shadowed (curr_func comp_ctx)
      then Ok () comp_ctx
      else if is_function (curr_func comp_ctx) then
        and_then (duk__alloctemp comp_ctx)
          (\<lambda>reg_bind comp_ctx1. Ok () (varmap_put h_name (Varmap_reg reg_bind) comp_ctx1))
      else
        and_then (duk__getconst (DUK_TVAL_STRING h_name) comp_ctx)
          (\<lambda>reg_name comp_ctx1.
            (let declvar_flags0 = DUK_PROPDESC_FLAG_WRITABLE k OR
                   DUK_PROPDESC_FLAG_ENUMERABLE k OR DUK_BC_DECLVAR_FLAG_UNDEF_VALUE k;
                 declvar_flags =
                   (if is_eval (curr_func comp_ctx1)
                    then declvar_flags0 OR DUK_PROPDESC_FLAG_CONFIGURABLE k
                    else declvar_flags0)
             in and_then (duk__emit_a_b_c k (DUK_OP_DECLVAR k) declvar_flags reg_name 0 comp_ctx1)
                  (\<lambda>_ comp_ctx2. Ok () (varmap_put h_name Varmap_null comp_ctx2)))))"

text \<open>A loop over the declarations, stopping at the first throw.\<close>

fun duk__prologue_decls ::
  "(string \<times> int \<Rightarrow> 'lex duk_compiler_ctx \<Rightarrow> (unit, 'lex duk_compiler_ctx) res) \<Rightarrow>
   (string \<times> int) list \<Rightarrow> 'lex duk_compiler_ctx \<Rightarrow> (unit, 'lex duk_compiler_ctx) res"
where
  "duk__prologue_decls body [] comp_ctx = Ok () comp_ctx"
| "duk__prologue_decls body (d # ds) comp_ctx =
     and_then (body d comp_ctx) (\<lambda>_. duk__prologue_decls body ds)"

text \<open>
  \<^verbatim>\<open>duk__init_varmap_and_prologue_for_pass2\<close>. The argument \<open>want_stmt_value_reg\<close> says
  whether \<^verbatim>\<open>out_stmt_value_reg\<close> is not \<^verbatim>\<open>NULL\<close>; the result is the register written
  through that pointer, if any.
\<close>

definition duk__init_varmap_and_prologue_for_pass2 ::
  "duk_hdr \<Rightarrow> bool \<Rightarrow> 'lex duk_compiler_ctx \<Rightarrow> (int option, 'lex duk_compiler_ctx) res"
where
  "duk__init_varmap_and_prologue_for_pass2 k want_stmt_value_reg comp_ctx =
     (let num_args = length (h_argnames (curr_func comp_ctx)) in
      and_then (duk__prologue_formals 0 num_args comp_ctx)
        (\<lambda>_ comp_ctx1.
          and_then
            (if want_stmt_value_reg
             then and_then (duk__alloctemp (duk__settemp_checkmax (int num_args) comp_ctx1))
                    (\<lambda>r. Ok (Some r))
             else Ok None (duk__settemp_checkmax (int num_args) comp_ctx1))
            (\<lambda>out_stmt_value_reg comp_ctx2.
              and_then
                (if needs_shuffle (curr_func comp_ctx2)
                 then and_then (duk__alloctemps 3 comp_ctx2)
                        (\<lambda>shuffle_base comp_ctx'.
                          Ok () (comp_ctx'\<lparr>curr_func := (curr_func comp_ctx')
                            \<lparr>shuffle1 := shuffle_base, shuffle2 := shuffle_base + 1,
                             shuffle3 := shuffle_base + 2\<rparr>\<rparr>))
                 else Ok () comp_ctx2)
                (\<lambda>_ comp_ctx3.
                  if temp_next (curr_func comp_ctx3) > 0x100 then error_outofregs comp_ctx3
                  else
                    and_then
                      (duk__prologue_decls (duk__prologue_func_decl k)
                         (h_decls (curr_func comp_ctx3)) comp_ctx3)
                      (\<lambda>_ comp_ctx4.
                        (let comp_ctx5 =
                               (if h_varmap (curr_func comp_ctx4) ''arguments'' \<noteq> None
                                then comp_ctx4\<lparr>curr_func := (curr_func comp_ctx4)
                                       \<lparr>is_arguments_shadowed := True\<rparr>\<rparr>
                                else comp_ctx4)
                         in and_then
                              (duk__prologue_decls (duk__prologue_var_decl k)
                                 (h_decls (curr_func comp_ctx5)) comp_ctx5)
                              (\<lambda>_. Ok out_stmt_value_reg)))))))"

text \<open>
  \<^verbatim>\<open>duk__convert_to_func_template\<close>: the bytecode is copied word by word from the code
  buffer, the constants and the inner templates from their arrays; \<^verbatim>\<open>nregs\<close> is
  \<^verbatim>\<open>temp_max\<close> and \<^verbatim>\<open>nargs\<close> the number of formals. (The object flags and the
  \<^verbatim>\<open>_varmap\<close>, \<^verbatim>\<open>_pc2line\<close> and \<^verbatim>\<open>fileName\<close> properties are left out.)
\<close>

definition duk__convert_to_func_template :: "'lex duk_compiler_ctx \<Rightarrow> duk_hcompiledfunction" where
  "duk__convert_to_func_template comp_ctx =
     (let func = curr_func comp_ctx in
      Compiledfunction (map ins (h_code func)) (h_consts func) (map fst (h_funcs func))
        (temp_max func) (int (length (h_argnames func))) (h_argnames func) (h_name func)
        (is_strict func))"

definition error_funcname :: "'lex duk_compiler_ctx \<Rightarrow> ('a, 'lex duk_compiler_ctx) res" where
  "error_funcname comp_ctx = DUK_ERROR comp_ctx DUK_ERR_SYNTAX_ERROR ''invalid function name''"

definition set_curr_token_t :: "int \<Rightarrow> 'lex duk_compiler_ctx \<Rightarrow> 'lex duk_compiler_ctx" where
  "set_curr_token_t v comp_ctx = comp_ctx\<lparr>curr_token := (curr_token comp_ctx)\<lparr>tok_t := v\<rparr>\<rparr>"

text \<open>
  \<^verbatim>\<open>duk__parse_func_body\<close>, up to the check of the function name, in three steps. The
  statement parser \<^verbatim>\<open>duk__parse_stmts\<close> is a parameter, given its two flags and the
  state. First step: the entry and the first pass.
\<close>

definition duk__parse_func_body_pass1 ::
  "'lex duk_lexer \<Rightarrow>
   (bool \<Rightarrow> bool \<Rightarrow> 'lex duk_compiler_ctx \<Rightarrow> (unit, 'lex duk_compiler_ctx) res option) \<Rightarrow>
   bool \<Rightarrow> bool \<Rightarrow> 'lex duk_compiler_ctx
     \<Rightarrow> (duk_lexer_point, 'lex duk_compiler_ctx) res option"
where
  "duk__parse_func_body_pass1 lx duk__parse_stmts expect_eof implicit_return_value comp_ctx =
     and_then_o (Some (duk__recursion_increase comp_ctx))
       (\<lambda>_ comp_ctx1.
         (let lex_pt = DUK_LEXER_GETPOINT lx (lex comp_ctx1) in
          and_then_o
            (Some (if implicit_return_value then duk__alloctemp comp_ctx1
                   else Ok (- 1) comp_ctx1))
            (\<lambda>reg_stmt_value0 comp_ctx2.
              (let comp_ctx3 = set_curr_token_t 0
                     (comp_ctx2\<lparr>curr_func := (curr_func comp_ctx2)
                        \<lparr>in_directive_prologue := True, in_scanning := True,
                         may_direct_eval := False, id_access_arguments := False,
                         id_access_slow := False, reg_stmt_value := reg_stmt_value0\<rparr>\<rparr>)
               in and_then_o (Some (duk__advance lx comp_ctx3))
                    (\<lambda>_ comp_ctx4.
                      and_then_o (duk__parse_stmts True expect_eof comp_ctx4)
                        (\<lambda>_ comp_ctx5. Some (Ok lex_pt comp_ctx5)))))))"

text \<open>
  Second step: the rewind, the reset, the prologue of the second pass and the check of
  the function name. The result is the local variable \<^verbatim>\<open>reg_stmt_value\<close>, which is
  \<open>- 1\<close> when no implicit return value is asked for.
\<close>

definition duk__parse_func_body_prologue ::
  "duk_hdr \<Rightarrow> 'lex duk_lexer \<Rightarrow> bool \<Rightarrow> duk_lexer_point \<Rightarrow> 'lex duk_compiler_ctx
     \<Rightarrow> (int, 'lex duk_compiler_ctx) res"
where
  "duk__parse_func_body_prologue k lx implicit_return_value lex_pt comp_ctx =
     and_then
       (duk__advance lx
          (set_curr_token_t 0 (comp_ctx\<lparr>lex := DUK_LEXER_SETPOINT lx (lex comp_ctx) lex_pt\<rparr>)))
       (\<lambda>_ comp_ctx1.
         (let comp_ctx2 = duk__reset_func_for_pass2 comp_ctx1;
              comp_ctx3 = comp_ctx2\<lparr>curr_func := (curr_func comp_ctx2)
                            \<lparr>in_directive_prologue := True, in_scanning := False\<rparr>\<rparr>
          in and_then (duk__init_varmap_and_prologue_for_pass2 k implicit_return_value comp_ctx3)
               (\<lambda>out_stmt_value_reg comp_ctx4.
                 (let reg_stmt_value1 = (case out_stmt_value_reg of Some r \<Rightarrow> r | None \<Rightarrow> - 1);
                      temp_first1 = temp_next (curr_func comp_ctx4);
                      comp_ctx5 = comp_ctx4\<lparr>curr_func := (curr_func comp_ctx4)
                         \<lparr>reg_stmt_value := reg_stmt_value1, temp_first := temp_first1,
                          temp_next := temp_first1, stmt_next := 0, label_next := 0,
                          id_access_arguments := False, id_access_slow := False\<rparr>\<rparr>;
                      func = curr_func comp_ctx5
                  in
                  if is_function func \<and> \<not> is_setget func \<and> h_name func \<noteq> None then
                    (if is_strict func then
                       (if duk__hstring_is_eval_or_arguments comp_ctx5 (the (h_name func))
                        then error_funcname comp_ctx5
                        else if DUK_HSTRING_HAS_STRICT_RESERVED_WORD (the (h_name func))
                        then error_funcname comp_ctx5
                        else Ok reg_stmt_value1 comp_ctx5)
                     else
                       (if DUK_HSTRING_HAS_RESERVED_WORD (the (h_name func)) \<and>
                           \<not> DUK_HSTRING_HAS_STRICT_RESERVED_WORD (the (h_name func))
                        then error_funcname comp_ctx5
                        else Ok reg_stmt_value1 comp_ctx5))
                  else Ok reg_stmt_value1 comp_ctx5))))"

text \<open>
  Third step: the second pass, the final \<^verbatim>\<open>RETURN\<close> and the peephole optimizer.
\<close>

definition duk__parse_func_body_pass2 ::
  "duk_hdr \<Rightarrow>
   (bool \<Rightarrow> bool \<Rightarrow> 'lex duk_compiler_ctx \<Rightarrow> (unit, 'lex duk_compiler_ctx) res option) \<Rightarrow>
   bool \<Rightarrow> bool \<Rightarrow> int \<Rightarrow> 'lex duk_compiler_ctx \<Rightarrow> (unit, 'lex duk_compiler_ctx) res option"
where
  "duk__parse_func_body_pass2 k duk__parse_stmts expect_eof implicit_return_value
       reg_stmt_value1 comp_ctx =
     and_then_o
       (Some (if implicit_return_value
              then duk__emit_extraop_bc k (DUK_EXTRAOP_LDUNDEF k) 0 comp_ctx
              else Ok () comp_ctx))
       (\<lambda>_ comp_ctx1.
         and_then_o (duk__parse_stmts True expect_eof comp_ctx1)
           (\<lambda>_ comp_ctx2.
             and_then_o
               (Some (if reg_stmt_value1 \<ge> 0
                      then duk__emit_a_b k (DUK_OP_RETURN k)
                             (DUK_BC_RETURN_FLAG_HAVE_RETVAL k OR DUK_BC_RETURN_FLAG_FAST k)
                             reg_stmt_value1 comp_ctx2
                      else duk__emit_a_b k (DUK_OP_RETURN k) (DUK_BC_RETURN_FLAG_FAST k) 0
                             comp_ctx2))
               (\<lambda>_ comp_ctx3.
                 (case duk__peephole_optimize_bytecode k (h_code (curr_func comp_ctx3)) of
                    None \<Rightarrow> Some Undefined_behaviour
                  | Some bc \<Rightarrow>
                      Some (Ok () (duk__recursion_decrease
                        (comp_ctx3\<lparr>curr_func := (curr_func comp_ctx3)\<lparr>h_code := bc\<rparr>\<rparr>)))))))"

definition duk__parse_func_body ::
  "duk_hdr \<Rightarrow> 'lex duk_lexer \<Rightarrow>
   (bool \<Rightarrow> bool \<Rightarrow> 'lex duk_compiler_ctx \<Rightarrow> (unit, 'lex duk_compiler_ctx) res option) \<Rightarrow>
   bool \<Rightarrow> bool \<Rightarrow> 'lex duk_compiler_ctx \<Rightarrow> (unit, 'lex duk_compiler_ctx) res option"
where
  "duk__parse_func_body k lx duk__parse_stmts expect_eof implicit_return_value comp_ctx =
     and_then_o
       (duk__parse_func_body_pass1 lx duk__parse_stmts expect_eof implicit_return_value comp_ctx)
       (\<lambda>lex_pt comp_ctx1.
         and_then_o
           (Some (duk__parse_func_body_prologue k lx implicit_return_value lex_pt comp_ctx1))
           (duk__parse_func_body_pass2 k duk__parse_stmts expect_eof implicit_return_value))"


section \<open>Function-like expressions and the driver\<close>

text \<open>
  \<^verbatim>\<open>duk__parse_func_formals\<close>: the loop \<^verbatim>\<open>for (;;)\<close> over the tokens of the formal
  argument list, with its local \<^verbatim>\<open>first\<close>.
\<close>

partial_function (option) duk__parse_func_formals_loop ::
  "'lex duk_lexer \<Rightarrow> bool \<Rightarrow> 'lex duk_compiler_ctx \<Rightarrow> (unit, 'lex duk_compiler_ctx) res option"
where
  "duk__parse_func_formals_loop lx first comp_ctx =
     (if tok_t (curr_token comp_ctx) = DUK_TOK_RPAREN then Some (Ok () comp_ctx)
      else
        (case (if first then Ok () comp_ctx
               else duk__advance_expect lx DUK_TOK_COMMA comp_ctx) of
           Undefined_behaviour \<Rightarrow> Some Undefined_behaviour
         | Throw e s \<Rightarrow> Some (Throw e s)
         | Ok u comp_ctx1 \<Rightarrow>
             if tok_t (curr_token comp_ctx1) \<noteq> DUK_TOK_IDENTIFIER
             then Some (DUK_ERROR comp_ctx1 DUK_ERR_SYNTAX_ERROR ''expected identifier'')
             else
               (case duk__advance lx
                       (comp_ctx1\<lparr>curr_func := (curr_func comp_ctx1)
                          \<lparr>h_argnames := h_argnames (curr_func comp_ctx1) @
                             [tok_str1 (curr_token comp_ctx1)]\<rparr>\<rparr>) of
                  Undefined_behaviour \<Rightarrow> Some Undefined_behaviour
                | Throw e s \<Rightarrow> Some (Throw e s)
                | Ok u comp_ctx2 \<Rightarrow> duk__parse_func_formals_loop lx False comp_ctx2)))"

declare duk__parse_func_formals_loop.simps [code]

definition duk__parse_func_formals ::
  "'lex duk_lexer \<Rightarrow> 'lex duk_compiler_ctx \<Rightarrow> (unit, 'lex duk_compiler_ctx) res option"
where
  "duk__parse_func_formals lx comp_ctx = duk__parse_func_formals_loop lx True comp_ctx"

definition set_h_name :: "string \<Rightarrow> 'lex duk_compiler_ctx \<Rightarrow> 'lex duk_compiler_ctx" where
  "set_h_name n comp_ctx = comp_ctx\<lparr>curr_func := (curr_func comp_ctx)\<lparr>h_name := Some n\<rparr>\<rparr>"

text \<open>
  \<^verbatim>\<open>duk__parse_func_like_raw\<close>; the result is the function template that the C
  function leaves on the value stack.
\<close>

definition duk__parse_func_like_raw ::
  "duk_hdr \<Rightarrow> 'lex duk_lexer \<Rightarrow>
   (bool \<Rightarrow> bool \<Rightarrow> 'lex duk_compiler_ctx \<Rightarrow> (unit, 'lex duk_compiler_ctx) res option) \<Rightarrow>
   bool \<Rightarrow> bool \<Rightarrow> 'lex duk_compiler_ctx
     \<Rightarrow> (duk_hcompiledfunction, 'lex duk_compiler_ctx) res option"
where
  "duk__parse_func_like_raw k lx duk__parse_stmts is_decl' is_setget' comp_ctx =
     and_then_o
       (Some
          (let tok = curr_token comp_ctx in
           if is_setget' then
             (if tok_t_nores tok = DUK_TOK_IDENTIFIER \<or> tok_t tok = DUK_TOK_STRING
              then duk__advance lx (set_h_name (tok_str1 tok) comp_ctx)
              else if tok_t tok = DUK_TOK_NUMBER
              then duk__advance lx (set_h_name (duk_number_to_string k (tok_num tok)) comp_ctx)
              else DUK_ERROR comp_ctx DUK_ERR_SYNTAX_ERROR ''invalid getter/setter name'')
           else if tok_t_nores tok = DUK_TOK_IDENTIFIER
           then duk__advance lx (set_h_name (tok_str1 tok) comp_ctx)
           else if is_decl'
           then DUK_ERROR comp_ctx DUK_ERR_SYNTAX_ERROR ''function name required''
           else Ok () comp_ctx))
       (\<lambda>_ comp_ctx1.
         and_then_o (Some (duk__advance_expect lx DUK_TOK_LPAREN comp_ctx1))
           (\<lambda>_ comp_ctx2.
             and_then_o (duk__parse_func_formals lx comp_ctx2)
               (\<lambda>_ comp_ctx3.
                 and_then_o (Some (duk__advance lx comp_ctx3))
                   (\<lambda>_ comp_ctx4.
                     and_then_o (duk__parse_func_body k lx duk__parse_stmts False False comp_ctx4)
                       (\<lambda>_ comp_ctx5.
                         Some (Ok (duk__convert_to_func_template comp_ctx5) comp_ctx5))))))"


text \<open>
  \<^verbatim>\<open>duk__js_compile_raw\<close>, from the compile flags, the file name and the lexer context
  initialized on the source text (\<open>lex0\<close>). The compiler context starts zeroed.
\<close>

definition zero_token :: duk_token where
  "zero_token =
     \<lparr>tok_t = 0, tok_t_nores = 0, tok_str1 = [], tok_num = 0, tok_num_escapes = 0,
      tok_lineterm = False, tok_allow_auto_semi = False, tok_start_offset = 0,
      tok_start_line = 0\<rparr>"

definition duk__js_compile_raw ::
  "duk_hdr \<Rightarrow> 'lex duk_lexer \<Rightarrow>
   (bool \<Rightarrow> bool \<Rightarrow> 'lex duk_compiler_ctx \<Rightarrow> (unit, 'lex duk_compiler_ctx) res option) \<Rightarrow>
   int \<Rightarrow> string option \<Rightarrow> 'lex \<Rightarrow> (duk_hcompiledfunction, 'lex duk_compiler_ctx) res option"
where
  "duk__js_compile_raw k lx duk__parse_stmts flags filename lex0 =
     (let is_eval' = (flags AND DUK_JS_COMPILE_FLAG_EVAL k \<noteq> 0);
          is_strict' = (flags AND DUK_JS_COMPILE_FLAG_STRICT k \<noteq> 0);
          is_funcexpr = (flags AND DUK_JS_COMPILE_FLAG_FUNCEXPR k \<noteq> 0);
          func0 = duk__init_func_valstack_slots
            \<lparr>h_name := (if is_funcexpr then None
                         else Some (if is_eval' then ''eval'' else ''global'')),
             is_strict := is_strict', is_setget := False, is_decl := False\<rparr>;
          comp_ctx =
            \<lparr>curr_func = func0, curr_token = zero_token, prev_token = zero_token,
             lex = DUK_LEXER_SETPOINT lx lex0 \<lparr>lp_offset = 0, lp_line = 1\<rparr>,
             h_filename = filename, recursion_depth = 0,
             recursion_limit = DUK_COMPILER_RECURSION_LIMIT k\<rparr>
      in
      if is_funcexpr then
        (let comp_ctx1 = comp_ctx\<lparr>curr_func := func0
               \<lparr>is_function := True, is_eval := False, is_global := False\<rparr>\<rparr>
         in and_then_o (Some (duk__advance lx comp_ctx1))
              (\<lambda>_ comp_ctx2.
                and_then_o (Some (duk__advance_expect lx DUK_TOK_FUNCTION comp_ctx2))
                  (\<lambda>_ comp_ctx3.
                    and_then_o (duk__parse_func_like_raw k lx duk__parse_stmts False False comp_ctx3)
                      (\<lambda>_ comp_ctx4.
                        Some (Ok (duk__convert_to_func_template comp_ctx4) comp_ctx4)))))
      else
        (let comp_ctx1 = comp_ctx\<lparr>curr_func := func0
               \<lparr>is_function := False, is_eval := is_eval', is_global := \<not> is_eval'\<rparr>\<rparr>
         in and_then_o (duk__parse_func_body k lx duk__parse_stmts True True comp_ctx1)
              (\<lambda>_ comp_ctx2. Some (Ok (duk__convert_to_func_template comp_ctx2) comp_ctx2))))"

text \<open>
  \<^verbatim>\<open>duk_js_compile\<close>: the compilation runs under \<^verbatim>\<open>duk_safe_call\<close>. When it throws, the
  handler looks at the thrown value: if it is an object with a \<^verbatim>\<open>message\<close> property,
  \<^verbatim>\<open>" (line N)"\<close> is appended to the message, \<open>N\<close> being the line of the current
  token in the compiler context at the throw; then the value is thrown again.
\<close>

definition add_line_info :: "int \<Rightarrow> duk_thrown \<Rightarrow> duk_thrown" where
  "add_line_info start_line e =
     (case e of
        Error_object code msg \<Rightarrow> Error_object code (msg @ '' (line '' @ fmt_d start_line @ '')'')
      | Plain_object (Some msg) \<Rightarrow> Plain_object (Some (msg @ '' (line '' @ fmt_d start_line @ '')''))
      | Plain_object None \<Rightarrow> Plain_object None
      | Plain_value v \<Rightarrow> Plain_value v)"

definition duk_js_compile ::
  "duk_hdr \<Rightarrow> 'lex duk_lexer \<Rightarrow>
   (bool \<Rightarrow> bool \<Rightarrow> 'lex duk_compiler_ctx \<Rightarrow> (unit, 'lex duk_compiler_ctx) res option) \<Rightarrow>
   int \<Rightarrow> string option \<Rightarrow> 'lex \<Rightarrow> (duk_hcompiledfunction, unit) res option"
where
  "duk_js_compile k lx duk__parse_stmts flags filename lex0 =
     (case duk__js_compile_raw k lx duk__parse_stmts flags filename lex0 of
        None \<Rightarrow> None
      | Some (Ok tpl comp_ctx) \<Rightarrow> Some (Ok tpl ())
      | Some (Throw e comp_ctx) \<Rightarrow>
          Some (Throw (add_line_info (tok_start_line (curr_token comp_ctx)) e) ())
      | Some Undefined_behaviour \<Rightarrow> Some Undefined_behaviour)"

section \<open>Statement lists\<close>

text \<open>
  \<^verbatim>\<open>duk__parse_stmts\<close>: statements are parsed until the closing token (\<^verbatim>\<open>EOF\<close> or the
  closing brace) is the current token, which is then eaten. The parser of one
  statement, \<^verbatim>\<open>duk__parse_stmt\<close>, is a parameter. The loop ends only when the
  closing token comes.
\<close>

partial_function (option) duk__parse_stmts ::
  "'lex duk_lexer \<Rightarrow>
   (bool \<Rightarrow> 'lex duk_compiler_ctx \<Rightarrow> (unit, 'lex duk_compiler_ctx) res option) \<Rightarrow>
   bool \<Rightarrow> bool \<Rightarrow> 'lex duk_compiler_ctx \<Rightarrow> (unit, 'lex duk_compiler_ctx) res option"
where
  "duk__parse_stmts lx duk__parse_stmt allow_source_elem expect_eof comp_ctx =
     (if (if expect_eof then tok_t (curr_token comp_ctx) = DUK_TOK_EOF
          else tok_t (curr_token comp_ctx) = DUK_TOK_RCURLY)
      then Some (duk__advance lx comp_ctx)
      else
        Option.bind (duk__parse_stmt allow_source_elem comp_ctx)
          (\<lambda>r. case r of
                 Undefined_behaviour \<Rightarrow> Some Undefined_behaviour
               | Throw e s \<Rightarrow> Some (Throw e s)
               | Ok u comp_ctx1 \<Rightarrow>
                   duk__parse_stmts lx duk__parse_stmt allow_source_elem expect_eof comp_ctx1))"

declare duk__parse_stmts.simps [code]

section \<open>Properties of bytecode\<close>

text \<open>
  An entry is a \<^verbatim>\<open>JUMP\<close> when its opcode field says so; the target of the \<^verbatim>\<open>JUMP\<close> at
  \<open>pc\<close> is \<open>pc + 1\<close> plus its offset, the ABC field less the bias (as
  \<^verbatim>\<open>duk__peephole_optimize_bytecode\<close> and \<^verbatim>\<open>duk__patch_jump\<close> compute it).
\<close>

definition is_JUMP :: "duk_hdr \<Rightarrow> duk_compiler_instr \<Rightarrow> bool" where
  "is_JUMP k c = (DUK_DEC_OP (ins c) = DUK_OP_JUMP k)"

definition jump_target :: "duk_hdr \<Rightarrow> nat \<Rightarrow> duk_compiler_instr \<Rightarrow> int" where
  "jump_target k pc c = int pc + 1 + DUK_DEC_ABC (ins c) - DUK_BC_JUMP_BIAS k"

text \<open>Every \<^verbatim>\<open>JUMP\<close> of the buffer has its target inside the buffer.\<close>

definition jumps_in_bounds :: "duk_hdr \<Rightarrow> duk_compiler_instr list \<Rightarrow> bool" where
  "jumps_in_bounds k bc =
     (\<forall>pc \<in> {0..<length bc}. is_JUMP k (bc ! pc) \<longrightarrow>
        0 \<le> jump_target k pc (bc ! pc) \<and> jump_target k pc (bc ! pc) < int (length bc))"


text \<open>
  The \<^verbatim>\<open>JUMP\<close> opcode fits the 6-bit opcode field, and every offset between two
  entries of a buffer of \<open>n\<close> entries, with the bias added, fits the 26-bit ABC field.
\<close>

definition peephole_fits :: "duk_hdr \<Rightarrow> nat \<Rightarrow> bool" where
  "peephole_fits k n =
     (0 \<le> DUK_OP_JUMP k \<and> DUK_OP_JUMP k < 64 \<and> int n \<le> DUK_BC_JUMP_BIAS k \<and>
      DUK_BC_JUMP_BIAS k + int n \<le> 2 ^ 26)"

subsection \<open>The peephole optimizer as the spec words it\<close>

text \<open>
  The spec: iterate up to a bounded number of passes over the bytecode; for every
  \<^verbatim>\<open>JUMP pc1 -> t1\<close>, if the instruction at \<open>t1\<close> is also a \<^verbatim>\<open>JUMP -> t2\<close>, rewrite the
  original to jump directly to \<open>t2\<close>; stop when a pass makes no changes or the
  iteration cap is hit. \<open>spec_retarget\<close> rewrites an entry in place into the \<^verbatim>\<open>JUMP\<close>
  from \<open>pc\<close> to \<open>t\<close>; \<open>spec_flatten_at\<close> is the step at \<open>pc1\<close> and says whether it
  rewrote; \<open>spec_pass\<close> takes the steps at the given indices in order and counts the
  rewrites; \<open>spec_peephole\<close> runs at most \<open>cap\<close> passes and stops after the first one
  without a rewrite.
\<close>

definition spec_retarget ::
  "duk_hdr \<Rightarrow> nat \<Rightarrow> int \<Rightarrow> duk_compiler_instr \<Rightarrow> duk_compiler_instr" where
  "spec_retarget k pc t c =
     c\<lparr>ins := DUK_ENC_OP_ABC (DUK_OP_JUMP k) (t - int pc - 1 + DUK_BC_JUMP_BIAS k)\<rparr>"

definition spec_flatten_at ::
  "duk_hdr \<Rightarrow> nat \<Rightarrow> duk_compiler_instr list \<Rightarrow> duk_compiler_instr list \<times> bool" where
  "spec_flatten_at k pc1 bc =
     (let t1 = nat (jump_target k pc1 (bc ! pc1)) in
      if is_JUMP k (bc ! pc1) \<and> is_JUMP k (bc ! t1)
      then (bc[pc1 := spec_retarget k pc1 (jump_target k t1 (bc ! t1)) (bc ! pc1)], True)
      else (bc, False))"

fun spec_pass ::
  "duk_hdr \<Rightarrow> nat list \<Rightarrow> duk_compiler_instr list \<Rightarrow> nat \<Rightarrow> duk_compiler_instr list \<times> nat"
where
  "spec_pass k [] bc rewrites = (bc, rewrites)"
| "spec_pass k (pc1 # pcs) bc rewrites =
     (case spec_flatten_at k pc1 bc of
        (bc', rewritten) \<Rightarrow> spec_pass k pcs bc' (if rewritten then rewrites + 1 else rewrites))"

fun spec_peephole :: "duk_hdr \<Rightarrow> nat \<Rightarrow> duk_compiler_instr list \<Rightarrow> duk_compiler_instr list" where
  "spec_peephole k 0 bc = bc"
| "spec_peephole k (Suc cap) bc =
     (case spec_pass k [0..<length bc] bc 0 of
        (bc', rewrites) \<Rightarrow> if rewrites = 0 then bc' else spec_peephole k cap bc')"

subsection \<open>Header constants and emitted code\<close>

text \<open>
  What the theorems below ask of the header constants: the opcodes they speak of are
  numbers of the 6-bit opcode field, \<^verbatim>\<open>RETURN\<close> differs from the opcodes that
  \<^verbatim>\<open>duk__emit_a_b_c\<close> treats specially and \<^verbatim>\<open>BREAK\<close> and \<^verbatim>\<open>CONTINUE\<close> differ from
  \<^verbatim>\<open>JUMP\<close>; the return flags are two different bits of the 8-bit A field, and the
  tail call flag is a bit of it.
\<close>

definition hdr_ok :: "duk_hdr \<Rightarrow> bool" where
  "hdr_ok k =
     (0 \<le> DUK_OP_JUMP k \<and> DUK_OP_JUMP k < 64 \<and>
      0 \<le> DUK_OP_RETURN k \<and> DUK_OP_RETURN k < 64 \<and>
      0 \<le> DUK_OP_CALL k \<and> DUK_OP_CALL k < 64 \<and>
      0 \<le> DUK_OP_CALLI k \<and> DUK_OP_CALLI k < 64 \<and>
      0 \<le> DUK_OP_BREAK k \<and> DUK_OP_BREAK k < 64 \<and>
      0 \<le> DUK_OP_CONTINUE k \<and> DUK_OP_CONTINUE k < 64 \<and>
      DUK_OP_RETURN k \<noteq> DUK_OP_JUMP k \<and> DUK_OP_RETURN k \<noteq> DUK_OP_CALL k \<and>
      DUK_OP_RETURN k \<noteq> DUK_OP_NEW k \<and> DUK_OP_RETURN k \<noteq> DUK_OP_MPUTOBJ k \<and>
      DUK_OP_RETURN k \<noteq> DUK_OP_MPUTARR k \<and>
      DUK_OP_BREAK k \<noteq> DUK_OP_JUMP k \<and> DUK_OP_CONTINUE k \<noteq> DUK_OP_JUMP k \<and>
      DUK_OP_BREAK k \<noteq> DUK_OP_CONTINUE k \<and>
      0 < DUK_BC_RETURN_FLAG_FAST k \<and> 0 < DUK_BC_RETURN_FLAG_HAVE_RETVAL k \<and>
      DUK_BC_RETURN_FLAG_FAST k \<le> 0xff \<and> DUK_BC_RETURN_FLAG_HAVE_RETVAL k \<le> 0xff \<and>
      DUK_BC_RETURN_FLAG_HAVE_RETVAL k OR DUK_BC_RETURN_FLAG_FAST k \<le> 0xff \<and>
      DUK_BC_RETURN_FLAG_HAVE_RETVAL k AND DUK_BC_RETURN_FLAG_FAST k = 0 \<and>
      0 < DUK_BC_CALL_FLAG_TAILCALL k \<and> DUK_BC_CALL_FLAG_TAILCALL k \<le> 0xff)"

text \<open>The opcode and A fields of an instruction word (its low 14 bits) are zero.\<close>

definition low14_clear :: "duk_instr \<Rightarrow> bool" where
  "low14_clear x = (take_bit 14 x = 0)"

text \<open>
  From \<open>c\<close> to \<open>c'\<close> the code buffer has only grown, by at most \<open>n\<close> instructions: the
  old code is a prefix of the new.
\<close>

definition code_grows :: "'lex duk_compiler_ctx \<Rightarrow> 'lex duk_compiler_ctx \<Rightarrow> nat \<Rightarrow> bool" where
  "code_grows c c' n =
     (length (h_code (curr_func c')) \<le> length (h_code (curr_func c)) + n \<and>
      take (length (h_code (curr_func c))) (h_code (curr_func c')) = h_code (curr_func c))"

text \<open>
  The buffer \<open>bc'\<close> has the length of \<open>bc\<close> and the same entry wherever the entry of
  \<open>bc\<close> is no \<^verbatim>\<open>JUMP\<close>: nothing is added, removed or moved, only jumps are rewritten.
\<close>

definition keeps_non_jumps ::
  "duk_hdr \<Rightarrow> duk_compiler_instr list \<Rightarrow> duk_compiler_instr list \<Rightarrow> bool" where
  "keeps_non_jumps k bc bc' =
     (length bc' = length bc \<and> (\<forall>pc < length bc. \<not> is_JUMP k (bc ! pc) \<longrightarrow> bc' ! pc = bc ! pc))"

text \<open>
  The bytecode is not empty and its last instruction is a \<^verbatim>\<open>RETURN\<close> with the \<^verbatim>\<open>FAST\<close>
  flag set in its A field.
\<close>

definition ends_in_fast_return :: "duk_hdr \<Rightarrow> duk_instr list \<Rightarrow> bool" where
  "ends_in_fast_return k bytecode =
     (bytecode \<noteq> [] \<and> DUK_DEC_OP (last bytecode) = DUK_OP_RETURN k \<and>
      DUK_DEC_A (last bytecode) AND DUK_BC_RETURN_FLAG_FAST k \<noteq> 0)"


subsection \<open>Observations of results and states\<close>

text \<open>What a result throws, what it returns, and the state it leaves.\<close>

fun thrown_value :: "('a, 's) res \<Rightarrow> duk_thrown option" where
  "thrown_value (Throw e s) = Some e"
| "thrown_value (Ok x s) = None"
| "thrown_value Undefined_behaviour = None"

fun returned_value :: "('a, 's) res \<Rightarrow> 'a option" where
  "returned_value (Ok x s) = Some x"
| "returned_value (Throw e s) = None"
| "returned_value Undefined_behaviour = None"

fun state_after :: "('a, 's) res \<Rightarrow> 's option" where
  "state_after (Ok x s) = Some s"
| "state_after (Throw e s) = Some s"
| "state_after Undefined_behaviour = None"

subsection \<open>What the claims speak of\<close>

text \<open>
  The constant pool without duplicates: no entry is the same value (in the sense of
  \<^verbatim>\<open>duk_js_samevalue\<close>) as an earlier entry. The weaker property that the code keeps
  for pools of any size: no entry is the same value as an earlier entry among the
  first \<^verbatim>\<open>DUK__GETCONST_MAX_CONSTS_CHECK\<close>. \<open>scan_window\<close> is the number of entries that
  \<^verbatim>\<open>duk__getconst\<close> compares (its local \<^verbatim>\<open>n_check\<close>).
\<close>

definition scan_window :: "duk_tval list \<Rightarrow> nat" where
  "scan_window cs = min (length cs) (nat DUK__GETCONST_MAX_CONSTS_CHECK)"

definition no_duplicate_constants :: "duk_tval list \<Rightarrow> bool" where
  "no_duplicate_constants cs =
     (\<forall>j < length cs. \<forall>i < j. \<not> duk_js_samevalue (cs ! j) (cs ! i))"

definition no_duplicate_in_window :: "duk_tval list \<Rightarrow> bool" where
  "no_duplicate_in_window cs =
     (\<forall>j < length cs. \<forall>i < min j (nat DUK__GETCONST_MAX_CONSTS_CHECK).
        \<not> duk_js_samevalue (cs ! j) (cs ! i))"

text \<open>
  For the \<^verbatim>\<open>return\<close> statement. No value follows \<^verbatim>\<open>return\<close> when the next token is a
  semicolon or allows an automatic one. The tail call position: tail calls are not
  compiled out, no catcher is active, the expression has emitted at least one
  instruction, and the last one is a \<^verbatim>\<open>CALL\<close> or \<^verbatim>\<open>CALLI\<close>. \<open>set_tailcall_flag\<close> is the
  state with the \<^verbatim>\<open>TAILCALL\<close> bit set in the A field of the last instruction, and
  nothing else changed. \<open>is_RETURN_with\<close> reads the opcode and the two flags of a
  \<^verbatim>\<open>RETURN\<close> instruction.
\<close>

definition return_value_absent :: "'lex duk_compiler_ctx \<Rightarrow> bool" where
  "return_value_absent c =
     (tok_t (curr_token c) = DUK_TOK_SEMICOLON \<or> tok_lineterm (curr_token c) \<or>
      tok_allow_auto_semi (curr_token c))"

definition last_instr :: "'lex duk_compiler_ctx \<Rightarrow> duk_instr" where
  "last_instr c = ins (last (h_code (curr_func c)))"

definition tail_call_position ::
  "duk_hdr \<Rightarrow> 'lex duk_compiler_ctx \<Rightarrow> 'lex duk_compiler_ctx \<Rightarrow> bool" where
  "tail_call_position k c1 c2 =
     (\<not> DUK_USE_FUNC_NONSTD_CALLER_PROPERTY k \<and> catch_depth (curr_func c2) = 0 \<and>
      length (h_code (curr_func c1)) < length (h_code (curr_func c2)) \<and>
      (DUK_DEC_OP (last_instr c2) = DUK_OP_CALL k \<or> DUK_DEC_OP (last_instr c2) = DUK_OP_CALLI k))"

definition set_tailcall_flag :: "duk_hdr \<Rightarrow> 'lex duk_compiler_ctx \<Rightarrow> 'lex duk_compiler_ctx" where
  "set_tailcall_flag k c =
     c\<lparr>curr_func := (curr_func c)
       \<lparr>h_code := butlast (h_code (curr_func c)) @
          [(last (h_code (curr_func c)))
             \<lparr>ins := last_instr c OR DUK_ENC_OP_A_B_C 0 (DUK_BC_CALL_FLAG_TAILCALL k) 0 0\<rparr>]\<rparr>\<rparr>"

definition is_RETURN_with :: "duk_hdr \<Rightarrow> bool \<Rightarrow> bool \<Rightarrow> duk_instr \<Rightarrow> bool" where
  "is_RETURN_with k have_retval fast i =
     (DUK_DEC_OP i = DUK_OP_RETURN k \<and>
      (DUK_DEC_A i AND DUK_BC_RETURN_FLAG_HAVE_RETVAL k \<noteq> 0) = have_retval \<and>
      (DUK_DEC_A i AND DUK_BC_RETURN_FLAG_FAST k \<noteq> 0) = fast)"

text \<open>
  For \<^verbatim>\<open>break\<close> and \<^verbatim>\<open>continue\<close>. The record that the label resolves to; whether it is the
  newest entry of the label stack; the slot of its label site that a \<^verbatim>\<open>break\<close> or a
  \<^verbatim>\<open>continue\<close> jumps to (\<^verbatim>\<open>pc_label + 1\<close> or \<^verbatim>\<open>pc_label + 2\<close>); and the \<^verbatim>\<open>JUMP\<close> instruction
  which, placed at \<open>pc\<close>, has the target \<open>t\<close>.
\<close>

definition resolved_label :: "'lex duk_compiler_ctx \<Rightarrow> nat \<Rightarrow> duk_labelinfo" where
  "resolved_label c li = h_labelinfos (curr_func c) ! li"

definition is_newest_label :: "'lex duk_compiler_ctx \<Rightarrow> nat \<Rightarrow> bool" where
  "is_newest_label c li = (li = length (h_labelinfos (curr_func c)) - 1)"

definition label_slot :: "bool \<Rightarrow> duk_labelinfo \<Rightarrow> int" where
  "label_slot is_break l = li_pc_label l + (if is_break then 1 else 2)"

definition jump_instr :: "duk_hdr \<Rightarrow> nat \<Rightarrow> int \<Rightarrow> duk_instr" where
  "jump_instr k pc t = DUK_ENC_OP_ABC (DUK_OP_JUMP k) (t - int pc - 1 + DUK_BC_JUMP_BIAS k)"

text \<open>
  Formal parameter names that a strict function may not have: a name that occurs
  twice, \<^verbatim>\<open>eval\<close> or \<^verbatim>\<open>arguments\<close>, or a word reserved in strict mode.
\<close>

definition invalid_strict_formals :: "string list \<Rightarrow> bool" where
  "invalid_strict_formals names =
     (\<not> distinct names \<or>
      (\<exists>n \<in> set names. DUK_HSTRING_HAS_EVAL_OR_ARGUMENTS n \<or>
                         DUK_HSTRING_HAS_STRICT_RESERVED_WORD n))"

section \<open>Example inputs\<close>

text \<open>
  An instance of the header constants, for the concrete examples below: distinct
  opcode numbers below 64, a jump bias of half the ABC range, single flag bits.
\<close>

definition example_hdr :: duk_hdr where
  "example_hdr = \<lparr>
     DUK_OP_LDREG = 0, DUK_OP_STREG = 1, DUK_OP_LDCONST = 2, DUK_OP_LDINT = 3,
     DUK_OP_LDINTX = 4, DUK_OP_MPUTOBJ = 5, DUK_OP_MPUTARR = 7, DUK_OP_NEW = 9,
     DUK_OP_CSREG = 12, DUK_OP_CSVAR = 18, DUK_OP_CSPROP = 24, DUK_OP_JUMP = 53,
     DUK_OP_RETURN = 54, DUK_OP_CALL = 55, DUK_OP_CALLI = 56, DUK_OP_BREAK = 59,
     DUK_OP_CONTINUE = 60, DUK_OP_EXTRA = 62, DUK_EXTRAOP_INITGET = 20,
     DUK_EXTRAOP_INITSET = 22, DUK_BC_JUMP_BIAS = 2 ^ 25, DUK_BC_LDINT_BIAS = 2 ^ 17,
     DUK_BC_LDINTX_SHIFT = 18, DUK_BC_RETURN_FLAG_FAST = 1,
     DUK_BC_RETURN_FLAG_HAVE_RETVAL = 2, DUK_BC_CALL_FLAG_TAILCALL = 1,
     DUK_OP_CLOSURE = 20, DUK_OP_DECLVAR = 16, DUK_EXTRAOP_LDUNDEF = 2,
     DUK_BC_DECLVAR_FLAG_UNDEF_VALUE = 16, DUK_BC_DECLVAR_FLAG_FUNC_DECL = 32,
     DUK_PROPDESC_FLAG_WRITABLE = 1, DUK_PROPDESC_FLAG_ENUMERABLE = 2,
     DUK_PROPDESC_FLAG_CONFIGURABLE = 4, DUK_DECL_TYPE_VAR = 0, DUK_DECL_TYPE_FUNC = 1,
     DUK_LABEL_FLAG_ALLOW_BREAK = 1, DUK_LABEL_FLAG_ALLOW_CONTINUE = 2,
     DUK_JS_COMPILE_FLAG_EVAL = 1, DUK_JS_COMPILE_FLAG_STRICT = 2,
     DUK_JS_COMPILE_FLAG_FUNCEXPR = 4, DUK_COMPILER_RECURSION_LIMIT = 2500,
     DUK_COMPILER_PEEPHOLE_MAXITER = 3, DUK_USE_FUNC_NONSTD_CALLER_PROPERTY = False,
     duk_number_to_string = (\<lambda>d. ''0'')\<rparr>"

definition example_instr :: "int \<Rightarrow> int \<Rightarrow> duk_compiler_instr" where
  "example_instr op abc = \<lparr>ins = DUK_ENC_OP_ABC op abc, line = 1\<rparr>"

text \<open>The \<^verbatim>\<open>JUMP\<close> at \<open>pc\<close> to \<open>target\<close>, under \<open>example_hdr\<close>.\<close>

definition example_jump :: "int \<Rightarrow> int \<Rightarrow> duk_compiler_instr" where
  "example_jump pc target = example_instr 53 (target - pc - 1 + 2 ^ 25)"

text \<open>
  The code of the function body \<^verbatim>\<open>for(;;);\<close> before the peephole pass, as
  \<^verbatim>\<open>duk__parse_stmt\<close> and \<^verbatim>\<open>duk__parse_for_stmt\<close> emit it: the label site (\<^verbatim>\<open>LABEL\<close>, the
  break slot patched to jump to 5, the continue slot patched to jump to 3), the jump
  to the body at 4, the body's jump back to 3, \<^verbatim>\<open>ENDLABEL\<close> and the final \<^verbatim>\<open>RETURN\<close>.
  (57 and 58 stand for the opcodes \<^verbatim>\<open>LABEL\<close> and \<^verbatim>\<open>ENDLABEL\<close>.)
\<close>

definition for_ever_code :: "duk_compiler_instr list" where
  "for_ever_code =
     [example_instr 57 0, example_jump 1 5, example_jump 2 3, example_jump 3 4,
      example_jump 4 3, example_instr 58 0, example_instr 54 (push_bit 0 1)]"

text \<open>The same code after the peephole pass: the entry at 3 jumps to itself.\<close>

definition for_ever_code_optimized :: "duk_compiler_instr list" where
  "for_ever_code_optimized =
     [example_instr 57 0, example_jump 1 5, example_jump 2 3, example_jump 3 3,
      example_jump 4 3, example_instr 58 0, example_instr 54 (push_bit 0 1)]"




text \<open>
  A lexer for the examples. Its context is the list of the input elements of a source
  text, each a token or a value that the lexer throws there, and the position of the
  next one; after the last element comes \<^verbatim>\<open>EOF\<close>. A lexer point is a position in the
  list.
\<close>

type_synonym example_lex = "(duk_thrown + duk_token) list \<times> nat"

definition example_token :: "int \<Rightarrow> string \<Rightarrow> int \<Rightarrow> duk_token" where
  "example_token t s l =
     zero_token\<lparr>tok_t := t, tok_t_nores := t, tok_str1 := s, tok_start_line := l\<rparr>"

definition example_lexer :: "example_lex duk_lexer" where
  "example_lexer =
     \<lparr>duk_lexer_parse_js_input_element =
        (\<lambda>strict regexp ((elems, pos), tok).
           if pos < length elems then
             (case elems ! pos of
                Inl e \<Rightarrow> Throw e ((elems, pos), tok)
              | Inr t \<Rightarrow> Ok () ((elems, pos + 1), t))
           else Ok () ((elems, pos), example_token DUK_TOK_EOF [] (tok_start_line tok))),
      DUK_LEXER_GETPOINT = (\<lambda>(elems, pos). \<lparr>lp_offset = int pos, lp_line = 1\<rparr>),
      DUK_LEXER_SETPOINT = (\<lambda>(elems, pos) pt. (elems, nat (lp_offset pt)))\<rparr>"

text \<open>A statement parser for sources without statements: it rejects every statement.\<close>

definition example_parse_stmt ::
  "bool \<Rightarrow> example_lex duk_compiler_ctx \<Rightarrow> (unit, example_lex duk_compiler_ctx) res option"
where
  "example_parse_stmt allow_source_elem comp_ctx =
     Some (DUK_ERROR comp_ctx DUK_ERR_UNIMPLEMENTED_ERROR ''statement'')"

definition example_parse_stmts ::
  "bool \<Rightarrow> bool \<Rightarrow> example_lex duk_compiler_ctx
     \<Rightarrow> (unit, example_lex duk_compiler_ctx) res option"
where
  "example_parse_stmts = duk__parse_stmts example_lexer example_parse_stmt"

text \<open>The tokens of \<^verbatim>\<open>function f(a, b) { }\<close> and of \<^verbatim>\<open>function (a, a) { }\<close>.\<close>

definition example_function_f :: "(duk_thrown + duk_token) list" where
  "example_function_f =
     map Inr
       [example_token DUK_TOK_FUNCTION [] 1, example_token DUK_TOK_IDENTIFIER ''f'' 1,
        example_token DUK_TOK_LPAREN [] 1, example_token DUK_TOK_IDENTIFIER ''a'' 1,
        example_token DUK_TOK_COMMA [] 1, example_token DUK_TOK_IDENTIFIER ''b'' 1,
        example_token DUK_TOK_RPAREN [] 1, example_token DUK_TOK_LCURLY [] 1,
        example_token DUK_TOK_RCURLY [] 2]"

definition example_function_a_a :: "(duk_thrown + duk_token) list" where
  "example_function_a_a =
     map Inr
       [example_token DUK_TOK_FUNCTION [] 1,
        example_token DUK_TOK_LPAREN [] 1, example_token DUK_TOK_IDENTIFIER ''a'' 1,
        example_token DUK_TOK_COMMA [] 1, example_token DUK_TOK_IDENTIFIER ''a'' 2,
        example_token DUK_TOK_RPAREN [] 2, example_token DUK_TOK_LCURLY [] 2,
        example_token DUK_TOK_RCURLY [] 3]"

text \<open>
  A compiler context in the middle of a compilation: the state of the current
  function, the current token and the input elements still to come.
\<close>

definition example_ctx ::
  "duk_compiler_func \<Rightarrow> duk_token \<Rightarrow> (duk_thrown + duk_token) list \<Rightarrow> example_lex duk_compiler_ctx"
where
  "example_ctx func tok elems =
     \<lparr>curr_func = func, curr_token = tok, prev_token = zero_token, lex = (elems, 0),
      h_filename = Some ''f.js'', recursion_depth = 0, recursion_limit = 2500\<rparr>"

text \<open>The state of a function whose body is being compiled in the second pass.\<close>

definition example_func :: duk_compiler_func where
  "example_func = duk__init_func_valstack_slots\<lparr>is_function := True, allow_in := True\<rparr>"

text \<open>The token \<^verbatim>\<open>++\<close> at the start of line 2, after a line terminator.\<close>

definition example_increment_after_newline :: duk_token where
  "example_increment_after_newline = (example_token DUK_TOK_INCREMENT [] 2)\<lparr>tok_lineterm := True\<rparr>"

text \<open>
  A constant pool of \<open>n\<close> numbers, no two of them the same value: the doubles whose
  bit patterns are 0 to \<open>n - 1\<close>.
\<close>

definition example_pool :: "nat \<Rightarrow> duk_tval list" where
  "example_pool n = map (\<lambda>i. DUK_TVAL_NUMBER (of_nat i)) [0..<n]"





text \<open>A function whose constant pool holds \<open>n\<close> numbers.\<close>

definition example_ctx_pool :: "nat \<Rightarrow> example_lex duk_compiler_ctx" where
  "example_ctx_pool n = example_ctx (example_func\<lparr>h_consts := example_pool n\<rparr>) zero_token []"

text \<open>
  For the \<^verbatim>\<open>return\<close> statement: the states at \<^verbatim>\<open>return f\<close> (outside and inside a
  \<^verbatim>\<open>try\<close>) and at \<^verbatim>\<open>return;\<close>, and two expression parsers that leave the tokens alone: one
  emits a \<^verbatim>\<open>CALL\<close> and gives register 0, the other emits nothing and gives register 3.
\<close>

definition example_return_value_ctx :: "example_lex duk_compiler_ctx" where
  "example_return_value_ctx =
     example_ctx example_func (example_token DUK_TOK_RETURN [] 1)
       [Inr (example_token DUK_TOK_IDENTIFIER ''f'' 1)]"

definition example_return_in_try_ctx :: "example_lex duk_compiler_ctx" where
  "example_return_in_try_ctx =
     example_ctx (example_func\<lparr>catch_depth := 1\<rparr>) (example_token DUK_TOK_RETURN [] 1)
       [Inr (example_token DUK_TOK_IDENTIFIER ''f'' 1)]"

definition example_return_semicolon_ctx :: "example_lex duk_compiler_ctx" where
  "example_return_semicolon_ctx =
     example_ctx example_func (example_token DUK_TOK_RETURN [] 1)
       [Inr (example_token DUK_TOK_SEMICOLON [] 1)]"

definition example_call_expr ::
  "int \<Rightarrow> example_lex duk_compiler_ctx \<Rightarrow> (int, example_lex duk_compiler_ctx) res" where
  "example_call_expr rbp_flags c = Ok 0 (duk__emit (DUK_ENC_OP_A_B_C 55 0 0 0) c)"

definition example_value_expr ::
  "int \<Rightarrow> example_lex duk_compiler_ctx \<Rightarrow> (int, example_lex duk_compiler_ctx) res" where
  "example_value_expr rbp_flags c = Ok 3 c"

text \<open>
  For \<^verbatim>\<open>break\<close> and \<^verbatim>\<open>continue\<close>: a function with nine instructions emitted, inside an
  inner loop (label site at 5) of a loop labelled \<^verbatim>\<open>outer\<close> (label site at 0, with its
  own empty label); the states at \<^verbatim>\<open>break;\<close> and at \<^verbatim>\<open>continue outer;\<close>.
\<close>

definition example_labels :: "duk_labelinfo list" where
  "example_labels =
     [\<lparr>li_flags = 3, li_label_id = 0, li_h_label = ''outer'', li_catch_depth = 0, li_pc_label = 0\<rparr>,
      \<lparr>li_flags = 3, li_label_id = 0, li_h_label = '''', li_catch_depth = 0, li_pc_label = 0\<rparr>,
      \<lparr>li_flags = 3, li_label_id = 1, li_h_label = '''', li_catch_depth = 0, li_pc_label = 5\<rparr>]"

definition example_loop_func :: duk_compiler_func where
  "example_loop_func =
     example_func\<lparr>h_labelinfos := example_labels, h_code := replicate 9 (example_instr 0 0)\<rparr>"

definition example_break_ctx :: "example_lex duk_compiler_ctx" where
  "example_break_ctx =
     example_ctx example_loop_func (example_token DUK_TOK_BREAK [] 1)
       [Inr (example_token DUK_TOK_SEMICOLON [] 1)]"

definition example_continue_outer_ctx :: "example_lex duk_compiler_ctx" where
  "example_continue_outer_ctx =
     example_ctx example_loop_func (example_token DUK_TOK_CONTINUE [] 1)
       [Inr (example_token DUK_TOK_IDENTIFIER ''outer'' 1),
        Inr (example_token DUK_TOK_SEMICOLON [] 1)]"

text \<open>
  A statement parser for bodies made of directives: a statement is a string literal
  and a semicolon, and the directive \<^verbatim>\<open>use strict\<close> makes the function strict (as
  \<^verbatim>\<open>duk__parse_stmt\<close> does in the directive prologue). The state at the \<^verbatim>\<open>{\<close> of
  \<^verbatim>\<open>function (a, a) { "use strict"; }\<close>, a function that is not strict at its start, and
  the tokens of the whole function expression.
\<close>

definition example_parse_directive ::
  "bool \<Rightarrow> example_lex duk_compiler_ctx \<Rightarrow> (unit, example_lex duk_compiler_ctx) res option"
where
  "example_parse_directive allow_source_elem c =
     (if tok_t (curr_token c) = DUK_TOK_STRING then
        Some (and_then (duk__advance example_lexer c)
          (\<lambda>_ c1.
            (let c2 = (if tok_str1 (prev_token c1) = ''use strict'' \<and>
                          tok_num_escapes (prev_token c1) = 0
                       then c1\<lparr>curr_func := (curr_func c1)\<lparr>is_strict := True\<rparr>\<rparr> else c1)
             in if tok_t (curr_token c2) = DUK_TOK_SEMICOLON then duk__advance example_lexer c2
                else DUK_ERROR c2 DUK_ERR_SYNTAX_ERROR ''unterminated statement'')))
      else Some (DUK_ERROR c DUK_ERR_UNIMPLEMENTED_ERROR ''statement''))"

definition example_directive_stmts ::
  "bool \<Rightarrow> bool \<Rightarrow> example_lex duk_compiler_ctx
     \<Rightarrow> (unit, example_lex duk_compiler_ctx) res option"
where
  "example_directive_stmts = duk__parse_stmts example_lexer example_parse_directive"

definition example_use_strict_body_ctx :: "example_lex duk_compiler_ctx" where
  "example_use_strict_body_ctx =
     example_ctx (example_func\<lparr>h_argnames := [''a'', ''a'']\<rparr>) (example_token DUK_TOK_LCURLY [] 1)
       [Inr (example_token DUK_TOK_STRING ''use strict'' 2),
        Inr (example_token DUK_TOK_SEMICOLON [] 2),
        Inr (example_token DUK_TOK_RCURLY [] 3)]"

definition example_function_use_strict :: "(duk_thrown + duk_token) list" where
  "example_function_use_strict =
     map Inr
       [example_token DUK_TOK_FUNCTION [] 1,
        example_token DUK_TOK_LPAREN [] 1, example_token DUK_TOK_IDENTIFIER ''a'' 1,
        example_token DUK_TOK_COMMA [] 1, example_token DUK_TOK_IDENTIFIER ''a'' 1,
        example_token DUK_TOK_RPAREN [] 1, example_token DUK_TOK_LCURLY [] 1,
        example_token DUK_TOK_STRING ''use strict'' 2, example_token DUK_TOK_SEMICOLON [] 2,
        example_token DUK_TOK_RCURLY [] 3]"

section \<open>Decoding what was encoded\<close>

lemma DEC_OP_ENC_ABC:
  "0 \<le> op \<Longrightarrow> op < 64 \<Longrightarrow> DUK_DEC_OP (DUK_ENC_OP_ABC op abc) = op"
  by (simp add: DUK_DEC_OP_def DUK_ENC_OP_ABC_def unsigned_take_bit_eq uint_word_of_int_eq
      take_bit_push_bit take_bit_int_eq_self)

lemma DEC_ABC_ENC_ABC_take_bit:
  "DUK_DEC_ABC (DUK_ENC_OP_ABC (take_bit 6 op) (take_bit 26 abc)) = take_bit 26 abc"
  unfolding DUK_DEC_ABC_def DUK_ENC_OP_ABC_def
  by (rule bit_eqI) (auto simp add: bit_simps)

lemma DEC_ABC_ENC_ABC:
  assumes "0 \<le> op" "op < 64" "0 \<le> abc" "abc < 2 ^ 26"
  shows "DUK_DEC_ABC (DUK_ENC_OP_ABC op abc) = abc"
proof -
  have "take_bit 6 op = op" using assms by (simp add: take_bit_int_eq_self)
  moreover have "take_bit 26 abc = abc" using assms by (simp add: take_bit_int_eq_self)
  ultimately show ?thesis using DEC_ABC_ENC_ABC_take_bit [of op abc] by simp
qed

lemma DEC_OP_or: "DUK_DEC_OP (x OR y) = DUK_DEC_OP x OR DUK_DEC_OP y"
  unfolding DUK_DEC_OP_def by (rule bit_eqI) (auto simp add: bit_simps)

lemma DEC_A_or: "DUK_DEC_A (x OR y) = DUK_DEC_A x OR DUK_DEC_A y"
  unfolding DUK_DEC_A_def by (rule bit_eqI) (auto simp add: bit_simps)

lemma DEC_OP_ENC_A_B_C_take_bit:
  "DUK_DEC_OP (DUK_ENC_OP_A_B_C (take_bit 6 op) a b c) = take_bit 6 op"
  unfolding DUK_DEC_OP_def DUK_ENC_OP_A_B_C_def
  by (rule bit_eqI) (auto simp add: bit_simps)

lemma DEC_A_ENC_A_B_C_take_bit:
  "DUK_DEC_A (DUK_ENC_OP_A_B_C (take_bit 6 op) (take_bit 8 a) b c) = take_bit 8 a"
  unfolding DUK_DEC_A_def DUK_ENC_OP_A_B_C_def
  by (rule bit_eqI) (auto simp add: bit_simps)

lemma DEC_OP_ENC_A_B_C:
  assumes "0 \<le> op" "op < 64"
  shows "DUK_DEC_OP (DUK_ENC_OP_A_B_C op a b c) = op"
proof -
  have "take_bit 6 op = op" using assms by (simp add: take_bit_int_eq_self)
  then show ?thesis using DEC_OP_ENC_A_B_C_take_bit [of op a b c] by simp
qed

lemma DEC_A_ENC_A_B_C:
  assumes "0 \<le> op" "op < 64" "0 \<le> a" "a < 256"
  shows "DUK_DEC_A (DUK_ENC_OP_A_B_C op a b c) = a"
proof -
  have "take_bit 6 op = op" using assms by (simp add: take_bit_int_eq_self)
  moreover have "take_bit 8 a = a" using assms by (simp add: take_bit_int_eq_self)
  ultimately show ?thesis using DEC_A_ENC_A_B_C_take_bit [of op a b c] by simp
qed

lemma low14_clear_0 [simp]: "low14_clear 0"
  by (simp add: low14_clear_def)

lemma low14_clear_or: "low14_clear x \<Longrightarrow> low14_clear y \<Longrightarrow> low14_clear (x OR y)"
  by (simp add: low14_clear_def)

lemma low14_clear_flagB: "low14_clear (DUK_ENC_OP_A_B_C 0 0 0x100 0)"
  by (simp add: low14_clear_def DUK_ENC_OP_A_B_C_def)

lemma low14_clear_flagC: "low14_clear (DUK_ENC_OP_A_B_C 0 0 0 0x100)"
  by (simp add: low14_clear_def DUK_ENC_OP_A_B_C_def)

lemma low14_clear_DEC_OP: "low14_clear x \<Longrightarrow> DUK_DEC_OP x = 0"
proof -
  assume "low14_clear x"
  then have "take_bit 6 (take_bit 14 x) = 0" by (simp add: low14_clear_def)
  then show ?thesis by (simp add: DUK_DEC_OP_def)
qed

lemma low14_clear_DEC_A: "low14_clear x \<Longrightarrow> DUK_DEC_A x = 0"
proof -
  assume "low14_clear x"
  then have "take_bit 8 (drop_bit 6 (take_bit 14 x)) = 0" by (simp add: low14_clear_def)
  then have "take_bit 8 (drop_bit 6 x) = 0" by (simp add: drop_bit_take_bit)
  then show ?thesis by (simp add: DUK_DEC_A_def)
qed

lemma and_ff_small:
  assumes "0 \<le> x" "x < 256" shows "x AND 0xff = (x::int)"
proof -
  have "(0xff::int) = mask 8" by (simp add: mask_eq_exp_minus_1)
  then have "x AND 0xff = take_bit 8 x" by (simp add: take_bit_eq_mask)
  then show ?thesis using assms by (simp add: take_bit_int_eq_self)
qed

lemma and_flag_small:
  assumes "0 \<le> x" "x < 64" "6 \<le> n" shows "x AND push_bit n 1 = (0::int)"
proof -
  have x: "take_bit 6 x = x" using assms by (simp add: take_bit_int_eq_self)
  have "take_bit 6 x AND push_bit n 1 = 0"
    using assms(3) by (intro bit_eqI) (auto simp add: bit_simps)
  then show ?thesis using x by simp
qed

lemma or_and_self: "(x OR y) AND y = (y::int)"
  by (rule bit_eqI) (auto simp: bit_simps)


section \<open>Results\<close>

lemma and_then_OkE:
  assumes "and_then r f = Ok x s"
  obtains y t where "r = Ok y t" "f y t = Ok x s"
  using assms by (cases r) (auto simp: and_then_def)

lemma and_then_o_OkE:
  assumes "and_then_o r f = Some (Ok x s)"
  obtains y t where "r = Some (Ok y t)" "f y t = Some (Ok x s)"
proof (cases r)
  case None
  then show ?thesis using assms by (simp add: and_then_o_def)
next
  case (Some a)
  then show ?thesis using assms that by (cases a) (auto simp: and_then_o_def)
qed

lemma and_then_Ok [simp]: "and_then (Ok y t) f = f y t"
  by (simp add: and_then_def)

lemma and_then_Throw [simp]: "and_then (Throw e t) f = Throw e t"
  by (simp add: and_then_def)

lemma and_then_o_Ok [simp]: "and_then_o (Some (Ok y t)) f = f y t"
  by (simp add: and_then_o_def)

lemma and_then_o_Throw [simp]: "and_then_o (Some (Throw e t)) f = Some (Throw e t)"
  by (simp add: and_then_o_def)


section \<open>The peephole optimizer does what the spec says\<close>

lemma jumps_in_bounds_iff:
  "jumps_in_bounds k bc =
     (\<forall>pc < length bc. is_JUMP k (bc ! pc) \<longrightarrow>
        0 \<le> jump_target k pc (bc ! pc) \<and> jump_target k pc (bc ! pc) < int (length bc))"
  by (auto simp: jumps_in_bounds_def)


lemma is_JUMP_retarget:
  "peephole_fits k n \<Longrightarrow> is_JUMP k (spec_retarget k pc t c)"
  by (simp add: is_JUMP_def spec_retarget_def peephole_fits_def DEC_OP_ENC_ABC)

lemma jump_target_retarget:
  assumes "peephole_fits k n" "pc < n" "0 \<le> t" "t < int n"
  shows "jump_target k pc (spec_retarget k pc t c) = t"
proof -
  have "0 \<le> t - int pc - 1 + DUK_BC_JUMP_BIAS k" "t - int pc - 1 + DUK_BC_JUMP_BIAS k < 2 ^ 26"
    using assms by (auto simp: peephole_fits_def)
  then have "DUK_DEC_ABC (DUK_ENC_OP_ABC (DUK_OP_JUMP k) (t - int pc - 1 + DUK_BC_JUMP_BIAS k))
      = t - int pc - 1 + DUK_BC_JUMP_BIAS k"
    using assms(1) by (intro DEC_ABC_ENC_ABC) (auto simp: peephole_fits_def)
  then show ?thesis by (simp add: jump_target_def spec_retarget_def)
qed

lemma length_spec_flatten_at [simp]: "length (fst (spec_flatten_at k pc bc)) = length bc"
  by (simp add: spec_flatten_at_def Let_def)

lemma jumps_in_bounds_flatten:
  assumes fits: "peephole_fits k (length bc)" and inb: "jumps_in_bounds k bc" and pc: "pc < length bc"
  shows "jumps_in_bounds k (fst (spec_flatten_at k pc bc))"
proof (cases "snd (spec_flatten_at k pc bc)")
  case False
  then have "fst (spec_flatten_at k pc bc) = bc"
    by (auto simp: spec_flatten_at_def Let_def split: if_splits)
  with inb show ?thesis by simp
next
  case True
  define t1 where "t1 = nat (jump_target k pc (bc ! pc))"
  define t2 where "t2 = jump_target k t1 (bc ! t1)"
  from True have j1: "is_JUMP k (bc ! pc)" and j2: "is_JUMP k (bc ! t1)"
    and eq: "fst (spec_flatten_at k pc bc) = bc[pc := spec_retarget k pc t2 (bc ! pc)]"
    by (auto simp: spec_flatten_at_def Let_def t1_def t2_def split: if_splits)
  from inb j1 pc have "t1 < length bc"
    by (auto simp: jumps_in_bounds_iff t1_def)
  with inb j2 have t2: "0 \<le> t2" "t2 < int (length bc)"
    by (auto simp: jumps_in_bounds_iff t2_def)
  show ?thesis
    unfolding eq jumps_in_bounds_iff
  proof (intro allI impI)
    fix q assume q: "q < length (bc[pc := spec_retarget k pc t2 (bc ! pc)])"
      and "is_JUMP k (bc[pc := spec_retarget k pc t2 (bc ! pc)] ! q)"
    then show "0 \<le> jump_target k q (bc[pc := spec_retarget k pc t2 (bc ! pc)] ! q) \<and>
      jump_target k q (bc[pc := spec_retarget k pc t2 (bc ! pc)] ! q)
        < int (length (bc[pc := spec_retarget k pc t2 (bc ! pc)]))"
      using inb t2 pc jump_target_retarget [OF fits pc t2]
      by (cases "q = pc") (auto simp: jumps_in_bounds_iff)
  qed
qed

lemma peephole_body_spec:
  assumes "jumps_in_bounds k bc" "i < length bc"
  shows "duk__peephole_body k (length bc) i bc = Some (spec_flatten_at k i bc)"
  using assms
  by (auto simp: duk__peephole_body_def spec_flatten_at_def Let_def jumps_in_bounds_iff
      is_JUMP_def jump_target_def spec_retarget_def algebra_simps)

lemma peephole_pass_spec:
  assumes "peephole_fits k n"
  shows "jumps_in_bounds k bc \<Longrightarrow> length bc = n \<Longrightarrow> i \<le> n \<Longrightarrow>
    duk__peephole_pass k n i bc (int c) =
      Some (fst (spec_pass k [i..<n] bc c), int (snd (spec_pass k [i..<n] bc c)))"
proof (induction "n - i" arbitrary: i bc c)
  case 0
  then show ?case by (subst duk__peephole_pass.simps) simp
next
  case (Suc d)
  then have lt: "i < n" by simp
  obtain bc' r where fl: "spec_flatten_at k i bc = (bc', r)" by (cases "spec_flatten_at k i bc")
  have body: "duk__peephole_body k n i bc = Some (bc', r)"
    using peephole_body_spec [of k bc i] Suc.prems lt fl by simp
  have inb': "jumps_in_bounds k bc'" and len': "length bc' = n"
    using jumps_in_bounds_flatten [of k bc i] length_spec_flatten_at [of k i bc]
      Suc.prems lt fl assms by auto
  have d: "d = n - (i + 1)" using Suc.hyps(2) by simp
  have upt: "[i..<n] = i # [i + 1..<n]" using lt by (simp add: upt_conv_Cons)
  have IH: "duk__peephole_pass k n (i + 1) bc' (int c') =
      Some (fst (spec_pass k [i + 1..<n] bc' c'), int (snd (spec_pass k [i + 1..<n] bc' c')))" for c'
    using Suc.hyps(1) [OF d inb' len'] lt by simp
  show ?case
  proof (cases r)
    case True
    have "(if r then int c + 1 else int c) = int (c + 1)" using True by simp
    then show ?thesis
      using lt body IH [of "c + 1"] True fl
      by (subst duk__peephole_pass.simps) (simp add: upt ac_simps)
  next
    case False
    then show ?thesis
      using lt body IH [of c] fl
      by (subst duk__peephole_pass.simps) (simp add: upt)
  qed
qed

lemma spec_pass_inv:
  "peephole_fits k (length bc) \<Longrightarrow> jumps_in_bounds k bc \<Longrightarrow> \<forall>pc \<in> set pcs. pc < length bc \<Longrightarrow>
   jumps_in_bounds k (fst (spec_pass k pcs bc c)) \<and> length (fst (spec_pass k pcs bc c)) = length bc"
proof (induction pcs arbitrary: bc c)
  case Nil
  then show ?case by simp
next
  case (Cons pc pcs)
  obtain bc' r where fl: "spec_flatten_at k pc bc = (bc', r)" by (cases "spec_flatten_at k pc bc")
  have inb': "jumps_in_bounds k bc'" and len': "length bc' = length bc"
    using jumps_in_bounds_flatten [of k bc pc] length_spec_flatten_at [of k pc bc]
      Cons.prems fl by auto
  show ?case using Cons.IH [of bc'] Cons.prems inb' len' fl by simp
qed

lemma peephole_loop_spec:
  "peephole_fits k n \<Longrightarrow> jumps_in_bounds k bc \<Longrightarrow> length bc = n \<Longrightarrow>
   iter \<le> DUK_COMPILER_PEEPHOLE_MAXITER k \<Longrightarrow>
   map_option snd (duk__peephole_loop k n iter bc) =
     Some (spec_peephole k (DUK_COMPILER_PEEPHOLE_MAXITER k - iter) bc)"
proof (induction "DUK_COMPILER_PEEPHOLE_MAXITER k - iter" arbitrary: iter bc)
  case 0
  then show ?case by (subst duk__peephole_loop.simps) simp
next
  case (Suc d)
  then have lt: "iter < DUK_COMPILER_PEEPHOLE_MAXITER k" by simp
  obtain bc' c where sp: "spec_pass k [0..<n] bc 0 = (bc', c)" by (cases "spec_pass k [0..<n] bc 0")
  have pass: "duk__peephole_pass k n 0 bc 0 = Some (bc', int c)"
    using peephole_pass_spec [of k n bc 0 0] Suc.prems sp by simp
  have inv: "jumps_in_bounds k bc'" "length bc' = n"
    using spec_pass_inv [of k bc "[0..<n]" 0] Suc.prems sp by auto
  have cap: "DUK_COMPILER_PEEPHOLE_MAXITER k - iter = Suc d" using Suc.hyps(2) by simp
  show ?case
  proof (cases "c = 0")
    case True
    then show ?thesis using lt pass sp Suc.prems cap
      by (subst duk__peephole_loop.simps) simp
  next
    case False
    have d: "d = DUK_COMPILER_PEEPHOLE_MAXITER k - (iter + 1)" using Suc.hyps(2) by simp
    have "map_option snd (duk__peephole_loop k n (iter + 1) bc') =
        Some (spec_peephole k (DUK_COMPILER_PEEPHOLE_MAXITER k - (iter + 1)) bc')"
      using Suc.hyps(1) [OF d Suc.prems(1) inv] lt by simp
    then show ?thesis using lt pass sp Suc.prems cap False d
      by (subst duk__peephole_loop.simps) simp
  qed
qed

lemma length_spec_pass [simp]: "length (fst (spec_pass k pcs bc c)) = length bc"
proof (induction pcs arbitrary: bc c)
  case Nil
  then show ?case by simp
next
  case (Cons pc pcs)
  obtain bc' r where fl: "spec_flatten_at k pc bc = (bc', r)" by (cases "spec_flatten_at k pc bc")
  have "length bc' = length bc" using length_spec_flatten_at [of k pc bc] fl by simp
  then show ?case using Cons.IH [of bc'] fl by simp
qed

lemma length_spec_peephole [simp]: "length (spec_peephole k cap bc) = length bc"
proof (induction cap arbitrary: bc)
  case 0
  then show ?case by simp
next
  case (Suc cap)
  obtain bc' c where sp: "spec_pass k [0..<length bc] bc 0 = (bc', c)"
    by (cases "spec_pass k [0..<length bc] bc 0")
  have "length bc' = length bc" using length_spec_pass [of k "[0..<length bc]" bc 0] sp by simp
  then show ?case using Suc.IH [of bc'] sp by simp
qed





lemma example_hdr_simps [simp]:
  "DUK_OP_JUMP example_hdr = 53" "DUK_BC_JUMP_BIAS example_hdr = 2 ^ 25"
  "DUK_COMPILER_PEEPHOLE_MAXITER example_hdr = 3"
  by (simp_all add: example_hdr_def)
lemma keeps_non_jumps_refl [simp]: "keeps_non_jumps k bc bc"
  by (simp add: keeps_non_jumps_def)

lemma keeps_non_jumps_trans:
  "keeps_non_jumps k bc bc' \<Longrightarrow> keeps_non_jumps k bc' bc'' \<Longrightarrow> keeps_non_jumps k bc bc''"
  by (auto simp: keeps_non_jumps_def)

lemma peephole_body_keeps:
  assumes "duk__peephole_body k n i bc = Some (bc', r)"
  shows "keeps_non_jumps k bc bc'"
proof (cases "is_JUMP k (bc ! i)")
  case False
  then have "bc' = bc" using assms by (simp add: duk__peephole_body_def is_JUMP_def)
  then show ?thesis by simp
next
  case True
  from assms have "bc' = bc \<or> (\<exists>x. bc' = bc[i := x])"
    by (auto simp: duk__peephole_body_def Let_def split: if_splits)
  then show ?thesis
  proof
    assume "bc' = bc" then show ?thesis by simp
  next
    assume "\<exists>x. bc' = bc[i := x]"
    then obtain x where x: "bc' = bc[i := x]" ..
    show ?thesis
      unfolding keeps_non_jumps_def x
    proof (intro conjI allI impI)
      show "length (bc[i := x]) = length bc" by simp
    next
      fix pc assume "pc < length bc" "\<not> is_JUMP k (bc ! pc)"
      then have "pc \<noteq> i" using True by auto
      then show "bc[i := x] ! pc = bc ! pc" by simp
    qed
  qed
qed

lemma peephole_pass_keeps:
  "duk__peephole_pass k n i bc c = Some (bc', c') \<Longrightarrow> keeps_non_jumps k bc bc'"
proof (induction k n i bc c rule: duk__peephole_pass.induct)
  case (1 k n i bc count_opt)
  show ?case
  proof (cases "i < n")
    case False
    then show ?thesis using "1.prems" by (subst (asm) duk__peephole_pass.simps) simp
  next
    case True
    from "1.prems" True obtain b r where body: "duk__peephole_body k n i bc = Some (b, r)"
      and rest: "duk__peephole_pass k n (i + 1) b (if r then count_opt + 1 else count_opt) = Some (bc', c')"
      by (subst (asm) duk__peephole_pass.simps) (auto split: option.splits)
    have "keeps_non_jumps k b bc'" using "1.IH" [OF True body refl rest] .
    then show ?thesis using peephole_body_keeps [OF body] keeps_non_jumps_trans by blast
  qed
qed

lemma peephole_loop_keeps:
  "duk__peephole_loop k n iter bc = Some (iter', bc') \<Longrightarrow> keeps_non_jumps k bc bc'"
proof (induction k n iter bc rule: duk__peephole_loop.induct)
  case (1 k n iter bc)
  show ?case
  proof (cases "iter < DUK_COMPILER_PEEPHOLE_MAXITER k")
    case False
    then show ?thesis using "1.prems" by (subst (asm) duk__peephole_loop.simps) simp
  next
    case True
    from "1.prems" True obtain b c where pass: "duk__peephole_pass k n 0 bc 0 = Some (b, c)"
      and rest: "(if c = 0 then Some (iter, b) else duk__peephole_loop k n (iter + 1) b) = Some (iter', bc')"
      by (subst (asm) duk__peephole_loop.simps) (auto split: option.splits)
    have kb: "keeps_non_jumps k bc b" using peephole_pass_keeps [OF pass] .
    show ?thesis
    proof (cases "c = 0")
      case True
      then show ?thesis using rest kb by simp
    next
      case False
      then have "keeps_non_jumps k b bc'" using "1.IH" [OF True pass refl False] rest by simp
      then show ?thesis using kb keeps_non_jumps_trans by blast
    qed
  qed
qed

lemma peephole_keeps_non_jumps:
  "duk__peephole_optimize_bytecode k bc = Some bc' \<Longrightarrow> keeps_non_jumps k bc bc'"
  by (auto simp: duk__peephole_optimize_bytecode_def dest: peephole_loop_keeps)


section \<open>The emitter\<close>

lemma code_grows_length:
  assumes "code_grows c c' n"
  shows "length (h_code (curr_func c)) \<le> length (h_code (curr_func c'))"
proof -
  have "length (take (length (h_code (curr_func c))) (h_code (curr_func c'))) =
      length (h_code (curr_func c))"
    using assms by (simp add: code_grows_def)
  then show ?thesis by simp
qed

lemma code_grows_refl [simp]: "code_grows c c n"
  by (simp add: code_grows_def)

lemma code_grows_emit [simp]: "code_grows c (duk__emit i (set_needs_shuffle c)) (Suc n)"
  by (simp add: code_grows_def duk__emit_def set_needs_shuffle_def)

lemma code_grows_needs_shuffle [simp]: "code_grows c (set_needs_shuffle c) n"
  by (simp add: code_grows_def set_needs_shuffle_def)

lemma slot_a_small:
  "e_a v \<le> 0xff \<Longrightarrow> duk__emit_a_b_c_slot_a k v c = Ok v c"
  by (simp add: duk__emit_a_b_c_slot_a_def DUK_BC_A_MAX_def)

lemma slot_c_zero:
  "e_c v = 0 \<Longrightarrow> duk__emit_a_b_c_slot_c k v c = Ok v c"
  by (simp add: duk__emit_a_b_c_slot_c_def)

lemma slot_b_RETURN:
  assumes "hdr_ok k" "e_op_flags v = DUK_OP_RETURN k"
    and "duk__emit_a_b_c_slot_b k v c = Ok v' c'"
  shows "e_op_flags v' = e_op_flags v \<and> e_a v' = e_a v \<and> e_c v' = e_c v \<and>
         e_a_out v' = e_a_out v \<and> e_b_out v' = e_b_out v \<and> e_c_out v' = e_c_out v \<and>
         (low14_clear (e_ins v) \<longrightarrow> low14_clear (e_ins v')) \<and> code_grows c c' 1 \<and>
         curr_token c' = curr_token c"
proof -
  have op: "0 \<le> DUK_OP_RETURN k" "DUK_OP_RETURN k < 64" using assms(1) by (auto simp: hdr_ok_def)
  have ff: "DUK_OP_RETURN k AND 0xff = DUK_OP_RETURN k" using op by (intro and_ff_small) auto
  have nf: "DUK_OP_RETURN k AND DUK__EMIT_FLAG_NO_SHUFFLE_B = 0"
       "DUK_OP_RETURN k AND DUK__EMIT_FLAG_B_IS_TARGET = 0"
    using and_flag_small [OF op, of 9] and_flag_small [OF op, of 12]
    by (simp_all add: DUK__EMIT_FLAG_NO_SHUFFLE_B_def DUK__EMIT_FLAG_B_IS_TARGET_def)
  have ne: "DUK_OP_RETURN k \<noteq> DUK_OP_CALL k" "DUK_OP_RETURN k \<noteq> DUK_OP_NEW k"
       "DUK_OP_RETURN k \<noteq> DUK_OP_MPUTOBJ k" "DUK_OP_RETURN k \<noteq> DUK_OP_MPUTARR k"
    using assms(1) by (auto simp: hdr_ok_def)
  show ?thesis
    using assms(2,3) ff nf ne
    by (auto simp: duk__emit_a_b_c_slot_b_def Let_def error_outofregs_def DUK_ERROR_def
        low14_clear_or low14_clear_flagB duk__emit_def set_needs_shuffle_def code_grows_def
        split: if_splits)
qed

lemma emit_a_b_RETURN:
  assumes hdr: "hdr_ok k" and fl: "0 \<le> flags" "flags \<le> 0xff"
    and em: "duk__emit_a_b k (DUK_OP_RETURN k) flags reg c = Ok u c'"
  shows "h_code (curr_func c') \<noteq> [] \<and> code_grows c c' 2 \<and>
         length (h_code (curr_func c)) < length (h_code (curr_func c')) \<and>
         DUK_DEC_OP (ins (last (h_code (curr_func c')))) = DUK_OP_RETURN k \<and>
         DUK_DEC_A (ins (last (h_code (curr_func c')))) = flags"
proof -
  define v0 where "v0 = \<lparr>e_op_flags = DUK_OP_RETURN k, e_ins = 0, e_a = flags, e_b = reg,
    e_c = 0, e_a_out = 0, e_b_out = 0, e_c_out = 0\<rparr>"
  have op: "0 \<le> DUK_OP_RETURN k" "DUK_OP_RETURN k < 64" using hdr by (auto simp: hdr_ok_def)
  have ff: "DUK_OP_RETURN k AND 0xff = DUK_OP_RETURN k" using op by (intro and_ff_small) auto
  have a: "duk__emit_a_b_c_slot_a k v0 c = Ok v0 c"
    using fl by (intro slot_a_small) (simp add: v0_def)
  from em have "and_then (duk__emit_a_b_c_slot_b k v0 c)
       (\<lambda>v2 comp_ctx2. and_then (duk__emit_a_b_c_slot_c k v2 comp_ctx2)
       (\<lambda>v3 comp_ctx3. Ok () (duk__emit_a_b_c_main k v3 comp_ctx3))) = Ok u c'"
    using a by (simp add: duk__emit_a_b_def duk__emit_a_b_c_def v0_def)
  then obtain v1 c1 where b: "duk__emit_a_b_c_slot_b k v0 c = Ok v1 c1"
    and rest: "and_then (duk__emit_a_b_c_slot_c k v1 c1)
       (\<lambda>v3 comp_ctx3. Ok () (duk__emit_a_b_c_main k v3 comp_ctx3)) = Ok u c'"
    by (rule and_then_OkE)
  have v1: "e_op_flags v1 = DUK_OP_RETURN k" "e_a v1 = flags" "e_c v1 = 0"
      "e_a_out v1 = 0" "e_b_out v1 = 0" "e_c_out v1 = 0" "low14_clear (e_ins v1)"
      "code_grows c c1 1"
    using slot_b_RETURN [OF hdr _ b] by (simp_all add: v0_def)
  have c': "c' = duk__emit_a_b_c_main k v1 c1"
    using rest slot_c_zero [of v1 k c1] v1 by simp
  define i where "i = e_ins v1 OR DUK_ENC_OP_A_B_C (DUK_OP_RETURN k) flags (e_b v1) 0"
  have code: "h_code (curr_func c') = h_code (curr_func c1) @
      [\<lparr>ins = i, line = tok_start_line (curr_token c1)\<rparr>]"
    using v1 ff by (simp add: c' duk__emit_a_b_c_main_def Let_def duk__emit_def i_def)
  have dop: "DUK_DEC_OP i = DUK_OP_RETURN k"
    using v1(7) op by (simp add: i_def DEC_OP_or low14_clear_DEC_OP DEC_OP_ENC_A_B_C)
  have da: "DUK_DEC_A i = flags"
    using v1(7) op fl by (simp add: i_def DEC_A_or low14_clear_DEC_A DEC_A_ENC_A_B_C)
  show ?thesis
    using code dop da v1(8) code_grows_length [OF v1(8)] by (auto simp: code_grows_def)
qed


section \<open>Function bodies end in a return\<close>

lemma pass2_ends_in_fast_return:
  assumes hdr: "hdr_ok k"
    and run: "duk__parse_func_body_pass2 k stmts expect_eof implicit reg_stmt_value1 c = Some (Ok u c')"
  shows "ends_in_fast_return k (map ins (h_code (curr_func c')))"
proof -
  from run obtain u1 c1 where
    rest1: "and_then_o (stmts True expect_eof c1)
           (\<lambda>_ comp_ctx2.
             and_then_o
               (Some (if reg_stmt_value1 \<ge> 0
                      then duk__emit_a_b k (DUK_OP_RETURN k)
                             (DUK_BC_RETURN_FLAG_HAVE_RETVAL k OR DUK_BC_RETURN_FLAG_FAST k)
                             reg_stmt_value1 comp_ctx2
                      else duk__emit_a_b k (DUK_OP_RETURN k) (DUK_BC_RETURN_FLAG_FAST k) 0
                             comp_ctx2))
               (\<lambda>_ comp_ctx3.
                 (case duk__peephole_optimize_bytecode k (h_code (curr_func comp_ctx3)) of
                    None \<Rightarrow> Some Undefined_behaviour
                  | Some bc \<Rightarrow>
                      Some (Ok () (duk__recursion_decrease
                        (comp_ctx3\<lparr>curr_func := (curr_func comp_ctx3)\<lparr>h_code := bc\<rparr>\<rparr>)))))) = Some (Ok u c')"
    unfolding duk__parse_func_body_pass2_def by (rule and_then_o_OkE)
  from rest1 obtain u2 c2 where
    rest2: "and_then_o
               (Some (if reg_stmt_value1 \<ge> 0
                      then duk__emit_a_b k (DUK_OP_RETURN k)
                             (DUK_BC_RETURN_FLAG_HAVE_RETVAL k OR DUK_BC_RETURN_FLAG_FAST k)
                             reg_stmt_value1 c2
                      else duk__emit_a_b k (DUK_OP_RETURN k) (DUK_BC_RETURN_FLAG_FAST k) 0 c2))
               (\<lambda>_ comp_ctx3.
                 (case duk__peephole_optimize_bytecode k (h_code (curr_func comp_ctx3)) of
                    None \<Rightarrow> Some Undefined_behaviour
                  | Some bc \<Rightarrow>
                      Some (Ok () (duk__recursion_decrease
                        (comp_ctx3\<lparr>curr_func := (curr_func comp_ctx3)\<lparr>h_code := bc\<rparr>\<rparr>))))) = Some (Ok u c')"
    by (rule and_then_o_OkE)
  define flags where "flags = (if reg_stmt_value1 \<ge> 0
      then DUK_BC_RETURN_FLAG_HAVE_RETVAL k OR DUK_BC_RETURN_FLAG_FAST k
      else DUK_BC_RETURN_FLAG_FAST k)"
  define reg where "reg = (if reg_stmt_value1 \<ge> 0 then reg_stmt_value1 else 0)"
  from rest2 obtain u3 c3 where
    em: "duk__emit_a_b k (DUK_OP_RETURN k) flags reg c2 = Ok u3 c3"
    and pe: "(case duk__peephole_optimize_bytecode k (h_code (curr_func c3)) of
                    None \<Rightarrow> Some Undefined_behaviour
                  | Some bc \<Rightarrow>
                      Some (Ok () (duk__recursion_decrease
                        (c3\<lparr>curr_func := (curr_func c3)\<lparr>h_code := bc\<rparr>\<rparr>)))) = Some (Ok u c')"
    by (rule and_then_o_OkE) (auto simp: flags_def reg_def split: if_splits)
  from pe obtain bc where opt: "duk__peephole_optimize_bytecode k (h_code (curr_func c3)) = Some bc"
    and c': "c' = duk__recursion_decrease (c3\<lparr>curr_func := (curr_func c3)\<lparr>h_code := bc\<rparr>\<rparr>)"
    by (auto split: option.splits)
  have fast: "0 < DUK_BC_RETURN_FLAG_FAST k" and le: "flags \<le> 0xff" and ge: "0 \<le> flags"
    using hdr by (auto simp: hdr_ok_def flags_def)
  have ff: "flags AND DUK_BC_RETURN_FLAG_FAST k \<noteq> 0"
    using fast or_and_self [of "DUK_BC_RETURN_FLAG_HAVE_RETVAL k" "DUK_BC_RETURN_FLAG_FAST k"]
    by (auto simp: flags_def)
  have e: "h_code (curr_func c3) \<noteq> []"
      "DUK_DEC_OP (ins (last (h_code (curr_func c3)))) = DUK_OP_RETURN k"
      "DUK_DEC_A (ins (last (h_code (curr_func c3)))) = flags"
    using emit_a_b_RETURN [OF hdr ge le em] by auto
  have nj: "\<not> is_JUMP k (last (h_code (curr_func c3)))"
    using e(2) hdr by (auto simp: is_JUMP_def hdr_ok_def)
  have kp: "keeps_non_jumps k (h_code (curr_func c3)) bc" using peephole_keeps_non_jumps [OF opt] .
  have len: "length bc = length (h_code (curr_func c3))" using kp by (simp add: keeps_non_jumps_def)
  have "bc ! (length bc - 1) = h_code (curr_func c3) ! (length bc - 1)"
    using kp nj e(1) len by (auto simp: keeps_non_jumps_def last_conv_nth)
  moreover have ne: "bc \<noteq> []" using e(1) len by auto
  ultimately have last: "last bc = last (h_code (curr_func c3))"
    using e(1) len by (simp add: last_conv_nth)
  have code': "h_code (curr_func c') = bc" by (simp add: c' duk__recursion_decrease_def)
  from ne show ?thesis
    using last e ff by (simp add: ends_in_fast_return_def code' last_map)
qed


lemma func_body_ends_in_fast_return:
  assumes hdr: "hdr_ok k"
    and run: "duk__parse_func_body k lx stmts expect_eof implicit c = Some (Ok u c')"
  shows "ends_in_fast_return k (map ins (h_code (curr_func c')))"
proof -
  from run obtain lex_pt c1 where
    "and_then_o (Some (duk__parse_func_body_prologue k lx implicit lex_pt c1))
       (duk__parse_func_body_pass2 k stmts expect_eof implicit) = Some (Ok u c')"
    unfolding duk__parse_func_body_def by (rule and_then_o_OkE)
  then obtain r c2 where "duk__parse_func_body_pass2 k stmts expect_eof implicit r c2 = Some (Ok u c')"
    by (rule and_then_o_OkE)
  then show ?thesis using pass2_ends_in_fast_return [OF hdr] by blast
qed

lemma convert_bytecode [simp]:
  "tpl_bytecode (duk__convert_to_func_template c) = map ins (h_code (curr_func c))"
  by (simp add: duk__convert_to_func_template_def Let_def)

lemma func_like_raw_ends_in_fast_return:
  assumes hdr: "hdr_ok k"
    and run: "duk__parse_func_like_raw k lx stmts d s c = Some (Ok tpl c')"
  shows "ends_in_fast_return k (tpl_bytecode tpl)"
proof -
  from run obtain u1 c1 where
    "and_then_o (Some (duk__advance_expect lx DUK_TOK_LPAREN c1))
           (\<lambda>_ comp_ctx2.
             and_then_o (duk__parse_func_formals lx comp_ctx2)
               (\<lambda>_ comp_ctx3.
                 and_then_o (Some (duk__advance lx comp_ctx3))
                   (\<lambda>_ comp_ctx4.
                     and_then_o (duk__parse_func_body k lx stmts False False comp_ctx4)
                       (\<lambda>_ comp_ctx5.
                         Some (Ok (duk__convert_to_func_template comp_ctx5) comp_ctx5))))) = Some (Ok tpl c')"
    unfolding duk__parse_func_like_raw_def by (rule and_then_o_OkE)
  then obtain u2 c2 where
    "and_then_o (duk__parse_func_formals lx c2)
               (\<lambda>_ comp_ctx3.
                 and_then_o (Some (duk__advance lx comp_ctx3))
                   (\<lambda>_ comp_ctx4.
                     and_then_o (duk__parse_func_body k lx stmts False False comp_ctx4)
                       (\<lambda>_ comp_ctx5.
                         Some (Ok (duk__convert_to_func_template comp_ctx5) comp_ctx5)))) = Some (Ok tpl c')"
    by (rule and_then_o_OkE)
  then obtain u3 c3 where
    "and_then_o (Some (duk__advance lx c3))
                   (\<lambda>_ comp_ctx4.
                     and_then_o (duk__parse_func_body k lx stmts False False comp_ctx4)
                       (\<lambda>_ comp_ctx5.
                         Some (Ok (duk__convert_to_func_template comp_ctx5) comp_ctx5))) = Some (Ok tpl c')"
    by (rule and_then_o_OkE)
  then obtain u4 c4 where
    "and_then_o (duk__parse_func_body k lx stmts False False c4)
                       (\<lambda>_ comp_ctx5.
                         Some (Ok (duk__convert_to_func_template comp_ctx5) comp_ctx5)) = Some (Ok tpl c')"
    by (rule and_then_o_OkE)
  then obtain u5 c5 where body: "duk__parse_func_body k lx stmts False False c4 = Some (Ok u5 c5)"
    and tpl: "Some (Ok (duk__convert_to_func_template c5) c5) = Some (Ok tpl c')"
    by (rule and_then_o_OkE)
  from tpl have "tpl = duk__convert_to_func_template c5" by auto
  then show ?thesis using func_body_ends_in_fast_return [OF hdr body] by simp
qed

section \<open>The return statement\<close>

lemma list_update_last: "xs \<noteq> [] \<Longrightarrow> xs[length xs - 1 := y] = butlast xs @ [y]"
  by (induction xs rule: rev_induct) simp_all

lemma or_and_self_left: "(x OR y) AND x = (x::int)"
  by (rule bit_eqI) (auto simp: bit_simps)

lemma emit_RETURN_flags:
  assumes hdr: "hdr_ok k"
    and em: "duk__emit_a_b k (DUK_OP_RETURN k)
               (if fast then hv OR DUK_BC_RETURN_FLAG_FAST k else hv) reg c = Ok u c'"
    and hv: "hv = (if have_retval then DUK_BC_RETURN_FLAG_HAVE_RETVAL k else 0)"
  shows "length (h_code (curr_func c)) < length (h_code (curr_func c')) \<and>
         is_RETURN_with k have_retval fast (last_instr c')"
proof -
  let ?F = "DUK_BC_RETURN_FLAG_FAST k" and ?H = "DUK_BC_RETURN_FLAG_HAVE_RETVAL k"
  let ?flags = "if fast then hv OR ?F else hv"
  from hdr have F: "0 < ?F" "?F \<le> 0xff" and H: "0 < ?H" "?H \<le> 0xff"
    and HF: "?H OR ?F \<le> 0xff" and disj: "?H AND ?F = 0"
    by (auto simp: hdr_ok_def)
  have range: "0 \<le> ?flags" "?flags \<le> 0xff"
    using F H HF hv by (auto simp: or_nonnegative_int_iff)
  from emit_a_b_RETURN [OF hdr range em]
  have len: "length (h_code (curr_func c)) < length (h_code (curr_func c'))"
    and op: "DUK_DEC_OP (last_instr c') = DUK_OP_RETURN k"
    and a: "DUK_DEC_A (last_instr c') = ?flags"
    by (auto simp: last_instr_def)
  have disj': "?F AND ?H = 0" using disj by (simp add: and.commute)
  have "(?flags AND ?H \<noteq> 0) = have_retval"
    using F H disj disj' hv by (cases have_retval; cases fast) (simp_all add: or_and_self_left)
  moreover have "(?flags AND ?F \<noteq> 0) = fast"
    using F H disj disj' hv by (cases have_retval; cases fast) (simp_all add: or_and_self)
  ultimately show ?thesis using len op a by (simp add: is_RETURN_with_def)
qed

lemma set_tailcall_flag_props:
  assumes hdr: "hdr_ok k" and ne: "h_code (curr_func c) \<noteq> []"
  shows "length (h_code (curr_func (set_tailcall_flag k c))) = length (h_code (curr_func c)) \<and>
         butlast (h_code (curr_func (set_tailcall_flag k c))) = butlast (h_code (curr_func c)) \<and>
         DUK_DEC_OP (last_instr (set_tailcall_flag k c)) = DUK_DEC_OP (last_instr c) \<and>
         DUK_DEC_A (last_instr (set_tailcall_flag k c)) =
           DUK_DEC_A (last_instr c) OR DUK_BC_CALL_FLAG_TAILCALL k \<and>
         DUK_DEC_A (last_instr (set_tailcall_flag k c)) AND DUK_BC_CALL_FLAG_TAILCALL k \<noteq> 0"
proof -
  from hdr have T: "0 < DUK_BC_CALL_FLAG_TAILCALL k" "DUK_BC_CALL_FLAG_TAILCALL k \<le> 0xff"
    by (auto simp: hdr_ok_def)
  have op0: "DUK_DEC_OP (DUK_ENC_OP_A_B_C 0 (DUK_BC_CALL_FLAG_TAILCALL k) 0 0) = 0"
    by (rule DEC_OP_ENC_A_B_C) simp_all
  have a0: "DUK_DEC_A (DUK_ENC_OP_A_B_C 0 (DUK_BC_CALL_FLAG_TAILCALL k) 0 0) =
      DUK_BC_CALL_FLAG_TAILCALL k"
    using T by (intro DEC_A_ENC_A_B_C) simp_all
  have li: "last_instr (set_tailcall_flag k c) =
      last_instr c OR DUK_ENC_OP_A_B_C 0 (DUK_BC_CALL_FLAG_TAILCALL k) 0 0"
    by (simp add: set_tailcall_flag_def last_instr_def)
  have len: "length (h_code (curr_func (set_tailcall_flag k c))) = length (h_code (curr_func c))"
    using ne by (simp add: set_tailcall_flag_def)
  have bl: "butlast (h_code (curr_func (set_tailcall_flag k c))) = butlast (h_code (curr_func c))"
    by (simp add: set_tailcall_flag_def)
  have "(DUK_DEC_A (last_instr c) OR DUK_BC_CALL_FLAG_TAILCALL k) AND DUK_BC_CALL_FLAG_TAILCALL k =
      DUK_BC_CALL_FLAG_TAILCALL k"
    by (rule or_and_self)
  with T len bl show ?thesis by (simp add: li DEC_OP_or DEC_A_or op0 a0)
qed

lemma return_stmt_no_value:
  assumes adv: "duk__advance lx c = Ok u c1" and fn: "is_function (curr_func c1)"
    and nv: "return_value_absent c1"
  shows "duk__parse_return_stmt k lx ex c =
           duk__emit_a_b k (DUK_OP_RETURN k)
             (if catch_depth (curr_func c1) = 0 then 0 OR DUK_BC_RETURN_FLAG_FAST k else 0) 0 c1"
  using adv fn nv
  by (simp add: duk__parse_return_stmt_def return_value_absent_def Let_def)

lemma return_stmt_tail_call:
  assumes adv: "duk__advance lx c = Ok u c1" and fn: "is_function (curr_func c1)"
    and nv: "\<not> return_value_absent c1"
    and ex: "ex DUK__BP_FOR_EXPR c1 = Ok reg_val c2"
    and tc: "tail_call_position k c1 c2"
  shows "duk__parse_return_stmt k lx ex c = Ok () (set_tailcall_flag k c2)"
proof -
  from tc have ne: "h_code (curr_func c2) \<noteq> []" and len: "length (h_code (curr_func c1)) < length (h_code (curr_func c2))"
    by (auto simp: tail_call_position_def)
  then have ptr: "duk__get_instr_ptr c2 (int (length (h_code (curr_func c2))) - 1) = Some (last (h_code (curr_func c2)))"
    by (simp add: duk__get_instr_ptr_def duk__get_current_pc_def last_conv_nth nat_diff_distrib')
  have upd: "(h_code (curr_func c2))[nat (int (length (h_code (curr_func c2))) - 1) := y] =
      butlast (h_code (curr_func c2)) @ [y]" for y
    using list_update_last [OF ne, of y] by (simp add: duk__get_current_pc_def nat_diff_distrib')
  from adv fn nv ex tc len show ?thesis
    by (simp add: duk__parse_return_stmt_def return_value_absent_def Let_def ptr upd
        tail_call_position_def set_tailcall_flag_def last_instr_def duk__get_current_pc_def)
qed

lemma return_stmt_value:
  assumes adv: "duk__advance lx c = Ok u c1" and fn: "is_function (curr_func c1)"
    and nv: "\<not> return_value_absent c1"
    and ex: "ex DUK__BP_FOR_EXPR c1 = Ok reg_val c2"
    and tc: "\<not> tail_call_position k c1 c2"
  shows "duk__parse_return_stmt k lx ex c =
           duk__emit_a_b k (DUK_OP_RETURN k)
             (if catch_depth (curr_func c2) = 0
              then DUK_BC_RETURN_FLAG_HAVE_RETVAL k OR DUK_BC_RETURN_FLAG_FAST k
              else DUK_BC_RETURN_FLAG_HAVE_RETVAL k) reg_val c2"
proof (cases "\<not> DUK_USE_FUNC_NONSTD_CALLER_PROPERTY k \<and> catch_depth (curr_func c2) = 0 \<and>
    duk__get_current_pc c2 > duk__get_current_pc c1")
  case False
  with adv fn nv ex show ?thesis
    by (auto simp: duk__parse_return_stmt_def return_value_absent_def Let_def
        duk__get_current_pc_def)
next
  case True
  then have len: "length (h_code (curr_func c1)) < length (h_code (curr_func c2))"
    by (simp add: duk__get_current_pc_def)
  then have ne: "h_code (curr_func c2) \<noteq> []" by auto
  then have ptr: "duk__get_instr_ptr c2 (int (length (h_code (curr_func c2))) - 1) = Some (last (h_code (curr_func c2)))"
    by (simp add: duk__get_instr_ptr_def duk__get_current_pc_def last_conv_nth nat_diff_distrib')
  from tc True len have "DUK_DEC_OP (ins (last (h_code (curr_func c2)))) \<noteq> DUK_OP_CALL k"
    "DUK_DEC_OP (ins (last (h_code (curr_func c2)))) \<noteq> DUK_OP_CALLI k"
    by (auto simp: tail_call_position_def last_instr_def)
  with adv fn nv ex True show ?thesis
    by (simp add: duk__parse_return_stmt_def return_value_absent_def Let_def ptr
        duk__get_current_pc_def)
qed

section \<open>Break and continue\<close>

lemma lookup_active_label_loop_match:
  "duk__lookup_active_label_loop k h_label is_break labels n = Label_match li \<Longrightarrow>
     li < n \<and> li_h_label (labels ! li) = h_label \<and>
     (is_break \<or> li_flags (labels ! li) AND DUK_LABEL_FLAG_ALLOW_CONTINUE k \<noteq> 0) \<and>
     (\<forall>j. li < j \<and> j < n \<longrightarrow>
        li_h_label (labels ! j) \<noteq> h_label \<or>
        (\<not> is_break \<and> li_flags (labels ! j) AND DUK_LABEL_FLAG_ALLOW_CONTINUE k = 0))"
proof (induction n)
  case 0
  then show ?case by simp
next
  case (Suc n)
  show ?case
  proof (cases "duk__lookup_active_label_loop k h_label is_break labels n = Label_match li \<and>
      (li_h_label (labels ! n) \<noteq> h_label \<or>
       (\<not> is_break \<and> li_flags (labels ! n) AND DUK_LABEL_FLAG_ALLOW_CONTINUE k = 0))")
    case True
    with Suc.IH have "li < n \<and> li_h_label (labels ! li) = h_label \<and>
     (is_break \<or> li_flags (labels ! li) AND DUK_LABEL_FLAG_ALLOW_CONTINUE k \<noteq> 0) \<and>
     (\<forall>j. li < j \<and> j < n \<longrightarrow>
        li_h_label (labels ! j) \<noteq> h_label \<or>
        (\<not> is_break \<and> li_flags (labels ! j) AND DUK_LABEL_FLAG_ALLOW_CONTINUE k = 0))"
      by blast
    with True show ?thesis by (auto simp: less_Suc_eq)
  next
    case False
    with Suc.prems have "li = n \<and> li_h_label (labels ! n) = h_label \<and>
        (is_break \<or> li_flags (labels ! n) AND DUK_LABEL_FLAG_ALLOW_CONTINUE k \<noteq> 0)"
      by (auto split: if_splits)
    then show ?thesis by auto
  qed
qed

lemma jump_decodes:
  assumes fits: "peephole_fits k (Suc pc)" and tgt: "0 \<le> tgt" "tgt \<le> int pc"
  shows "DUK_DEC_OP (DUK_ENC_OP_ABC (DUK_OP_JUMP k) (tgt - int pc - 1 + DUK_BC_JUMP_BIAS k)) =
           DUK_OP_JUMP k \<and>
         int pc + 1 +
           DUK_DEC_ABC (DUK_ENC_OP_ABC (DUK_OP_JUMP k) (tgt - int pc - 1 + DUK_BC_JUMP_BIAS k)) -
           DUK_BC_JUMP_BIAS k = tgt"
proof -
  from fits have op: "0 \<le> DUK_OP_JUMP k" "DUK_OP_JUMP k < 64"
    and b1: "int pc + 1 \<le> DUK_BC_JUMP_BIAS k" and b2: "DUK_BC_JUMP_BIAS k + (int pc + 1) \<le> 2 ^ 26"
    by (auto simp: peephole_fits_def)
  from b1 b2 tgt have lo: "0 \<le> tgt - int pc - 1 + DUK_BC_JUMP_BIAS k"
    and hi: "tgt - int pc - 1 + DUK_BC_JUMP_BIAS k < 2 ^ 26" by linarith+
  from DEC_OP_ENC_ABC [OF op] DEC_ABC_ENC_ABC [OF op lo hi] show ?thesis by simp
qed

lemma break_continue_decodes:
  assumes op: "0 \<le> op" "op < 64" and id: "0 \<le> label_id" "label_id < 2 ^ 26"
  shows "DUK_DEC_OP (DUK_ENC_OP_ABC op label_id) = op \<and>
         DUK_DEC_ABC (DUK_ENC_OP_ABC op label_id) = label_id"
  using DEC_OP_ENC_ABC [OF op] DEC_ABC_ENC_ABC [OF op id] by simp

lemma break_or_continue_stmt_emits:
  assumes adv: "duk__advance lx c = Ok u c1"
    and name: "(return_value_absent c1 \<and> h_label = '''' \<and> c3 = c1) \<or>
               (\<not> return_value_absent c1 \<and> tok_t (curr_token c1) = DUK_TOK_IDENTIFIER \<and>
                h_label = tok_str1 (curr_token c1) \<and> duk__advance lx c1 = Ok u' c3)"
    and found: "duk__lookup_active_label_loop k h_label (tok_t (curr_token c) = DUK_TOK_BREAK)
                  (h_labelinfos (curr_func c1)) (length (h_labelinfos (curr_func c1))) =
                Label_match li"
  shows "duk__parse_break_or_continue_stmt k lx c =
           (if li_catch_depth (h_labelinfos (curr_func c1) ! li) = catch_depth (curr_func c3) \<and>
               li = length (h_labelinfos (curr_func c1)) - 1
            then duk__emit_jump k
                   (li_pc_label (h_labelinfos (curr_func c1) ! li) +
                    (if tok_t (curr_token c) = DUK_TOK_BREAK then 1 else 2)) c3
            else duk__emit_abc
                   (if tok_t (curr_token c) = DUK_TOK_BREAK then DUK_OP_BREAK k
                    else DUK_OP_CONTINUE k)
                   (li_label_id (h_labelinfos (curr_func c1) ! li)) c3)"
  using name
proof
  assume "return_value_absent c1 \<and> h_label = '''' \<and> c3 = c1"
  with adv found show ?thesis
    by (auto simp: duk__parse_break_or_continue_stmt_def Let_def return_value_absent_def
        duk__lookup_active_label_def)
next
  assume "\<not> return_value_absent c1 \<and> tok_t (curr_token c1) = DUK_TOK_IDENTIFIER \<and>
                h_label = tok_str1 (curr_token c1) \<and> duk__advance lx c1 = Ok u' c3"
  with adv found show ?thesis
    by (auto simp: duk__parse_break_or_continue_stmt_def Let_def return_value_absent_def
        duk__lookup_active_label_def)
qed

section \<open>The check of the formals in the prologue\<close>

lemma advance_keeps_func:
  assumes "duk__advance lx c = Ok u c1"
  shows "is_strict (curr_func c1) = is_strict (curr_func c) \<and>
         h_argnames (curr_func c1) = h_argnames (curr_func c)"
  using assms
  by (auto simp: duk__advance_def duk__advance_helper_def Let_def DUK_ERROR_def
      split: if_splits res.splits prod.splits)

lemma prologue_formals_throws:
  assumes "is_strict (curr_func c)" and "n = length (h_argnames (curr_func c))"
    and "\<forall>j < i. h_varmap (curr_func c) (h_argnames (curr_func c) ! j) \<noteq> None"
    and "\<exists>j. i \<le> j \<and> j < n \<and>
           (DUK_HSTRING_HAS_EVAL_OR_ARGUMENTS (h_argnames (curr_func c) ! j) \<or>
            DUK_HSTRING_HAS_STRICT_RESERVED_WORD (h_argnames (curr_func c) ! j) \<or>
            (\<exists>j' < j. h_argnames (curr_func c) ! j' = h_argnames (curr_func c) ! j))"
  shows "thrown_value (duk__prologue_formals i n c) =
           Some (Error_object DUK_ERR_SYNTAX_ERROR ''invalid arg name'')"
  using assms
proof (induction i n c rule: duk__prologue_formals.induct)
  case (1 i num_args comp_ctx)
  let ?names = "h_argnames (curr_func comp_ctx)"
  let ?E = "Some (Error_object DUK_ERR_SYNTAX_ERROR ''invalid arg name'')"
  from "1.prems"(4) obtain j where j: "i \<le> j" "j < num_args"
    and bad: "DUK_HSTRING_HAS_EVAL_OR_ARGUMENTS (?names ! j) \<or>
            DUK_HSTRING_HAS_STRICT_RESERVED_WORD (?names ! j) \<or>
            (\<exists>j' < j. ?names ! j' = ?names ! j)" by blast
  then have lt: "i < num_args" by simp
  show ?case
  proof (cases "duk__hstring_is_eval_or_arguments comp_ctx (?names ! i) \<or>
      h_varmap (curr_func comp_ctx) (?names ! i) \<noteq> None \<or>
      DUK_HSTRING_HAS_STRICT_RESERVED_WORD (?names ! i)")
    case True
    with lt "1.prems"(1) show ?thesis
      by (subst duk__prologue_formals.simps)
         (auto simp: Let_def error_argname_def DUK_ERROR_def)
  next
    case False
    let ?c' = "varmap_put (?names ! i) (Varmap_reg (int i)) comp_ctx"
    have names': "h_argnames (curr_func ?c') = ?names" by (simp add: varmap_put_def)
    have strict': "is_strict (curr_func ?c')" using "1.prems"(1) by (simp add: varmap_put_def)
    have n': "num_args = length (h_argnames (curr_func ?c'))"
      using "1.prems"(2) by (simp add: varmap_put_def)
    have inv': "\<forall>j < i + 1. h_varmap (curr_func ?c') (h_argnames (curr_func ?c') ! j) \<noteq> None"
      using "1.prems"(3) by (auto simp: varmap_put_def less_Suc_eq)
    have "j \<noteq> i"
    proof
      assume "j = i"
      with bad False "1.prems"(3) show False
        by (auto simp: duk__hstring_is_eval_or_arguments_def)
    qed
    with j have "i + 1 \<le> j" by simp
    with j bad have bad': "\<exists>j. i + 1 \<le> j \<and> j < num_args \<and>
           (DUK_HSTRING_HAS_EVAL_OR_ARGUMENTS (h_argnames (curr_func ?c') ! j) \<or>
            DUK_HSTRING_HAS_STRICT_RESERVED_WORD (h_argnames (curr_func ?c') ! j) \<or>
            (\<exists>j' < j. h_argnames (curr_func ?c') ! j' = h_argnames (curr_func ?c') ! j))"
      unfolding names' by blast
    have step: "duk__prologue_formals i num_args comp_ctx =
        duk__prologue_formals (i + 1) num_args ?c'"
      using lt False by (subst duk__prologue_formals.simps) (simp add: Let_def)
    have "thrown_value (duk__prologue_formals (i + 1) num_args ?c') = ?E"
      using lt False strict' n' inv' bad'
      by (intro "1.IH") (auto simp: Let_def)
    with step show ?thesis by simp
  qed
qed

lemma invalid_strict_formals_index:
  assumes "invalid_strict_formals names"
  shows "\<exists>j. 0 \<le> j \<and> j < length names \<and>
           (DUK_HSTRING_HAS_EVAL_OR_ARGUMENTS (names ! j) \<or>
            DUK_HSTRING_HAS_STRICT_RESERVED_WORD (names ! j) \<or>
            (\<exists>j' < j. names ! j' = names ! j))"
proof (cases "distinct names")
  case True
  with assms obtain n where "n \<in> set names"
    "DUK_HSTRING_HAS_EVAL_OR_ARGUMENTS n \<or> DUK_HSTRING_HAS_STRICT_RESERVED_WORD n"
    by (auto simp: invalid_strict_formals_def)
  then show ?thesis by (metis in_set_conv_nth le0)
next
  case False
  then obtain a b where "a < b" "b < length names" "names ! a = names ! b"
    by (metis distinct_conv_nth linorder_neqE_nat)
  then show ?thesis by blast
qed

lemma thrown_and_then:
  "thrown_value r = Some e \<Longrightarrow> thrown_value (and_then r f) = Some e"
  by (cases r) (simp_all add: and_then_def)

lemma prologue_throws:
  assumes "is_strict (curr_func c)" and "invalid_strict_formals (h_argnames (curr_func c))"
  shows "thrown_value (duk__init_varmap_and_prologue_for_pass2 k w c) =
           Some (Error_object DUK_ERR_SYNTAX_ERROR ''invalid arg name'')"
proof -
  from invalid_strict_formals_index [OF assms(2)]
  have "thrown_value (duk__prologue_formals 0 (length (h_argnames (curr_func c))) c) =
           Some (Error_object DUK_ERR_SYNTAX_ERROR ''invalid arg name'')"
    by (intro prologue_formals_throws assms(1)) simp_all
  then show ?thesis
    by (simp add: duk__init_varmap_and_prologue_for_pass2_def Let_def thrown_and_then)
qed

lemma body_prologue_throws:
  assumes relex: "duk__advance lx
                    (set_curr_token_t 0 (c\<lparr>lex := DUK_LEXER_SETPOINT lx (lex c) lex_pt\<rparr>)) =
                  Ok u c1"
    and strict: "is_strict (curr_func c)"
    and bad: "invalid_strict_formals (h_argnames (curr_func c))"
  shows "thrown_value (duk__parse_func_body_prologue k lx implicit lex_pt c) =
           Some (Error_object DUK_ERR_SYNTAX_ERROR ''invalid arg name'')"
proof -
  from advance_keeps_func [OF relex] strict bad
  have s1: "is_strict (curr_func c1)" and b1: "invalid_strict_formals (h_argnames (curr_func c1))"
    by (simp_all add: set_curr_token_t_def)
  let ?c3 = "(duk__reset_func_for_pass2 c1)\<lparr>curr_func := (curr_func (duk__reset_func_for_pass2 c1))
                            \<lparr>in_directive_prologue := True, in_scanning := False\<rparr>\<rparr>"
  from s1 b1 have "is_strict (curr_func ?c3)" "invalid_strict_formals (h_argnames (curr_func ?c3))"
    by (simp_all add: duk__reset_func_for_pass2_def)
  from prologue_throws [OF this, of k implicit]
  show ?thesis
    by (simp add: duk__parse_func_body_prologue_def relex Let_def thrown_and_then)
qed

section \<open>The scan of the constant pool\<close>

lemma getconst_scan_None_iff:
  "duk__getconst_scan tv cs i n = None \<longleftrightarrow> (\<forall>j. i \<le> j \<and> j < n \<longrightarrow> \<not> duk_js_samevalue tv (cs ! j))"
proof (induction tv cs i n rule: duk__getconst_scan.induct)
  case (1 tv1 cs i n_check)
  show ?case
  proof (cases "i < n_check")
    case False
    then show ?thesis by (subst duk__getconst_scan.simps) auto
  next
    case lt: True
    show ?thesis
    proof (cases "duk_js_samevalue tv1 (cs ! i)")
      case True
      with lt show ?thesis by (subst duk__getconst_scan.simps) auto
    next
      case False
      have "(\<forall>j. i \<le> j \<and> j < n_check \<longrightarrow> \<not> duk_js_samevalue tv1 (cs ! j)) \<longleftrightarrow>
            (\<forall>j. i + 1 \<le> j \<and> j < n_check \<longrightarrow> \<not> duk_js_samevalue tv1 (cs ! j))"
        using False by (metis Suc_eq_plus1 Suc_leI le_neq_implies_less order_less_imp_le less_eq_Suc_le)
      with lt False 1 show ?thesis by (subst duk__getconst_scan.simps) simp
    qed
  qed
qed

lemma getconst_scan_Some:
  "duk__getconst_scan tv cs i n = Some j \<Longrightarrow>
     i \<le> j \<and> j < n \<and> duk_js_samevalue tv (cs ! j) \<and>
     (\<forall>j'. i \<le> j' \<and> j' < j \<longrightarrow> \<not> duk_js_samevalue tv (cs ! j'))"
proof (induction tv cs i n rule: duk__getconst_scan.induct)
  case (1 tv1 cs i n_check)
  from "1.prems" have lt: "i < n_check"
    by (subst (asm) duk__getconst_scan.simps) (auto split: if_splits)
  show ?case
  proof (cases "duk_js_samevalue tv1 (cs ! i)")
    case True
    with lt "1.prems" have "j = i" by (subst (asm) duk__getconst_scan.simps) simp
    with lt True show ?thesis by auto
  next
    case False
    with lt "1.prems" have "duk__getconst_scan tv1 cs (i + 1) n_check = Some j"
      by (subst (asm) duk__getconst_scan.simps) simp
    from "1.IH" [OF lt False this] False show ?thesis
      by (metis Suc_eq_plus1 Suc_leI le_neq_implies_less order_less_imp_le less_eq_Suc_le)
  qed
qed

lemma length_example_pool [simp]: "length (example_pool n) = n"
  by (simp add: example_pool_def)

lemma nth_example_pool [simp]: "i < n \<Longrightarrow> example_pool n ! i = DUK_TVAL_NUMBER (of_nat i)"
  by (simp add: example_pool_def)

lemma getconst_scan_first_match:
  assumes "i < n" and "duk_js_samevalue tv (cs ! i)"
    and "\<forall>i' < i. \<not> duk_js_samevalue tv (cs ! i')"
  shows "duk__getconst_scan tv cs 0 n = Some i"
proof -
  from assms(1,2) have "duk__getconst_scan tv cs 0 n \<noteq> None"
    by (auto simp: getconst_scan_None_iff)
  then obtain j where j: "duk__getconst_scan tv cs 0 n = Some j" by auto
  from getconst_scan_Some [OF j] have "j < n" "duk_js_samevalue tv (cs ! j)"
    "\<forall>j' < j. \<not> duk_js_samevalue tv (cs ! j')" by auto
  with assms have "j = i" by (meson linorder_neqE_nat)
  with j show ?thesis by simp
qed

lemma getconst_n_check:
  "nat (if int (length cs) > DUK__GETCONST_MAX_CONSTS_CHECK
        then DUK__GETCONST_MAX_CONSTS_CHECK else int (length cs)) = scan_window cs"
  by (auto simp: scan_window_def DUK__GETCONST_MAX_CONSTS_CHECK_def)

lemma getconst_found:
  assumes "i < scan_window (h_consts (curr_func c))"
    and "duk_js_samevalue tv (h_consts (curr_func c) ! i)"
    and "\<forall>i' < i. \<not> duk_js_samevalue tv (h_consts (curr_func c) ! i')"
  shows "duk__getconst tv c = Ok (int i OR DUK__CONST_MARKER) c"
  using getconst_scan_first_match [OF assms]
  by (simp add: duk__getconst_def Let_def getconst_n_check)

lemma getconst_not_found:
  assumes "\<forall>i < scan_window (h_consts (curr_func c)). \<not> duk_js_samevalue tv (h_consts (curr_func c) ! i)"
    and "int (length (h_consts (curr_func c))) < DUK__MAX_CONSTS"
  shows "duk__getconst tv c =
           Ok (int (length (h_consts (curr_func c))) OR DUK__CONST_MARKER)
              (c\<lparr>curr_func := (curr_func c)\<lparr>h_consts := h_consts (curr_func c) @ [tv]\<rparr>\<rparr>)"
proof -
  from assms(1) have "duk__getconst_scan tv (h_consts (curr_func c)) 0
      (scan_window (h_consts (curr_func c))) = None"
    by (simp add: getconst_scan_None_iff)
  with assms(2) show ?thesis
    by (simp add: duk__getconst_def Let_def getconst_n_check)
qed

lemma no_duplicate_in_window_append:
  assumes "no_duplicate_in_window cs"
    and "\<forall>i < scan_window cs. \<not> duk_js_samevalue tv (cs ! i)"
  shows "no_duplicate_in_window (cs @ [tv])"
  unfolding no_duplicate_in_window_def
proof (intro allI impI)
  fix j i
  assume j: "j < length (cs @ [tv])" and i: "i < min j (nat DUK__GETCONST_MAX_CONSTS_CHECK)"
  show "\<not> duk_js_samevalue ((cs @ [tv]) ! j) ((cs @ [tv]) ! i)"
  proof (cases "j < length cs")
    case True
    with i have "(cs @ [tv]) ! j = cs ! j" "(cs @ [tv]) ! i = cs ! i"
      by (simp_all add: nth_append)
    with assms(1) True i show ?thesis by (simp add: no_duplicate_in_window_def)
  next
    case False
    with j have jl: "j = length cs" by simp
    with i have "i < scan_window cs" by (simp add: scan_window_def)
    with assms(2) jl i show ?thesis by (simp add: nth_append scan_window_def)
  qed
qed

lemma getconst_keeps_window:
  assumes inv: "no_duplicate_in_window (h_consts (curr_func c))"
    and ok: "duk__getconst tv c = Ok r c'"
  shows "no_duplicate_in_window (h_consts (curr_func c'))"
proof (cases "duk__getconst_scan tv (h_consts (curr_func c)) 0 (scan_window (h_consts (curr_func c)))")
  case None
  then have nf: "\<forall>i < scan_window (h_consts (curr_func c)). \<not> duk_js_samevalue tv (h_consts (curr_func c) ! i)"
    by (simp add: getconst_scan_None_iff)
  from ok None have "h_consts (curr_func c') = h_consts (curr_func c) @ [tv]"
    by (auto simp: duk__getconst_def Let_def getconst_n_check DUK_ERROR_def split: if_splits)
  with no_duplicate_in_window_append [OF inv nf] show ?thesis by simp
next
  case (Some i)
  with ok have "c' = c" by (simp add: duk__getconst_def Let_def getconst_n_check)
  with inv show ?thesis by simp
qed

lemma small_pool_no_duplicates:
  assumes "no_duplicate_in_window cs" and "int (length cs) \<le> DUK__GETCONST_MAX_CONSTS_CHECK"
  shows "no_duplicate_constants cs"
  using assms
  by (auto simp: no_duplicate_in_window_def no_duplicate_constants_def
      DUK__GETCONST_MAX_CONSTS_CHECK_def)

lemma unat_of_nat_small: "i < 2 ^ 52 \<Longrightarrow> unat (of_nat i :: 64 word) = i"
proof -
  assume a: "i < 2 ^ 52"
  have "(2::nat) ^ 52 \<le> 2 ^ 64" by simp
  with a have "i < 2 ^ 64" by linarith
  then show ?thesis by (simp add: unat_of_nat take_bit_nat_eq_self)
qed

lemma not_nan_small: "i < 2 ^ 52 \<Longrightarrow> \<not> duk_double_is_nan (of_nat i)"
proof -
  assume a: "i < 2 ^ 52"
  have "unat (drop_bit 52 (of_nat i :: 64 word)) = drop_bit 52 (unat (of_nat i :: 64 word))"
    by (simp add: unat_drop_bit_eq)
  also have "\<dots> = 0" using a by (simp add: unat_of_nat_small drop_bit_eq_div)
  finally have "drop_bit 52 (of_nat i :: 64 word) = 0" by (simp add: unat_eq_0)
  then show ?thesis by (simp add: duk_double_is_nan_def)
qed

lemma samevalue_small_numbers:
  assumes "i < 2 ^ 52" and "j < 2 ^ 52"
  shows "duk_js_samevalue (DUK_TVAL_NUMBER (of_nat i)) (DUK_TVAL_NUMBER (of_nat j)) \<longleftrightarrow> i = j"
proof -
  have "(of_nat i :: 64 word) = of_nat j \<longleftrightarrow> i = j"
    using unat_of_nat_small [OF assms(1)] unat_of_nat_small [OF assms(2)] by metis
  with not_nan_small [OF assms(1)] show ?thesis by simp
qed

lemma example_pool_no_duplicates:
  assumes "n \<le> 2 ^ 52"
  shows "no_duplicate_constants (example_pool n)"
  unfolding no_duplicate_constants_def
proof (intro allI impI)
  fix j i
  assume j: "j < length (example_pool n)" and i: "i < j"
  with assms have "i < 2 ^ 52" "j < 2 ^ 52" "i < n" "j < n" by simp_all
  then have "example_pool n ! j = DUK_TVAL_NUMBER (of_nat j)"
    "example_pool n ! i = DUK_TVAL_NUMBER (of_nat i)"
    "duk_js_samevalue (DUK_TVAL_NUMBER (of_nat j)) (DUK_TVAL_NUMBER (of_nat i)) \<longleftrightarrow> j = i"
    by (simp_all only: nth_example_pool samevalue_small_numbers)
  with i show "\<not> duk_js_samevalue (example_pool n ! j) (example_pool n ! i)"
    by (simp del: duk_js_samevalue.simps)
qed

section \<open>Claims about the peephole optimizer\<close>

text \<open>
  Claim C4. The peephole optimizer performs up to a fixed cap of passes over the
  instruction array; in each pass, for every instruction at \<open>pc1\<close> that is a \<^verbatim>\<open>JUMP\<close> to
  \<open>t1\<close>, if the instruction at \<open>t1\<close> is also a \<^verbatim>\<open>JUMP\<close> with target \<open>t2\<close>, the
  instruction at \<open>pc1\<close> is rewritten in place to jump directly to \<open>t2\<close> (no instruction
  is added or removed); the optimizer stops after the first pass that makes zero
  rewrites, or when the pass cap is reached.

  Stated as a refinement: on every buffer whose jumps have their targets inside the
  buffer (what the C code asserts) and whose offsets fit the ABC field, the C
  function returns what \<open>spec_peephole\<close> computes with the cap
  \<^verbatim>\<open>DUK_COMPILER_PEEPHOLE_MAXITER\<close>, and the buffer keeps its length. That a rewritten
  entry is a \<^verbatim>\<open>JUMP\<close> whose target is \<open>t2\<close> is \<open>is_JUMP_retarget\<close> and
  \<open>jump_target_retarget\<close> above.
\<close>

theorem peephole_refines_spec:
  assumes "peephole_fits k (length bc)" and "jumps_in_bounds k bc"
  shows "duk__peephole_optimize_bytecode k bc =
           Some (spec_peephole k (DUK_COMPILER_PEEPHOLE_MAXITER k) bc) \<and>
         length (spec_peephole k (DUK_COMPILER_PEEPHOLE_MAXITER k) bc) = length bc"
  using peephole_loop_spec [OF assms(1) assms(2) refl, of 0]
  by (simp add: duk__peephole_optimize_bytecode_def)

theorem peephole_refines_spec_witness:
  "peephole_fits example_hdr (length for_ever_code) \<and>
   jumps_in_bounds example_hdr for_ever_code \<and>
   duk__peephole_optimize_bytecode example_hdr for_ever_code =
     Some (spec_peephole example_hdr 3 for_ever_code) \<and>
   spec_peephole example_hdr 3 for_ever_code = for_ever_code_optimized"
proof -
  have fits: "peephole_fits example_hdr (length for_ever_code)" by code_simp
  have inb: "jumps_in_bounds example_hdr for_ever_code" by code_simp
  have ev: "spec_peephole example_hdr 3 for_ever_code = for_ever_code_optimized" by code_simp
  from peephole_refines_spec [OF fits inb] fits inb ev show ?thesis by simp
qed





section \<open>Claim about the constant pool\<close>

text \<open>
  Claim C1, as stated: the constant pool contains no two entries that are
  SameValue-equal; whenever \<^verbatim>\<open>duk__getconst\<close> is asked to intern a value SameValue-equal
  to an existing pool entry, it returns the existing entry's index instead of
  appending a duplicate, for pools of any size. The scan of \<^verbatim>\<open>duk__getconst\<close> stops
  after \<^verbatim>\<open>DUK__GETCONST_MAX_CONSTS_CHECK\<close> entries. Here the pool holds 257 different
  numbers, and the number at index 256 is asked for again: it is appended a second
  time, and the new index 257 is returned.
\<close>

theorem getconst_appends_duplicate:
  "h_consts (curr_func (example_ctx_pool 257)) = example_pool 257 \<and>
   no_duplicate_constants (example_pool 257) \<and>
   duk_js_samevalue (DUK_TVAL_NUMBER 256) (example_pool 257 ! 256) \<and>
   returned_value (duk__getconst (DUK_TVAL_NUMBER 256) (example_ctx_pool 257)) =
     Some (257 OR DUK__CONST_MARKER) \<and>
   map_option (h_consts \<circ> curr_func)
     (state_after (duk__getconst (DUK_TVAL_NUMBER 256) (example_ctx_pool 257))) =
     Some (example_pool 257 @ [DUK_TVAL_NUMBER 256])"
proof -
  have pool: "h_consts (curr_func (example_ctx_pool 257)) = example_pool 257"
    by (simp add: example_ctx_pool_def example_ctx_def example_func_def)
  have nodup: "no_duplicate_constants (example_pool 257)"
    by (rule example_pool_no_duplicates) simp
  have n256: "(of_nat 256 :: 64 word) = 256" by simp
  have same: "duk_js_samevalue (DUK_TVAL_NUMBER 256) (example_pool 257 ! 256)"
    by simp
  have window: "scan_window (example_pool 257) = 256"
    by (simp add: scan_window_def DUK__GETCONST_MAX_CONSTS_CHECK_def)
  have "\<not> duk_js_samevalue (DUK_TVAL_NUMBER 256) (example_pool 257 ! i)" if "i < 256" for i
  proof -
    from that have "example_pool 257 ! i = DUK_TVAL_NUMBER (of_nat i)" by simp
    moreover from that have "\<not> duk_js_samevalue (DUK_TVAL_NUMBER (of_nat 256)) (DUK_TVAL_NUMBER (of_nat i))"
      by (subst samevalue_small_numbers) simp_all
    then have "\<not> duk_js_samevalue (DUK_TVAL_NUMBER 256) (DUK_TVAL_NUMBER (of_nat i))"
      unfolding n256 .
    ultimately show ?thesis by (simp only: not_False_eq_True)
  qed
  then have nf: "\<forall>i < scan_window (h_consts (curr_func (example_ctx_pool 257))).
      \<not> duk_js_samevalue (DUK_TVAL_NUMBER 256) (h_consts (curr_func (example_ctx_pool 257)) ! i)"
    by (simp only: pool window) simp
  have room: "int (length (h_consts (curr_func (example_ctx_pool 257)))) < DUK__MAX_CONSTS"
    by (simp add: pool DUK__MAX_CONSTS_def DUK_BC_BC_MAX_def)
  from getconst_not_found [OF nf room] pool nodup same show ?thesis
    by simp
qed

text \<open>
  Claim C1, amended: \<^verbatim>\<open>duk__getconst\<close> compares the value with the first
  \<^verbatim>\<open>DUK__GETCONST_MAX_CONSTS_CHECK\<close> (256) entries of the pool only. If the value is the
  same value as one of them, the index of the first such entry is returned and the
  pool is left as it is; if it is the same value as none of them (and the pool is
  not full), it is appended and its new index is returned. So no entry of the pool is
  the same value as an earlier entry among the first 256 (which holds for the empty
  pool and is kept by every call that returns), and a pool of at most 256 entries
  contains no two entries that are the same value.
\<close>

theorem getconst_dedup_in_scan_window:
  assumes "no_duplicate_in_window (h_consts (curr_func c))"
  shows
    "(i < scan_window (h_consts (curr_func c)) \<and>
      duk_js_samevalue tv (h_consts (curr_func c) ! i) \<and>
      (\<forall>i' < i. \<not> duk_js_samevalue tv (h_consts (curr_func c) ! i')) \<longrightarrow>
        duk__getconst tv c = Ok (int i OR DUK__CONST_MARKER) c) \<and>
     ((\<forall>i < scan_window (h_consts (curr_func c)).
         \<not> duk_js_samevalue tv (h_consts (curr_func c) ! i)) \<and>
      int (length (h_consts (curr_func c))) < DUK__MAX_CONSTS \<longrightarrow>
        duk__getconst tv c =
          Ok (int (length (h_consts (curr_func c))) OR DUK__CONST_MARKER)
             (c\<lparr>curr_func := (curr_func c)\<lparr>h_consts := h_consts (curr_func c) @ [tv]\<rparr>\<rparr>)) \<and>
     (duk__getconst tv c = Ok r c' \<longrightarrow> no_duplicate_in_window (h_consts (curr_func c'))) \<and>
     (int (length (h_consts (curr_func c))) \<le> DUK__GETCONST_MAX_CONSTS_CHECK \<longrightarrow>
        no_duplicate_constants (h_consts (curr_func c))) \<and>
     no_duplicate_in_window (h_consts duk__init_func_valstack_slots)"
proof (intro conjI impI)
  assume "i < scan_window (h_consts (curr_func c)) \<and>
      duk_js_samevalue tv (h_consts (curr_func c) ! i) \<and>
      (\<forall>i' < i. \<not> duk_js_samevalue tv (h_consts (curr_func c) ! i'))"
  then show "duk__getconst tv c = Ok (int i OR DUK__CONST_MARKER) c"
    using getconst_found by blast
next
  assume "(\<forall>i < scan_window (h_consts (curr_func c)).
         \<not> duk_js_samevalue tv (h_consts (curr_func c) ! i)) \<and>
      int (length (h_consts (curr_func c))) < DUK__MAX_CONSTS"
  then show "duk__getconst tv c =
          Ok (int (length (h_consts (curr_func c))) OR DUK__CONST_MARKER)
             (c\<lparr>curr_func := (curr_func c)\<lparr>h_consts := h_consts (curr_func c) @ [tv]\<rparr>\<rparr>)"
    using getconst_not_found by blast
next
  assume "duk__getconst tv c = Ok r c'"
  with assms show "no_duplicate_in_window (h_consts (curr_func c'))"
    by (rule getconst_keeps_window)
next
  assume "int (length (h_consts (curr_func c))) \<le> DUK__GETCONST_MAX_CONSTS_CHECK"
  with assms show "no_duplicate_constants (h_consts (curr_func c))"
    by (rule small_pool_no_duplicates)
next
  show "no_duplicate_in_window (h_consts duk__init_func_valstack_slots)"
    by (simp add: no_duplicate_in_window_def duk__init_func_valstack_slots_def)
qed

theorem getconst_dedup_in_scan_window_witness:
  "no_duplicate_in_window (h_consts (curr_func (example_ctx_pool 3))) \<and>
   duk__getconst (DUK_TVAL_NUMBER 1) (example_ctx_pool 3) =
     Ok (1 OR DUK__CONST_MARKER) (example_ctx_pool 3) \<and>
   duk__getconst (DUK_TVAL_NUMBER 7) (example_ctx_pool 3) =
     Ok (3 OR DUK__CONST_MARKER)
        ((example_ctx_pool 3)\<lparr>curr_func := (curr_func (example_ctx_pool 3))
           \<lparr>h_consts := h_consts (curr_func (example_ctx_pool 3)) @ [DUK_TVAL_NUMBER 7]\<rparr>\<rparr>) \<and>
   no_duplicate_constants (h_consts (curr_func (example_ctx_pool 3)))"
proof -
  note dedup = getconst_dedup_in_scan_window
  have inv: "no_duplicate_in_window (h_consts (curr_func (example_ctx_pool 3)))"
    by code_simp
  have found: "(1 :: nat) < scan_window (h_consts (curr_func (example_ctx_pool 3))) \<and>
      duk_js_samevalue (DUK_TVAL_NUMBER 1) (h_consts (curr_func (example_ctx_pool 3)) ! 1) \<and>
      (\<forall>i' < (1 :: nat). \<not> duk_js_samevalue (DUK_TVAL_NUMBER 1) (h_consts (curr_func (example_ctx_pool 3)) ! i'))"
    by code_simp
  have not_found: "(\<forall>i < scan_window (h_consts (curr_func (example_ctx_pool 3))).
         \<not> duk_js_samevalue (DUK_TVAL_NUMBER 7) (h_consts (curr_func (example_ctx_pool 3)) ! i)) \<and>
      int (length (h_consts (curr_func (example_ctx_pool 3)))) < DUK__MAX_CONSTS"
    by code_simp
  have small: "int (length (h_consts (curr_func (example_ctx_pool 3)))) \<le> DUK__GETCONST_MAX_CONSTS_CHECK"
    by code_simp
  from dedup [OF inv, of 1 "DUK_TVAL_NUMBER 1"] found
  have r1: "duk__getconst (DUK_TVAL_NUMBER 1) (example_ctx_pool 3) =
     Ok (1 OR DUK__CONST_MARKER) (example_ctx_pool 3)"
    by simp
  from dedup [OF inv, of _ "DUK_TVAL_NUMBER 7"] not_found
  have r2: "duk__getconst (DUK_TVAL_NUMBER 7) (example_ctx_pool 3) =
     Ok (int (length (h_consts (curr_func (example_ctx_pool 3)))) OR DUK__CONST_MARKER)
        ((example_ctx_pool 3)\<lparr>curr_func := (curr_func (example_ctx_pool 3))
           \<lparr>h_consts := h_consts (curr_func (example_ctx_pool 3)) @ [DUK_TVAL_NUMBER 7]\<rparr>\<rparr>)"
    by blast
  have len: "int (length (h_consts (curr_func (example_ctx_pool 3)))) = 3"
    by code_simp
  from dedup [OF inv] small
  have r3: "no_duplicate_constants (h_consts (curr_func (example_ctx_pool 3)))"
    by blast
  from inv r1 r2 r3 len show ?thesis by simp
qed

section \<open>Claim about the resource limits\<close>





section \<open>Claim about the return statement\<close>

text \<open>
  Claim C5. For every return statement with a return expression parsed inside a
  function body: if the last opcode emitted for the expression is \<^verbatim>\<open>CALL\<close> or \<^verbatim>\<open>CALLI\<close>,
  \<^verbatim>\<open>catch_depth\<close> equals 0, and tail calls are not disabled by the non-standard
  caller-property option, then the compiler sets the \<^verbatim>\<open>TAILCALL\<close> flag bit on that prior
  \<^verbatim>\<open>CALL\<close> instruction and emits no \<^verbatim>\<open>RETURN\<close> for the statement; otherwise it emits a
  \<^verbatim>\<open>RETURN\<close> whose \<^verbatim>\<open>HAVE_RETVAL\<close> flag is set iff a return expression was present and
  whose \<^verbatim>\<open>FAST\<close> flag is set iff \<^verbatim>\<open>catch_depth\<close> equals 0.

  Here, for \<^verbatim>\<open>duk__parse_return_stmt\<close> in a function body, once \<^verbatim>\<open>return\<close> is eaten (state
  \<open>c1\<close>) and with \<open>c2\<close> the state after the expression: in the tail call position the
  statement returns the state \<open>c2\<close> with the \<^verbatim>\<open>TAILCALL\<close> bit set in its last instruction
  (same length, same opcode, all other entries untouched); with an expression
  otherwise, and with no expression, it is the emission of one \<^verbatim>\<open>RETURN\<close> by
  \<^verbatim>\<open>duk__emit_a_b\<close>, and when that returns, the code is longer and its last instruction
  is a \<^verbatim>\<open>RETURN\<close> with the flags as claimed.
\<close>

theorem return_stmt_tail_call_or_return:
  assumes hdr: "hdr_ok k"
    and adv: "duk__advance lx c = Ok u c1"
    and fn: "is_function (curr_func c1)"
  shows
    "(\<not> return_value_absent c1 \<and> ex DUK__BP_FOR_EXPR c1 = Ok reg_val c2 \<and>
      tail_call_position k c1 c2 \<longrightarrow>
        duk__parse_return_stmt k lx ex c = Ok () (set_tailcall_flag k c2) \<and>
        length (h_code (curr_func (set_tailcall_flag k c2))) = length (h_code (curr_func c2)) \<and>
        butlast (h_code (curr_func (set_tailcall_flag k c2))) = butlast (h_code (curr_func c2)) \<and>
        DUK_DEC_OP (last_instr (set_tailcall_flag k c2)) = DUK_DEC_OP (last_instr c2) \<and>
        DUK_DEC_A (last_instr (set_tailcall_flag k c2)) AND DUK_BC_CALL_FLAG_TAILCALL k \<noteq> 0) \<and>
     (\<not> return_value_absent c1 \<and> ex DUK__BP_FOR_EXPR c1 = Ok reg_val c2 \<and>
      \<not> tail_call_position k c1 c2 \<longrightarrow>
        duk__parse_return_stmt k lx ex c =
          duk__emit_a_b k (DUK_OP_RETURN k)
            (if catch_depth (curr_func c2) = 0
             then DUK_BC_RETURN_FLAG_HAVE_RETVAL k OR DUK_BC_RETURN_FLAG_FAST k
             else DUK_BC_RETURN_FLAG_HAVE_RETVAL k) reg_val c2 \<and>
        (duk__parse_return_stmt k lx ex c = Ok u' c' \<longrightarrow>
           length (h_code (curr_func c2)) < length (h_code (curr_func c')) \<and>
           is_RETURN_with k True (catch_depth (curr_func c2) = 0) (last_instr c'))) \<and>
     (return_value_absent c1 \<longrightarrow>
        duk__parse_return_stmt k lx ex c =
          duk__emit_a_b k (DUK_OP_RETURN k)
            (if catch_depth (curr_func c1) = 0 then DUK_BC_RETURN_FLAG_FAST k else 0) 0 c1 \<and>
        (duk__parse_return_stmt k lx ex c = Ok u' c' \<longrightarrow>
           length (h_code (curr_func c1)) < length (h_code (curr_func c')) \<and>
           is_RETURN_with k False (catch_depth (curr_func c1) = 0) (last_instr c')))"
proof (intro conjI impI)
  assume a: "\<not> return_value_absent c1 \<and> ex DUK__BP_FOR_EXPR c1 = Ok reg_val c2 \<and>
      tail_call_position k c1 c2"
  then have ne: "h_code (curr_func c2) \<noteq> []" by (auto simp: tail_call_position_def)
  from a show "duk__parse_return_stmt k lx ex c = Ok () (set_tailcall_flag k c2)"
    using return_stmt_tail_call [OF adv fn] by blast
  from set_tailcall_flag_props [OF hdr ne]
  show "length (h_code (curr_func (set_tailcall_flag k c2))) = length (h_code (curr_func c2))"
    "butlast (h_code (curr_func (set_tailcall_flag k c2))) = butlast (h_code (curr_func c2))"
    "DUK_DEC_OP (last_instr (set_tailcall_flag k c2)) = DUK_DEC_OP (last_instr c2)"
    "DUK_DEC_A (last_instr (set_tailcall_flag k c2)) AND DUK_BC_CALL_FLAG_TAILCALL k \<noteq> 0"
    by blast+
next
  assume a: "\<not> return_value_absent c1 \<and> ex DUK__BP_FOR_EXPR c1 = Ok reg_val c2 \<and>
      \<not> tail_call_position k c1 c2"
  then show eq: "duk__parse_return_stmt k lx ex c =
          duk__emit_a_b k (DUK_OP_RETURN k)
            (if catch_depth (curr_func c2) = 0
             then DUK_BC_RETURN_FLAG_HAVE_RETVAL k OR DUK_BC_RETURN_FLAG_FAST k
             else DUK_BC_RETURN_FLAG_HAVE_RETVAL k) reg_val c2"
    using return_stmt_value [OF adv fn] by blast
  assume "duk__parse_return_stmt k lx ex c = Ok u' c'"
  with eq have "duk__emit_a_b k (DUK_OP_RETURN k)
            (if catch_depth (curr_func c2) = 0
             then DUK_BC_RETURN_FLAG_HAVE_RETVAL k OR DUK_BC_RETURN_FLAG_FAST k
             else DUK_BC_RETURN_FLAG_HAVE_RETVAL k) reg_val c2 = Ok u' c'" by simp
  from emit_RETURN_flags [OF hdr this, of True]
  show "length (h_code (curr_func c2)) < length (h_code (curr_func c'))"
    "is_RETURN_with k True (catch_depth (curr_func c2) = 0) (last_instr c')"
    by simp_all
next
  assume a: "return_value_absent c1"
  then show eq: "duk__parse_return_stmt k lx ex c =
          duk__emit_a_b k (DUK_OP_RETURN k)
            (if catch_depth (curr_func c1) = 0 then DUK_BC_RETURN_FLAG_FAST k else 0) 0 c1"
    using return_stmt_no_value [OF adv fn] by simp
  assume "duk__parse_return_stmt k lx ex c = Ok u' c'"
  with eq have "duk__emit_a_b k (DUK_OP_RETURN k)
            (if catch_depth (curr_func c1) = 0 then 0 OR DUK_BC_RETURN_FLAG_FAST k else 0) 0 c1 =
            Ok u' c'" by simp
  from emit_RETURN_flags [OF hdr this, of False]
  show "length (h_code (curr_func c1)) < length (h_code (curr_func c'))"
    "is_RETURN_with k False (catch_depth (curr_func c1) = 0) (last_instr c')"
    by simp_all
qed


theorem return_stmt_tail_call_or_return_witness:
  "(case duk__parse_return_stmt example_hdr example_lexer example_call_expr
           example_return_value_ctx of
      Ok u c' \<Rightarrow>
        map ins (h_code (curr_func c')) = [DUK_ENC_OP_A_B_C 55 1 0 0] \<and>
        DUK_DEC_A (last_instr c') AND DUK_BC_CALL_FLAG_TAILCALL example_hdr \<noteq> 0
    | _ \<Rightarrow> False) \<and>
   (case duk__parse_return_stmt example_hdr example_lexer example_call_expr
           example_return_in_try_ctx of
      Ok u c' \<Rightarrow>
        map ins (h_code (curr_func c')) = [DUK_ENC_OP_A_B_C 55 0 0 0, DUK_ENC_OP_A_B_C 54 2 0 0] \<and>
        is_RETURN_with example_hdr True False (last_instr c')
    | _ \<Rightarrow> False) \<and>
   (case duk__parse_return_stmt example_hdr example_lexer example_value_expr
           example_return_value_ctx of
      Ok u c' \<Rightarrow>
        map ins (h_code (curr_func c')) = [DUK_ENC_OP_A_B_C 54 3 3 0] \<and>
        is_RETURN_with example_hdr True True (last_instr c')
    | _ \<Rightarrow> False) \<and>
   (case duk__parse_return_stmt example_hdr example_lexer example_value_expr
           example_return_semicolon_ctx of
      Ok u c' \<Rightarrow>
        map ins (h_code (curr_func c')) = [DUK_ENC_OP_A_B_C 54 1 0 0] \<and>
        is_RETURN_with example_hdr False True (last_instr c')
    | _ \<Rightarrow> False)"
proof -
  note stmt = return_stmt_tail_call_or_return
  have hdr: "hdr_ok example_hdr" by code_simp
  \<comment> \<open>the tail call\<close>
  have "case duk__advance example_lexer example_return_value_ctx of
          Ok u c1 \<Rightarrow>
            is_function (curr_func c1) \<and> \<not> return_value_absent c1 \<and>
            (case example_call_expr DUK__BP_FOR_EXPR c1 of
               Ok r c2 \<Rightarrow> tail_call_position example_hdr c1 c2
             | _ \<Rightarrow> False)
        | _ \<Rightarrow> False"
    by code_simp
  then obtain u1 c1 r1 c2 where
    adv1: "duk__advance example_lexer example_return_value_ctx = Ok u1 c1"
    and fn1: "is_function (curr_func c1)" and nv1: "\<not> return_value_absent c1"
    and ex1: "example_call_expr DUK__BP_FOR_EXPR c1 = Ok r1 c2"
    and tc1: "tail_call_position example_hdr c1 c2"
    by (auto split: res.splits)
  from stmt [OF hdr adv1 fn1, of example_call_expr r1 c2] nv1 ex1 tc1
  have t1: "duk__parse_return_stmt example_hdr example_lexer example_call_expr
              example_return_value_ctx = Ok () (set_tailcall_flag example_hdr c2)"
    and t2: "DUK_DEC_A (last_instr (set_tailcall_flag example_hdr c2)) AND
               DUK_BC_CALL_FLAG_TAILCALL example_hdr \<noteq> 0"
    by blast+
  have "case duk__parse_return_stmt example_hdr example_lexer example_call_expr
           example_return_value_ctx of
      Ok u c' \<Rightarrow> map ins (h_code (curr_func c')) = [DUK_ENC_OP_A_B_C 55 1 0 0]
    | _ \<Rightarrow> False"
    by code_simp
  with t1 t2 have w1: "case duk__parse_return_stmt example_hdr example_lexer example_call_expr
           example_return_value_ctx of
      Ok u c' \<Rightarrow>
        map ins (h_code (curr_func c')) = [DUK_ENC_OP_A_B_C 55 1 0 0] \<and>
        DUK_DEC_A (last_instr c') AND DUK_BC_CALL_FLAG_TAILCALL example_hdr \<noteq> 0
    | _ \<Rightarrow> False"
    by simp
  \<comment> \<open>the call inside a try\<close>
  have "case duk__advance example_lexer example_return_in_try_ctx of
          Ok u c1 \<Rightarrow>
            is_function (curr_func c1) \<and> \<not> return_value_absent c1 \<and>
            (case example_call_expr DUK__BP_FOR_EXPR c1 of
               Ok r c2 \<Rightarrow> \<not> tail_call_position example_hdr c1 c2 \<and> catch_depth (curr_func c2) \<noteq> 0
             | _ \<Rightarrow> False)
        | _ \<Rightarrow> False"
    by code_simp
  then obtain u2 c3 r2 c4 where
    adv2: "duk__advance example_lexer example_return_in_try_ctx = Ok u2 c3"
    and fn2: "is_function (curr_func c3)" and nv2: "\<not> return_value_absent c3"
    and ex2: "example_call_expr DUK__BP_FOR_EXPR c3 = Ok r2 c4"
    and tc2: "\<not> tail_call_position example_hdr c3 c4" and cd2: "catch_depth (curr_func c4) \<noteq> 0"
    by (auto split: res.splits)
  have "case duk__parse_return_stmt example_hdr example_lexer example_call_expr
           example_return_in_try_ctx of
      Ok u c' \<Rightarrow>
        map ins (h_code (curr_func c')) = [DUK_ENC_OP_A_B_C 55 0 0 0, DUK_ENC_OP_A_B_C 54 2 0 0]
    | _ \<Rightarrow> False"
    by code_simp
  then obtain u2' c4' where
    r2: "duk__parse_return_stmt example_hdr example_lexer example_call_expr
           example_return_in_try_ctx = Ok u2' c4'"
    and b2: "map ins (h_code (curr_func c4')) = [DUK_ENC_OP_A_B_C 55 0 0 0, DUK_ENC_OP_A_B_C 54 2 0 0]"
    by (auto split: res.splits)
  from stmt [OF hdr adv2 fn2, of example_call_expr r2 c4 u2' c4'] nv2 ex2 tc2 r2 cd2
  have "is_RETURN_with example_hdr True False (last_instr c4')"
    by simp
  with r2 b2 have w2: "case duk__parse_return_stmt example_hdr example_lexer example_call_expr
           example_return_in_try_ctx of
      Ok u c' \<Rightarrow>
        map ins (h_code (curr_func c')) = [DUK_ENC_OP_A_B_C 55 0 0 0, DUK_ENC_OP_A_B_C 54 2 0 0] \<and>
        is_RETURN_with example_hdr True False (last_instr c')
    | _ \<Rightarrow> False"
    by simp
  \<comment> \<open>a value that is no call\<close>
  have "case duk__advance example_lexer example_return_value_ctx of
          Ok u c1 \<Rightarrow>
            (case example_value_expr DUK__BP_FOR_EXPR c1 of
               Ok r c2 \<Rightarrow> \<not> tail_call_position example_hdr c1 c2 \<and> catch_depth (curr_func c2) = 0
             | _ \<Rightarrow> False)
        | _ \<Rightarrow> False"
    by code_simp
  with adv1 obtain r3 c5 where
    ex3: "example_value_expr DUK__BP_FOR_EXPR c1 = Ok r3 c5"
    and tc3: "\<not> tail_call_position example_hdr c1 c5" and cd3: "catch_depth (curr_func c5) = 0"
    by (auto split: res.splits)
  have "case duk__parse_return_stmt example_hdr example_lexer example_value_expr
           example_return_value_ctx of
      Ok u c' \<Rightarrow> map ins (h_code (curr_func c')) = [DUK_ENC_OP_A_B_C 54 3 3 0]
    | _ \<Rightarrow> False"
    by code_simp
  then obtain u3' c5' where
    r3: "duk__parse_return_stmt example_hdr example_lexer example_value_expr
           example_return_value_ctx = Ok u3' c5'"
    and b3: "map ins (h_code (curr_func c5')) = [DUK_ENC_OP_A_B_C 54 3 3 0]"
    by (auto split: res.splits)
  from stmt [OF hdr adv1 fn1, of example_value_expr r3 c5 u3' c5'] nv1 ex3 tc3 r3 cd3
  have "is_RETURN_with example_hdr True True (last_instr c5')"
    by simp
  with r3 b3 have w3: "case duk__parse_return_stmt example_hdr example_lexer example_value_expr
           example_return_value_ctx of
      Ok u c' \<Rightarrow>
        map ins (h_code (curr_func c')) = [DUK_ENC_OP_A_B_C 54 3 3 0] \<and>
        is_RETURN_with example_hdr True True (last_instr c')
    | _ \<Rightarrow> False"
    by simp
  \<comment> \<open>no value\<close>
  have "case duk__advance example_lexer example_return_semicolon_ctx of
          Ok u c1 \<Rightarrow>
            is_function (curr_func c1) \<and> return_value_absent c1 \<and> catch_depth (curr_func c1) = 0
        | _ \<Rightarrow> False"
    by code_simp
  then obtain u4 c6 where
    adv4: "duk__advance example_lexer example_return_semicolon_ctx = Ok u4 c6"
    and fn4: "is_function (curr_func c6)" and nv4: "return_value_absent c6"
    and cd4: "catch_depth (curr_func c6) = 0"
    by (auto split: res.splits)
  have "case duk__parse_return_stmt example_hdr example_lexer example_value_expr
           example_return_semicolon_ctx of
      Ok u c' \<Rightarrow> map ins (h_code (curr_func c')) = [DUK_ENC_OP_A_B_C 54 1 0 0]
    | _ \<Rightarrow> False"
    by code_simp
  then obtain u4' c6' where
    r4: "duk__parse_return_stmt example_hdr example_lexer example_value_expr
           example_return_semicolon_ctx = Ok u4' c6'"
    and b4: "map ins (h_code (curr_func c6')) = [DUK_ENC_OP_A_B_C 54 1 0 0]"
    by (auto split: res.splits)
  from stmt [OF hdr adv4 fn4, of example_value_expr _ _ u4' c6'] nv4 r4 cd4
  have "is_RETURN_with example_hdr False True (last_instr c6')"
    by simp
  with r4 b4 have w4: "case duk__parse_return_stmt example_hdr example_lexer example_value_expr
           example_return_semicolon_ctx of
      Ok u c' \<Rightarrow>
        map ins (h_code (curr_func c')) = [DUK_ENC_OP_A_B_C 54 1 0 0] \<and>
        is_RETURN_with example_hdr False True (last_instr c')
    | _ \<Rightarrow> False"
    by simp
  from w1 w2 w3 w4 show ?thesis by blast
qed

section \<open>Claim about break and continue\<close>

text \<open>
  Claim C6. For every break or continue statement whose label resolves to an active
  label record: if the resolved record is the newest entry on the label stack and its
  recorded catch depth equals the current \<^verbatim>\<open>catch_depth\<close>, the compiler emits a direct
  \<^verbatim>\<open>JUMP\<close> to the label site's break slot (\<^verbatim>\<open>pc_label + 1\<close>) for break or continue slot
  (\<^verbatim>\<open>pc_label + 2\<close>) for continue; in every other case it emits a slow \<^verbatim>\<open>BREAK\<close> or
  \<^verbatim>\<open>CONTINUE\<close> instruction carrying the numeric label id.

  Here, for \<^verbatim>\<open>duk__parse_break_or_continue_stmt\<close>: \<open>c1\<close> is the state once the keyword is
  eaten, \<open>h_label\<close> the label looked up (empty when a semicolon follows or is
  inserted, else the identifier, which is eaten too), \<open>c3\<close> the state at the emission,
  and \<open>li\<close> the index at which the search of \<^verbatim>\<open>duk__lookup_active_label\<close> ends. The
  statement appends one instruction to the code of \<open>c3\<close>: on the fast path the
  \<^verbatim>\<open>JUMP\<close> whose target, when the offset fits the ABC field, is the slot of the label
  site; on the slow path the \<^verbatim>\<open>BREAK\<close> or \<^verbatim>\<open>CONTINUE\<close> whose ABC field, when the label id
  fits it, is the label id.
\<close>

theorem break_continue_fast_or_slow:
  assumes adv: "duk__advance lx c = Ok u c1"
    and name: "(return_value_absent c1 \<and> h_label = '''' \<and> c3 = c1) \<or>
               (\<not> return_value_absent c1 \<and> tok_t (curr_token c1) = DUK_TOK_IDENTIFIER \<and>
                h_label = tok_str1 (curr_token c1) \<and> duk__advance lx c1 = Ok u' c3)"
    and found: "duk__lookup_active_label_loop k h_label (tok_t (curr_token c) = DUK_TOK_BREAK)
                  (h_labelinfos (curr_func c1)) (length (h_labelinfos (curr_func c1))) =
                Label_match li"
  shows
    "li < length (h_labelinfos (curr_func c1)) \<and> li_h_label (resolved_label c1 li) = h_label \<and>
     (is_newest_label c1 li \<and>
      li_catch_depth (resolved_label c1 li) = catch_depth (curr_func c3) \<longrightarrow>
        duk__parse_break_or_continue_stmt k lx c =
          Ok () (duk__emit
                   (jump_instr k (length (h_code (curr_func c3)))
                      (label_slot (tok_t (curr_token c) = DUK_TOK_BREAK) (resolved_label c1 li)))
                   c3)) \<and>
     (peephole_fits k (Suc (length (h_code (curr_func c3)))) \<and>
      0 \<le> label_slot (tok_t (curr_token c) = DUK_TOK_BREAK) (resolved_label c1 li) \<and>
      label_slot (tok_t (curr_token c) = DUK_TOK_BREAK) (resolved_label c1 li) \<le>
        int (length (h_code (curr_func c3))) \<longrightarrow>
        DUK_DEC_OP (jump_instr k (length (h_code (curr_func c3)))
           (label_slot (tok_t (curr_token c) = DUK_TOK_BREAK) (resolved_label c1 li))) =
          DUK_OP_JUMP k \<and>
        jump_target k (length (h_code (curr_func c3)))
          \<lparr>ins = jump_instr k (length (h_code (curr_func c3)))
                   (label_slot (tok_t (curr_token c) = DUK_TOK_BREAK) (resolved_label c1 li)),
           line = l\<rparr> =
          label_slot (tok_t (curr_token c) = DUK_TOK_BREAK) (resolved_label c1 li)) \<and>
     (\<not> (is_newest_label c1 li \<and>
         li_catch_depth (resolved_label c1 li) = catch_depth (curr_func c3)) \<longrightarrow>
        duk__parse_break_or_continue_stmt k lx c =
          Ok () (duk__emit
                   (DUK_ENC_OP_ABC
                      (if tok_t (curr_token c) = DUK_TOK_BREAK then DUK_OP_BREAK k
                       else DUK_OP_CONTINUE k)
                      (li_label_id (resolved_label c1 li)))
                   c3)) \<and>
     (hdr_ok k \<and> 0 \<le> li_label_id (resolved_label c1 li) \<and>
      li_label_id (resolved_label c1 li) < 2 ^ 26 \<longrightarrow>
        DUK_DEC_OP (DUK_ENC_OP_ABC
                      (if tok_t (curr_token c) = DUK_TOK_BREAK then DUK_OP_BREAK k
                       else DUK_OP_CONTINUE k)
                      (li_label_id (resolved_label c1 li))) =
          (if tok_t (curr_token c) = DUK_TOK_BREAK then DUK_OP_BREAK k else DUK_OP_CONTINUE k) \<and>
        DUK_DEC_ABC (DUK_ENC_OP_ABC
                      (if tok_t (curr_token c) = DUK_TOK_BREAK then DUK_OP_BREAK k
                       else DUK_OP_CONTINUE k)
                      (li_label_id (resolved_label c1 li))) =
          li_label_id (resolved_label c1 li) \<and>
        (if tok_t (curr_token c) = DUK_TOK_BREAK then DUK_OP_BREAK k else DUK_OP_CONTINUE k) \<noteq>
          DUK_OP_JUMP k)"
proof -
  note emits = break_or_continue_stmt_emits [OF adv name found]
  from lookup_active_label_loop_match [OF found]
  have 1: "li < length (h_labelinfos (curr_func c1))"
    and 2: "li_h_label (resolved_label c1 li) = h_label"
    by (simp_all add: resolved_label_def)
  have 3: "duk__parse_break_or_continue_stmt k lx c =
          Ok () (duk__emit
                   (jump_instr k (length (h_code (curr_func c3)))
                      (label_slot (tok_t (curr_token c) = DUK_TOK_BREAK) (resolved_label c1 li)))
                   c3)"
    if "is_newest_label c1 li \<and>
      li_catch_depth (resolved_label c1 li) = catch_depth (curr_func c3)"
    using that emits
    by (auto simp: is_newest_label_def resolved_label_def duk__emit_jump_def duk__emit_abc_def
        Let_def jump_instr_def label_slot_def)
  have 4: "DUK_DEC_OP (jump_instr k (length (h_code (curr_func c3)))
           (label_slot (tok_t (curr_token c) = DUK_TOK_BREAK) (resolved_label c1 li))) =
          DUK_OP_JUMP k \<and>
        jump_target k (length (h_code (curr_func c3)))
          \<lparr>ins = jump_instr k (length (h_code (curr_func c3)))
                   (label_slot (tok_t (curr_token c) = DUK_TOK_BREAK) (resolved_label c1 li)),
           line = l\<rparr> =
          label_slot (tok_t (curr_token c) = DUK_TOK_BREAK) (resolved_label c1 li)"
    if "peephole_fits k (Suc (length (h_code (curr_func c3)))) \<and>
      0 \<le> label_slot (tok_t (curr_token c) = DUK_TOK_BREAK) (resolved_label c1 li) \<and>
      label_slot (tok_t (curr_token c) = DUK_TOK_BREAK) (resolved_label c1 li) \<le>
        int (length (h_code (curr_func c3)))"
    using that jump_decodes [of k "length (h_code (curr_func c3))"
        "label_slot (tok_t (curr_token c) = DUK_TOK_BREAK) (resolved_label c1 li)"]
    by (simp add: jump_instr_def jump_target_def)
  have 5: "duk__parse_break_or_continue_stmt k lx c =
          Ok () (duk__emit
                   (DUK_ENC_OP_ABC
                      (if tok_t (curr_token c) = DUK_TOK_BREAK then DUK_OP_BREAK k
                       else DUK_OP_CONTINUE k)
                      (li_label_id (resolved_label c1 li)))
                   c3)"
    if "\<not> (is_newest_label c1 li \<and>
         li_catch_depth (resolved_label c1 li) = catch_depth (curr_func c3))"
    using that emits
    by (auto simp: is_newest_label_def resolved_label_def duk__emit_abc_def)
  have 6: "DUK_DEC_OP (DUK_ENC_OP_ABC
                      (if tok_t (curr_token c) = DUK_TOK_BREAK then DUK_OP_BREAK k
                       else DUK_OP_CONTINUE k)
                      (li_label_id (resolved_label c1 li))) =
          (if tok_t (curr_token c) = DUK_TOK_BREAK then DUK_OP_BREAK k else DUK_OP_CONTINUE k) \<and>
        DUK_DEC_ABC (DUK_ENC_OP_ABC
                      (if tok_t (curr_token c) = DUK_TOK_BREAK then DUK_OP_BREAK k
                       else DUK_OP_CONTINUE k)
                      (li_label_id (resolved_label c1 li))) =
          li_label_id (resolved_label c1 li) \<and>
        (if tok_t (curr_token c) = DUK_TOK_BREAK then DUK_OP_BREAK k else DUK_OP_CONTINUE k) \<noteq>
          DUK_OP_JUMP k"
    if h: "hdr_ok k \<and> 0 \<le> li_label_id (resolved_label c1 li) \<and>
      li_label_id (resolved_label c1 li) < 2 ^ 26"
  proof -
    let ?op = "if tok_t (curr_token c) = DUK_TOK_BREAK then DUK_OP_BREAK k else DUK_OP_CONTINUE k"
    from h have op: "0 \<le> ?op" "?op < 64" "?op \<noteq> DUK_OP_JUMP k"
      by (auto simp: hdr_ok_def)
    from h have id: "0 \<le> li_label_id (resolved_label c1 li)"
      "li_label_id (resolved_label c1 li) < 2 ^ 26" by auto
    from break_continue_decodes [OF op(1,2) id] op(3) show ?thesis by blast
  qed
  from 1 2 3 4 5 6 show ?thesis by blast
qed


theorem break_continue_fast_or_slow_witness:
  "(case duk__parse_break_or_continue_stmt example_hdr example_lexer example_break_ctx of
      Ok u c' \<Rightarrow>
        length (h_code (curr_func c')) = 10 \<and>
        is_JUMP example_hdr (last (h_code (curr_func c'))) \<and>
        jump_target example_hdr 9 (last (h_code (curr_func c'))) = 6
    | _ \<Rightarrow> False) \<and>
   (case duk__parse_break_or_continue_stmt example_hdr example_lexer example_continue_outer_ctx of
      Ok u c' \<Rightarrow>
        length (h_code (curr_func c')) = 10 \<and>
        DUK_DEC_OP (last_instr c') = DUK_OP_CONTINUE example_hdr \<and>
        DUK_DEC_ABC (last_instr c') = 0
    | _ \<Rightarrow> False)"
proof -
  note stmt = break_continue_fast_or_slow
  have hdr: "hdr_ok example_hdr" by code_simp
  have fits: "peephole_fits example_hdr (Suc 9)" by code_simp
  \<comment> \<open>\<^verbatim>\<open>break;\<close> in the inner loop: the fast path\<close>
  have brk: "tok_t (curr_token example_break_ctx) = DUK_TOK_BREAK" by code_simp
  have "case duk__advance example_lexer example_break_ctx of
          Ok u c1 \<Rightarrow>
            return_value_absent c1 \<and>
            duk__lookup_active_label_loop example_hdr []
              (tok_t (curr_token example_break_ctx) = DUK_TOK_BREAK)
              (h_labelinfos (curr_func c1)) (length (h_labelinfos (curr_func c1))) =
              Label_match 2 \<and>
            is_newest_label c1 2 \<and>
            li_catch_depth (resolved_label c1 2) = catch_depth (curr_func c1) \<and>
            length (h_code (curr_func c1)) = 9 \<and>
            label_slot True (resolved_label c1 2) = 6
        | _ \<Rightarrow> False"
    by code_simp
  then obtain u1 c1 where
    adv1: "duk__advance example_lexer example_break_ctx = Ok u1 c1"
    and nv1: "return_value_absent c1"
    and found1: "duk__lookup_active_label_loop example_hdr []
              (tok_t (curr_token example_break_ctx) = DUK_TOK_BREAK)
              (h_labelinfos (curr_func c1)) (length (h_labelinfos (curr_func c1))) =
              Label_match 2"
    and new1: "is_newest_label c1 2"
    and cd1: "li_catch_depth (resolved_label c1 2) = catch_depth (curr_func c1)"
    and len1: "length (h_code (curr_func c1)) = 9"
    and slot1: "label_slot True (resolved_label c1 2) = 6"
    by (auto split: res.splits)
  from nv1 have name1: "(return_value_absent c1 \<and> [] = [] \<and> c1 = c1) \<or>
      (\<not> return_value_absent c1 \<and> tok_t (curr_token c1) = DUK_TOK_IDENTIFIER \<and>
       [] = tok_str1 (curr_token c1) \<and> duk__advance example_lexer c1 = Ok () c1)"
    by simp
  from stmt [OF adv1 name1 found1, of "tok_start_line (curr_token c1)"] new1 cd1 fits
  have r1: "duk__parse_break_or_continue_stmt example_hdr example_lexer example_break_ctx =
      Ok () (duk__emit (jump_instr example_hdr 9 6) c1)"
    and d1: "DUK_DEC_OP (jump_instr example_hdr 9 6) = DUK_OP_JUMP example_hdr"
      "jump_target example_hdr 9
         \<lparr>ins = jump_instr example_hdr 9 6, line = tok_start_line (curr_token c1)\<rparr> = 6"
    by (simp_all add: brk len1 slot1)
  have w1: "case duk__parse_break_or_continue_stmt example_hdr example_lexer example_break_ctx of
      Ok u c' \<Rightarrow>
        length (h_code (curr_func c')) = 10 \<and>
        is_JUMP example_hdr (last (h_code (curr_func c'))) \<and>
        jump_target example_hdr 9 (last (h_code (curr_func c'))) = 6
    | _ \<Rightarrow> False"
    using d1 by (simp add: r1 duk__emit_def len1 is_JUMP_def)
  \<comment> \<open>\<^verbatim>\<open>continue outer;\<close> in the inner loop: the slow path\<close>
  have cont: "tok_t (curr_token example_continue_outer_ctx) \<noteq> DUK_TOK_BREAK" by code_simp
  have "case duk__advance example_lexer example_continue_outer_ctx of
          Ok u c1 \<Rightarrow>
            \<not> return_value_absent c1 \<and> tok_t (curr_token c1) = DUK_TOK_IDENTIFIER \<and>
            duk__lookup_active_label_loop example_hdr (tok_str1 (curr_token c1))
              (tok_t (curr_token example_continue_outer_ctx) = DUK_TOK_BREAK)
              (h_labelinfos (curr_func c1)) (length (h_labelinfos (curr_func c1))) =
              Label_match 0 \<and>
            \<not> is_newest_label c1 0 \<and>
            li_label_id (resolved_label c1 0) = 0 \<and>
            (case duk__advance example_lexer c1 of
               Ok u' c3 \<Rightarrow> length (h_code (curr_func c3)) = 9
             | _ \<Rightarrow> False)
        | _ \<Rightarrow> False"
    by code_simp
  then obtain u2 c2 u3 c3 where
    adv2: "duk__advance example_lexer example_continue_outer_ctx = Ok u2 c2"
    and nv2: "\<not> return_value_absent c2" and id2: "tok_t (curr_token c2) = DUK_TOK_IDENTIFIER"
    and found2: "duk__lookup_active_label_loop example_hdr (tok_str1 (curr_token c2))
              (tok_t (curr_token example_continue_outer_ctx) = DUK_TOK_BREAK)
              (h_labelinfos (curr_func c2)) (length (h_labelinfos (curr_func c2))) =
              Label_match 0"
    and new2: "\<not> is_newest_label c2 0"
    and lid2: "li_label_id (resolved_label c2 0) = 0"
    and adv3: "duk__advance example_lexer c2 = Ok u3 c3"
    and len3: "length (h_code (curr_func c3)) = 9"
    by (auto split: res.splits)
  from nv2 id2 adv3
  have name2: "(return_value_absent c2 \<and> tok_str1 (curr_token c2) = [] \<and> c3 = c2) \<or>
      (\<not> return_value_absent c2 \<and> tok_t (curr_token c2) = DUK_TOK_IDENTIFIER \<and>
       tok_str1 (curr_token c2) = tok_str1 (curr_token c2) \<and>
       duk__advance example_lexer c2 = Ok u3 c3)"
    by simp
  from stmt [OF adv2 name2 found2] new2 hdr
  have r2: "duk__parse_break_or_continue_stmt example_hdr example_lexer example_continue_outer_ctx =
      Ok () (duk__emit (DUK_ENC_OP_ABC (DUK_OP_CONTINUE example_hdr) 0) c3)"
    and d2: "DUK_DEC_OP (DUK_ENC_OP_ABC (DUK_OP_CONTINUE example_hdr) 0) = DUK_OP_CONTINUE example_hdr"
      "DUK_DEC_ABC (DUK_ENC_OP_ABC (DUK_OP_CONTINUE example_hdr) 0) = 0"
    by (simp_all add: cont lid2)
  have w2: "case duk__parse_break_or_continue_stmt example_hdr example_lexer
                 example_continue_outer_ctx of
      Ok u c' \<Rightarrow>
        length (h_code (curr_func c')) = 10 \<and>
        DUK_DEC_OP (last_instr c') = DUK_OP_CONTINUE example_hdr \<and>
        DUK_DEC_ABC (last_instr c') = 0
    | _ \<Rightarrow> False"
    using d2 by (simp add: r2 duk__emit_def len3 last_instr_def)
  from w1 w2 show ?thesis by blast
qed

section \<open>Claim about the final \<^verbatim>\<open>RETURN\<close>\<close>

text \<open>
  Claim C9. For every input that compiles successfully (function, eval, global or
  function-expression mode), the finalized template's bytecode array is non-empty and
  its last instruction is a \<^verbatim>\<open>RETURN\<close> opcode with the \<^verbatim>\<open>FAST\<close> flag set: pass 2
  unconditionally appends a final \<^verbatim>\<open>RETURN\<close> after the body, and the subsequent
  peephole pass only rewrites \<^verbatim>\<open>JUMP\<close> instructions in place, never removing or
  reordering instructions.

  Here: whenever \<^verbatim>\<open>duk__js_compile_raw\<close> (program, eval code or function expression,
  by the flags) or \<^verbatim>\<open>duk__parse_func_like_raw\<close> (an inner function) returns a
  template, with any statement parser and any lexer, the template's bytecode ends in a
  \<^verbatim>\<open>RETURN\<close> with the \<^verbatim>\<open>FAST\<close> flag; and the peephole pass keeps the length of the
  buffer and every entry that is no \<^verbatim>\<open>JUMP\<close>.
\<close>

theorem compiled_code_ends_in_fast_return:
  assumes hdr: "hdr_ok k"
  shows "(duk__js_compile_raw k lx stmts flags filename lex0 = Some (Ok tpl c) \<longrightarrow>
            ends_in_fast_return k (tpl_bytecode tpl)) \<and>
         (duk__parse_func_like_raw k lx stmts is_decl' is_setget' c0 = Some (Ok tpl' c') \<longrightarrow>
            ends_in_fast_return k (tpl_bytecode tpl')) \<and>
         (duk__peephole_optimize_bytecode k bc = Some bc' \<longrightarrow> keeps_non_jumps k bc bc')"
proof (intro conjI impI)
  assume run: "duk__js_compile_raw k lx stmts flags filename lex0 = Some (Ok tpl c)"
  show "ends_in_fast_return k (tpl_bytecode tpl)"
  proof (cases "flags AND DUK_JS_COMPILE_FLAG_FUNCEXPR k \<noteq> 0")
    case True
    from run True obtain c1 where
      "and_then_o (Some (duk__advance lx c1))
              (\<lambda>_ comp_ctx2.
                and_then_o (Some (duk__advance_expect lx DUK_TOK_FUNCTION comp_ctx2))
                  (\<lambda>_ comp_ctx3.
                    and_then_o (duk__parse_func_like_raw k lx stmts False False comp_ctx3)
                      (\<lambda>_ comp_ctx4.
                        Some (Ok (duk__convert_to_func_template comp_ctx4) comp_ctx4)))) = Some (Ok tpl c)"
      by (auto simp: duk__js_compile_raw_def Let_def)
    then obtain u2 c2 where
      "and_then_o (Some (duk__advance_expect lx DUK_TOK_FUNCTION c2))
                  (\<lambda>_ comp_ctx3.
                    and_then_o (duk__parse_func_like_raw k lx stmts False False comp_ctx3)
                      (\<lambda>_ comp_ctx4.
                        Some (Ok (duk__convert_to_func_template comp_ctx4) comp_ctx4))) = Some (Ok tpl c)"
      by (rule and_then_o_OkE)
    then obtain u3 c3 where
      "and_then_o (duk__parse_func_like_raw k lx stmts False False c3)
                      (\<lambda>_ comp_ctx4.
                        Some (Ok (duk__convert_to_func_template comp_ctx4) comp_ctx4)) = Some (Ok tpl c)"
      by (rule and_then_o_OkE)
    then obtain t4 c4 where raw: "duk__parse_func_like_raw k lx stmts False False c3 = Some (Ok t4 c4)"
      and tpl: "Some (Ok (duk__convert_to_func_template c4) c4) = Some (Ok tpl c)"
      by (rule and_then_o_OkE)
    have "tpl_bytecode t4 = map ins (h_code (curr_func c4))"
    proof -
      from raw obtain u c5 where "Some (Ok (duk__convert_to_func_template c5) c5) = Some (Ok t4 c4)"
        unfolding duk__parse_func_like_raw_def
        by (elim and_then_o_OkE)
      then show ?thesis by auto
    qed
    moreover from tpl have "tpl = duk__convert_to_func_template c4" by auto
    ultimately show ?thesis using func_like_raw_ends_in_fast_return [OF hdr raw] by simp
  next
    case False
    from run False obtain c1 where
      "and_then_o (duk__parse_func_body k lx stmts True True c1)
              (\<lambda>_ comp_ctx2. Some (Ok (duk__convert_to_func_template comp_ctx2) comp_ctx2)) = Some (Ok tpl c)"
      by (auto simp: duk__js_compile_raw_def Let_def)
    then obtain u2 c2 where body: "duk__parse_func_body k lx stmts True True c1 = Some (Ok u2 c2)"
      and tpl: "Some (Ok (duk__convert_to_func_template c2) c2) = Some (Ok tpl c)"
      by (rule and_then_o_OkE)
    from tpl have "tpl = duk__convert_to_func_template c2" by auto
    then show ?thesis using func_body_ends_in_fast_return [OF hdr body] by simp
  qed
next
  assume "duk__parse_func_like_raw k lx stmts is_decl' is_setget' c0 = Some (Ok tpl' c')"
  then show "ends_in_fast_return k (tpl_bytecode tpl')"
    using func_like_raw_ends_in_fast_return [OF hdr] by blast
next
  assume "duk__peephole_optimize_bytecode k bc = Some bc'"
  then show "keeps_non_jumps k bc bc'" by (rule peephole_keeps_non_jumps)
qed

theorem compiled_code_ends_in_fast_return_witness:
  "hdr_ok example_hdr \<and>
   (case duk__js_compile_raw example_hdr example_lexer example_parse_stmts 0 (Some ''f.js'')
           ([], 0) of
      Some (Ok tpl c) \<Rightarrow>
        tpl_bytecode tpl = [DUK_ENC_OP_A_BC 62 2 0, DUK_ENC_OP_A_B_C 54 3 0 0] \<and>
        ends_in_fast_return example_hdr (tpl_bytecode tpl)
    | _ \<Rightarrow> False) \<and>
   (case duk__js_compile_raw example_hdr example_lexer example_parse_stmts 4 (Some ''f.js'')
           (example_function_f, 0) of
      Some (Ok tpl c) \<Rightarrow>
        tpl_bytecode tpl = [DUK_ENC_OP_A_B_C 54 1 0 0] \<and>
        ends_in_fast_return example_hdr (tpl_bytecode tpl)
    | _ \<Rightarrow> False)"
proof -
  let ?R1 = "duk__js_compile_raw example_hdr example_lexer example_parse_stmts 0 (Some ''f.js'')
               ([], 0)"
  let ?R2 = "duk__js_compile_raw example_hdr example_lexer example_parse_stmts 4 (Some ''f.js'')
               (example_function_f, 0)"
  have hdr: "hdr_ok example_hdr" by code_simp
  have "case ?R1 of
          Some (Ok tpl c) \<Rightarrow> tpl_bytecode tpl = [DUK_ENC_OP_A_BC 62 2 0, DUK_ENC_OP_A_B_C 54 3 0 0]
        | _ \<Rightarrow> False"
    by code_simp
  then obtain tpl1 c1 where R1: "?R1 = Some (Ok tpl1 c1)"
    and bc1: "tpl_bytecode tpl1 = [DUK_ENC_OP_A_BC 62 2 0, DUK_ENC_OP_A_B_C 54 3 0 0]"
    by (auto split: option.splits res.splits)
  have "case ?R2 of
          Some (Ok tpl c) \<Rightarrow> tpl_bytecode tpl = [DUK_ENC_OP_A_B_C 54 1 0 0]
        | _ \<Rightarrow> False"
    by code_simp
  then obtain tpl2 c2 where R2: "?R2 = Some (Ok tpl2 c2)"
    and bc2: "tpl_bytecode tpl2 = [DUK_ENC_OP_A_B_C 54 1 0 0]"
    by (auto split: option.splits res.splits)
  have e1: "ends_in_fast_return example_hdr (tpl_bytecode tpl1)"
    by (rule compiled_code_ends_in_fast_return [OF hdr, THEN conjunct1, rule_format, OF R1])
  have e2: "ends_in_fast_return example_hdr (tpl_bytecode tpl2)"
    by (rule compiled_code_ends_in_fast_return [OF hdr, THEN conjunct1, rule_format, OF R2])
  from hdr R1 bc1 e1 R2 bc2 e2 show ?thesis by simp
qed

section \<open>Claim about the postfix operators after a line terminator\<close>

lemma rbp_mask_nonneg: "0 \<le> rbp_flags AND DUK__EXPR_RBP_MASK"
  by (simp add: DUK__EXPR_RBP_MASK_def)

text \<open>
  Claim C8. For every point during expression parsing where the current token is \<^verbatim>\<open>++\<close>
  or \<^verbatim>\<open>--\<close> and that token's \<^verbatim>\<open>lineterm\<close> flag is set (a line terminator precedes it),
  \<^verbatim>\<open>duk__expr_lbp\<close> returns 0, so the enclosing loop of \<^verbatim>\<open>duk__expr\<close> terminates the
  expression before the operator instead of treating it as a postfix operator.

  Here: in such a state \<^verbatim>\<open>duk__expr_lbp\<close> is 0; the loop of \<^verbatim>\<open>duk__expr\<close>, at any right
  binding power that \<^verbatim>\<open>duk__expr\<close> gives it, returns at once with the left value and
  the state as they are (the operator stays the current token, \<^verbatim>\<open>duk__expr_led\<close> is
  not called); and so does \<^verbatim>\<open>duk__expr\<close> when \<^verbatim>\<open>duk__expr_nud\<close> has left such a state.
\<close>

theorem expr_lbp_postfix_after_lineterm:
  assumes tok: "tok_t (curr_token c) = DUK_TOK_INCREMENT \<or> tok_t (curr_token c) = DUK_TOK_DECREMENT"
    and lt: "tok_lineterm (curr_token c)"
  shows "duk__expr_lbp c = Some 0 \<and>
         duk__expr_loop lx led (rbp_flags AND DUK__EXPR_RBP_MASK) left c = Some (Ok left c) \<and>
         (duk__recursion_increase c0 = Ok u c1 \<and>
          tok_t (curr_token c1) \<noteq> DUK_TOK_SEMICOLON \<and> tok_t (curr_token c1) \<noteq> DUK_TOK_RPAREN \<and>
          and_then (duk__advance lx c1) (\<lambda>_. nud) = Ok left c \<longrightarrow>
          duk__expr lx nud led iv_undefined rbp_flags c0 =
            Some (Ok left (duk__recursion_decrease c)))"
proof -
  from tok lt have lbp: "duk__expr_lbp c = Some 0"
    by (auto simp: duk__expr_lbp_def Let_def)
  have "\<not> rbp_flags AND DUK__EXPR_RBP_MASK < 0"
    using rbp_mask_nonneg [of rbp_flags] by linarith
  then have loop: "duk__expr_loop lx led (rbp_flags AND DUK__EXPR_RBP_MASK) left c = Some (Ok left c)"
    by (subst duk__expr_loop.simps) (simp only: lbp option.case if_False)
  show ?thesis
    by (auto simp: lbp loop duk__expr_def Let_def)
qed

theorem expr_lbp_postfix_after_lineterm_witness:
  "duk__expr_lbp (example_ctx example_func example_increment_after_newline []) = Some 0 \<and>
   duk__expr_loop example_lexer (\<lambda>left c. Ok (Suc left) c) (DUK__BP_FOR_EXPR AND DUK__EXPR_RBP_MASK)
       (7 :: nat) (example_ctx example_func example_increment_after_newline []) =
     Some (Ok 7 (example_ctx example_func example_increment_after_newline [])) \<and>
   (case duk__expr example_lexer (\<lambda>c. Ok 7 c) (\<lambda>left c. Ok (Suc left) c) (0 :: nat)
           DUK__BP_FOR_EXPR
           (example_ctx example_func (example_token DUK_TOK_IDENTIFIER ''a'' 1)
              [Inr example_increment_after_newline]) of
      Some (Ok v c) \<Rightarrow> v = 7 \<and> curr_token c = example_increment_after_newline
    | _ \<Rightarrow> False)"
proof -
  have "case duk__expr example_lexer (\<lambda>c. Ok 7 c) (\<lambda>left c. Ok (Suc left) c) (0 :: nat)
           DUK__BP_FOR_EXPR
           (example_ctx example_func (example_token DUK_TOK_IDENTIFIER ''a'' 1)
              [Inr example_increment_after_newline]) of
      Some (Ok v c) \<Rightarrow> v = 7 \<and> curr_token c = example_increment_after_newline
    | _ \<Rightarrow> False"
    by code_simp
  moreover
  have "tok_t (curr_token (example_ctx example_func example_increment_after_newline [])) =
          DUK_TOK_INCREMENT"
    by code_simp
  moreover
  have "tok_lineterm (curr_token (example_ctx example_func example_increment_after_newline []))"
    by code_simp
  ultimately show ?thesis
    using expr_lbp_postfix_after_lineterm
      [of "example_ctx example_func example_increment_after_newline []" example_lexer
          "\<lambda>left c. Ok (Suc left) c" DUK__BP_FOR_EXPR 7]
    by simp
qed

section \<open>Claim about the line number of a compile error\<close>

text \<open>
  Claim C7. For every input whose compilation fails with an error, the top-level driver
  catches the failure at its protected-call boundary and, before rethrowing, annotates
  the error's message with a line number derived from the lexer's current token; this
  applies to any thrown compilation error.

  Here: whenever the compilation throws, \<^verbatim>\<open>duk_js_compile\<close> throws too. An error of any
  kind (every error made by \<^verbatim>\<open>DUK_ERROR\<close> is an object with a \<^verbatim>\<open>message\<close>) is thrown
  again with its class kept and \<^verbatim>\<open>" (line N)"\<close> appended to its message, \<open>N\<close> being the
  start line of the current token at the throw; so is any other object with a
  \<^verbatim>\<open>message\<close>. The two guards of the handler let the remaining values through as they
  are: an object without a \<^verbatim>\<open>message\<close>, and a value that is no object (an error handler
  may have replaced the error by such a value), which have no message to annotate.
\<close>

theorem compile_error_line_annotation:
  "(duk__js_compile_raw k lx stmts flags filename lex0 = Some (Throw (Error_object code msg) c) \<longrightarrow>
      duk_js_compile k lx stmts flags filename lex0 =
        Some (Throw (Error_object code
                       (msg @ '' (line '' @ fmt_d (tok_start_line (curr_token c)) @ '')'')) ())) \<and>
   (duk__js_compile_raw k lx stmts flags filename lex0 = Some (Throw (Plain_object (Some msg)) c) \<longrightarrow>
      duk_js_compile k lx stmts flags filename lex0 =
        Some (Throw (Plain_object
                       (Some (msg @ '' (line '' @ fmt_d (tok_start_line (curr_token c)) @ '')''))) ())) \<and>
   (duk__js_compile_raw k lx stmts flags filename lex0 = Some (Throw (Plain_object None) c) \<longrightarrow>
      duk_js_compile k lx stmts flags filename lex0 = Some (Throw (Plain_object None) ())) \<and>
   (duk__js_compile_raw k lx stmts flags filename lex0 = Some (Throw (Plain_value v) c) \<longrightarrow>
      duk_js_compile k lx stmts flags filename lex0 = Some (Throw (Plain_value v) ()))"
  by (simp add: duk_js_compile_def add_line_info_def)

theorem compile_error_line_annotation_witness:
  "duk_js_compile example_hdr example_lexer example_parse_stmts 6 (Some ''f.js'')
       (example_function_a_a, 0) =
     Some (Throw (Error_object DUK_ERR_SYNTAX_ERROR ''invalid arg name (line 3)'') ()) \<and>
   duk_js_compile example_hdr example_lexer example_parse_stmts 0 (Some ''f.js'')
       ([Inl (Plain_value (DUK_TVAL_STRING ''stop''))], 0) =
     Some (Throw (Plain_value (DUK_TVAL_STRING ''stop'')) ())"
proof -
  let ?raw = "duk__js_compile_raw example_hdr example_lexer example_parse_stmts 6 (Some ''f.js'')
                (example_function_a_a, 0)"
  have "case ?raw of
          Some (Throw e c) \<Rightarrow>
            e = Error_object DUK_ERR_SYNTAX_ERROR ''invalid arg name'' \<and>
            tok_start_line (curr_token c) = 3
        | _ \<Rightarrow> False"
    by code_simp
  then obtain c where raw: "?raw = Some (Throw (Error_object DUK_ERR_SYNTAX_ERROR ''invalid arg name'') c)"
    and line: "tok_start_line (curr_token c) = 3"
    by (auto split: option.splits res.splits)
  have fmt: "fmt_d 3 = ''3''" by code_simp
  have plain: "duk_js_compile example_hdr example_lexer example_parse_stmts 0 (Some ''f.js'')
       ([Inl (Plain_value (DUK_TVAL_STRING ''stop''))], 0) =
     Some (Throw (Plain_value (DUK_TVAL_STRING ''stop'')) ())"
    by code_simp
  from compile_error_line_annotation [THEN conjunct1, rule_format, OF raw] line fmt plain
  show ?thesis by simp
qed

section \<open>Claim about the formals of a strict function\<close>

text \<open>
  Claim C10. For every function whose formal parameter list contains a duplicate name,
  or a formal named \<^verbatim>\<open>eval\<close> or \<^verbatim>\<open>arguments\<close>, or a strict-reserved-word formal,
  compilation fails with a SyntaxError whenever the function's final strictness is
  strict, including when strictness is activated only by a \<^verbatim>\<open>use strict\<close> directive
  inside the function's own body, because formal names are validated in the pass-2
  prologue, after pass 1 has determined the final strictness.

  Here: the prologue \<^verbatim>\<open>duk__init_varmap_and_prologue_for_pass2\<close> throws the SyntaxError
  \<^verbatim>\<open>invalid arg name\<close> in every state of a strict function with such formals; and
  \<^verbatim>\<open>duk__parse_func_body\<close> throws it whenever the first pass returns with the function
  strict (however it became so) and the first token of the body is lexed again, with
  any statement parser and any lexer.
\<close>

theorem strict_formals_rejected_in_pass2:
  "(is_strict (curr_func c) \<and> invalid_strict_formals (h_argnames (curr_func c)) \<longrightarrow>
      thrown_value (duk__init_varmap_and_prologue_for_pass2 k want_stmt_value_reg c) =
        Some (Error_object DUK_ERR_SYNTAX_ERROR ''invalid arg name'')) \<and>
   (duk__parse_func_body_pass1 lx stmts expect_eof implicit c = Some (Ok lex_pt c1) \<and>
    is_strict (curr_func c1) \<and> invalid_strict_formals (h_argnames (curr_func c1)) \<and>
    duk__advance lx (set_curr_token_t 0 (c1\<lparr>lex := DUK_LEXER_SETPOINT lx (lex c1) lex_pt\<rparr>)) =
      Ok u c2 \<longrightarrow>
      map_option thrown_value (duk__parse_func_body k lx stmts expect_eof implicit c) =
        Some (Some (Error_object DUK_ERR_SYNTAX_ERROR ''invalid arg name'')))"
proof (intro conjI impI)
  assume "is_strict (curr_func c) \<and> invalid_strict_formals (h_argnames (curr_func c))"
  then show "thrown_value (duk__init_varmap_and_prologue_for_pass2 k want_stmt_value_reg c) =
        Some (Error_object DUK_ERR_SYNTAX_ERROR ''invalid arg name'')"
    using prologue_throws by blast
next
  assume a: "duk__parse_func_body_pass1 lx stmts expect_eof implicit c = Some (Ok lex_pt c1) \<and>
    is_strict (curr_func c1) \<and> invalid_strict_formals (h_argnames (curr_func c1)) \<and>
    duk__advance lx (set_curr_token_t 0 (c1\<lparr>lex := DUK_LEXER_SETPOINT lx (lex c1) lex_pt\<rparr>)) =
      Ok u c2"
  then have "thrown_value (duk__parse_func_body_prologue k lx implicit lex_pt c1) =
           Some (Error_object DUK_ERR_SYNTAX_ERROR ''invalid arg name'')"
    using body_prologue_throws by blast
  then obtain s where "duk__parse_func_body_prologue k lx implicit lex_pt c1 =
      Throw (Error_object DUK_ERR_SYNTAX_ERROR ''invalid arg name'') s"
    by (cases "duk__parse_func_body_prologue k lx implicit lex_pt c1") auto
  with a show "map_option thrown_value (duk__parse_func_body k lx stmts expect_eof implicit c) =
        Some (Some (Error_object DUK_ERR_SYNTAX_ERROR ''invalid arg name''))"
    by (simp add: duk__parse_func_body_def and_then_o_def)
qed

theorem strict_formals_rejected_in_pass2_witness:
  "\<not> is_strict (curr_func example_use_strict_body_ctx) \<and>
   invalid_strict_formals (h_argnames (curr_func example_use_strict_body_ctx)) \<and>
   map_option thrown_value
     (duk__parse_func_body example_hdr example_lexer example_directive_stmts False False
        example_use_strict_body_ctx) =
     Some (Some (Error_object DUK_ERR_SYNTAX_ERROR ''invalid arg name'')) \<and>
   duk_js_compile example_hdr example_lexer example_directive_stmts
       (DUK_JS_COMPILE_FLAG_FUNCEXPR example_hdr) (Some ''f.js'') (example_function_use_strict, 0) =
     Some (Throw (Error_object DUK_ERR_SYNTAX_ERROR ''invalid arg name (line 2)'') ())"
proof -
  have a: "\<not> is_strict (curr_func example_use_strict_body_ctx)" by code_simp
  have b: "invalid_strict_formals (h_argnames (curr_func example_use_strict_body_ctx))"
    by code_simp
  have "case duk__parse_func_body_pass1 example_lexer example_directive_stmts False False
               example_use_strict_body_ctx of
          Some (Ok lex_pt c1) \<Rightarrow>
            is_strict (curr_func c1) \<and> invalid_strict_formals (h_argnames (curr_func c1)) \<and>
            (case duk__advance example_lexer
                    (set_curr_token_t 0
                       (c1\<lparr>lex := DUK_LEXER_SETPOINT example_lexer (lex c1) lex_pt\<rparr>)) of
               Ok u c2 \<Rightarrow> True
             | _ \<Rightarrow> False)
        | _ \<Rightarrow> False"
    by code_simp
  then obtain lex_pt c1 u c2 where
    "duk__parse_func_body_pass1 example_lexer example_directive_stmts False False
       example_use_strict_body_ctx = Some (Ok lex_pt c1) \<and>
     is_strict (curr_func c1) \<and> invalid_strict_formals (h_argnames (curr_func c1)) \<and>
     duk__advance example_lexer
       (set_curr_token_t 0 (c1\<lparr>lex := DUK_LEXER_SETPOINT example_lexer (lex c1) lex_pt\<rparr>)) =
       Ok u c2"
    by (auto split: option.splits res.splits)
  from strict_formals_rejected_in_pass2 [THEN conjunct2, rule_format, OF this]
  have c: "map_option thrown_value
     (duk__parse_func_body example_hdr example_lexer example_directive_stmts False False
        example_use_strict_body_ctx) =
     Some (Some (Error_object DUK_ERR_SYNTAX_ERROR ''invalid arg name''))" .
  have d: "duk_js_compile example_hdr example_lexer example_directive_stmts
       (DUK_JS_COMPILE_FLAG_FUNCEXPR example_hdr) (Some ''f.js'') (example_function_use_strict, 0) =
     Some (Throw (Error_object DUK_ERR_SYNTAX_ERROR ''invalid arg name (line 2)'') ())"
    by code_simp
  from a b c d show ?thesis by blast
qed

end
